theory Spec2Isabelle
  imports Main
begin

section \<open>JavaScript values\<close>

text \<open>
  The payloads probed by the chat managers are run-time values of JavaScript. The model
  covers the values a hosted gateway can deliver: \<open>undefined\<close>, \<open>null\<close>, booleans,
  numbers, strings, arrays, plain objects (as \<open>JSON.parse\<close> builds them: own data
  properties only, prototype \<open>Object.prototype\<close>) and async-iterable stream objects.
  An object is the list of its own properties in the order the engine enumerates them;
  a key is looked up at its first occurrence. Numbers are restricted to integers (their
  decimal rendering is exact below \<open>10^21\<close>); strings are lists of characters. No value
  of the model is a function, so an own property named \<open>toString\<close> always hides the
  inherited method with something that cannot be called. A stream object carries the parts
  it yields and the error it raises after them, if any; it has no own data properties. A
  stream that breaks raises an \<open>Error\<close> object, which has a description.
\<close>

datatype js_error = Error string | TypeError string

fun message :: "js_error \<Rightarrow> string" where
  "message (Error m) = m"
| "message (TypeError m) = m"

datatype jsval =
    JUndefined
  | JNull
  | JBool bool
  | JNum int
  | JStr string
  | JArr "jsval list"
  | JObj "(string \<times> jsval) list"
  | JStream "jsval list" "js_error option"

text \<open>\<open>typeof v\<close>.\<close>

fun typeof :: "jsval \<Rightarrow> string" where
  "typeof JUndefined = ''undefined''"
| "typeof JNull = ''object''"
| "typeof (JBool b) = ''boolean''"
| "typeof (JNum n) = ''number''"
| "typeof (JStr s) = ''string''"
| "typeof (JArr xs) = ''object''"
| "typeof (JObj kvs) = ''object''"
| "typeof (JStream ps e) = ''object''"

text \<open>The truth value JavaScript gives \<open>v\<close> in a condition, \<open>v || w\<close> and \<open>!v\<close>.\<close>

fun truthy :: "jsval \<Rightarrow> bool" where
  "truthy JUndefined = False"
| "truthy JNull = False"
| "truthy (JBool b) = b"
| "truthy (JNum n) = (n \<noteq> 0)"
| "truthy (JStr s) = (s \<noteq> [])"
| "truthy (JArr xs) = True"
| "truthy (JObj kvs) = True"
| "truthy (JStream ps e) = True"

text \<open>
  \<open>v?.name\<close> for a data property name. The names the code probes (\<open>message\<close>,
  \<open>content\<close>, \<open>text\<close>, \<open>type\<close>, \<open>choices\<close>, \<open>data\<close>, \<open>response\<close>) are
  defined on no built-in prototype, so only an object's own property can answer; every
  other value, \<open>null\<close> and \<open>undefined\<close> included, gives \<open>undefined\<close>.
\<close>

fun get :: "jsval \<Rightarrow> string \<Rightarrow> jsval" where
  "get (JObj kvs) k = (case map_of kvs k of Some v \<Rightarrow> v | None \<Rightarrow> JUndefined)"
| "get v k = JUndefined"

text \<open>\<open>v.name\<close> without the optional chain: reading a property of \<open>null\<close> or
  \<open>undefined\<close> raises.\<close>

fun get_strict :: "jsval \<Rightarrow> string \<Rightarrow> js_error + jsval" where
  "get_strict JUndefined k =
     Inl (TypeError (''Cannot read properties of undefined (reading '' @ [CHR 0x27] @ k
                     @ [CHR 0x27] @ '')''))"
| "get_strict JNull k =
     Inl (TypeError (''Cannot read properties of null (reading '' @ [CHR 0x27] @ k
                     @ [CHR 0x27] @ '')''))"
| "get_strict v k = Inr (get v k)"

text \<open>\<open>v[0]\<close> on a value that is neither \<open>null\<close> nor \<open>undefined\<close>.\<close>

fun index0 :: "jsval \<Rightarrow> jsval" where
  "index0 (JArr xs) = (case xs of [] \<Rightarrow> JUndefined | x # _ \<Rightarrow> x)"
| "index0 (JObj kvs) = get (JObj kvs) ''0''"
| "index0 (JStr s) = (case s of [] \<Rightarrow> JUndefined | c # _ \<Rightarrow> JStr [c])"
| "index0 v = JUndefined"

fun isArray :: "jsval \<Rightarrow> bool" where
  "isArray (JArr xs) = True"
| "isArray v = False"

subsection \<open>Conversion to a string\<close>

definition digit_char :: "nat \<Rightarrow> char" where
  "digit_char d = ''0123456789abcdef'' ! d"

fun dec_nat :: "nat \<Rightarrow> string" where
  "dec_nat n =
     (if n < 10 then [digit_char n]
      else dec_nat (n div 10) @ [digit_char (n mod 10)])"

declare dec_nat.simps [simp del]

definition number_to_string :: "int \<Rightarrow> string" where
  "number_to_string n = (if n < 0 then CHR ''-'' # dec_nat (nat (- n)) else dec_nat (nat n))"

fun join_strings :: "string \<Rightarrow> string list \<Rightarrow> string" where
  "join_strings sep [] = []"
| "join_strings sep [s] = s"
| "join_strings sep (s # ss) = s @ sep @ join_strings sep ss"

text \<open>\<open>Array.prototype.join\<close> on the converted elements: the first conversion that
  raises ends the call.\<close>

fun join_results :: "string \<Rightarrow> (js_error + string) list \<Rightarrow> js_error + string" where
  "join_results sep [] = Inr []"
| "join_results sep [r] = r"
| "join_results sep (r # rs) =
     (case r of
        Inl e \<Rightarrow> Inl e
      | Inr s \<Rightarrow> (case join_results sep rs of
                   Inl e \<Rightarrow> Inl e
                 | Inr t \<Rightarrow> Inr (s @ sep @ t)))"

text \<open>
  \<open>ToString(v)\<close>, which is also what the inherited \<open>toString\<close> method of a number, a
  boolean, an array or a plain object returns. An array joins its elements with commas,
  \<open>null\<close> and \<open>undefined\<close> elements counting as empty. A plain object answers through
  \<open>Object.prototype.toString\<close>; when it has an own property \<open>toString\<close> (never callable
  here) the conversion finds no method that yields a primitive and raises.
\<close>

fun to_string :: "jsval \<Rightarrow> js_error + string" where
  "to_string JUndefined = Inr ''undefined''"
| "to_string JNull = Inr ''null''"
| "to_string (JBool b) = Inr (if b then ''true'' else ''false'')"
| "to_string (JNum n) = Inr (number_to_string n)"
| "to_string (JStr s) = Inr s"
| "to_string (JArr xs) =
     join_results '',''
       (map (\<lambda>x. if x = JUndefined \<or> x = JNull then Inr [] else to_string x) xs)"
| "to_string (JObj kvs) =
     (if ''toString'' \<in> fst ` set kvs
      then Inl (TypeError ''Cannot convert object to primitive value'')
      else Inr ''[object Object]'')"
| "to_string (JStream ps e) = Inr ''[object Object]''"

text \<open>\<open>v?.toString && typeof v.toString === 'function'\<close>: every value but \<open>null\<close> and
  \<open>undefined\<close> inherits the method, unless an own property hides it.\<close>

fun has_toString :: "jsval \<Rightarrow> bool" where
  "has_toString JUndefined = False"
| "has_toString JNull = False"
| "has_toString (JObj kvs) = (''toString'' \<notin> fst ` set kvs)"
| "has_toString v = True"

subsection \<open>What a \<open>catch\<close> receives\<close>

text \<open>
  JavaScript can throw, and reject a promise with, any value: an \<open>Error\<close> object, as
  the run-time system and \<open>throw new Error(...)\<close> do, or something else, \<open>null\<close> and
  \<open>undefined\<close> included. The handlers of the chat managers read \<open>error.message\<close>:
  the description of an \<open>Error\<close> object, the own property \<open>message\<close> of another
  object, \<open>undefined\<close> for a primitive; on \<open>null\<close> and \<open>undefined\<close> the read
  itself raises.
\<close>

datatype exception = ErrorObject js_error | Thrown jsval

fun error_message :: "exception \<Rightarrow> js_error + jsval" where
  "error_message (ErrorObject e) = Inr (JStr (message e))"
| "error_message (Thrown v) = get_strict v ''message''"

text \<open>The template literal \<open>`Error: ${error.message}`\<close>, which converts what it read
  to a string.\<close>

definition error_notice :: "exception \<Rightarrow> js_error + string" where
  "error_notice error =
     (case error_message error of
        Inl e \<Rightarrow> Inl e
      | Inr v \<Rightarrow> (case to_string v of Inl e \<Rightarrow> Inl e | Inr d \<Rightarrow> Inr (''Error: '' @ d)))"

section \<open>Response normalizer\<close>

text \<open>
  \<open>extractContentFromResponse\<close> of \<open>PuterChatManager\<close>; \<open>PuterSingleChatManager\<close> has
  the same method, branch for branch. The value returned is whatever the matching branch
  finds, so the result is a JavaScript value; a raise of the run-time system inside a
  branch is the \<open>Inl\<close> result.
\<close>

text \<open>\<open>item.text || item.content || ''\<close> for one element of an array response.\<close>

definition item_text :: "jsval \<Rightarrow> js_error + jsval" where
  "item_text item =
     (case get_strict item ''text'' of
        Inl e \<Rightarrow> Inl e
      | Inr t \<Rightarrow>
          if truthy t then Inr t
          else if truthy (get item ''content'') then Inr (get item ''content'')
          else Inr (JStr []))"

fun collect :: "(js_error + 'a) list \<Rightarrow> js_error + 'a list" where
  "collect [] = Inr []"
| "collect (r # rs) =
     (case r of
        Inl e \<Rightarrow> Inl e
      | Inr x \<Rightarrow> (case collect rs of Inl e \<Rightarrow> Inl e | Inr xs \<Rightarrow> Inr (x # xs)))"

text \<open>\<open>response.map(item => item.text || item.content || '').join('')\<close>.\<close>

definition join_item_texts :: "jsval list \<Rightarrow> js_error + string" where
  "join_item_texts items =
     (case collect (map item_text items) of
        Inl e \<Rightarrow> Inl e
      | Inr vs \<Rightarrow>
          join_results []
            (map (\<lambda>x. if x = JUndefined \<or> x = JNull then Inr [] else to_string x) vs))"

text \<open>
  The chain of probes, which \<open>extractContentFromResponse\<close> (in both managers) and
  \<open>displayChatResponse\<close> spell out in the same order: the result of the first branch
  whose condition holds, or \<open>None\<close> when the final \<open>else\<close> is reached.
\<close>

definition recognized :: "jsval \<Rightarrow> (js_error + jsval) option" where
  "recognized response =
     (case response of
        JStr s \<Rightarrow> Some (Inr (JStr s))
      | _ \<Rightarrow>
        if truthy (get (get response ''message'') ''content'')
          then Some (Inr (get (get response ''message'') ''content''))
        else if has_toString response
          then Some (map_sum id JStr (to_string response))
        else if isArray response \<and> truthy (get (index0 response) ''text'')
          then (case response of
                  JArr items \<Rightarrow> Some (map_sum id JStr (join_item_texts items))
                | _ \<Rightarrow> None)
        else if isArray response \<and> get (index0 response) ''type'' = JStr ''text''
                \<and> truthy (get (index0 response) ''text'')
          then Some (Inr (get (index0 response) ''text''))
        else if truthy (get response ''content'')
          then Some (Inr (get response ''content''))
        else if truthy (get response ''text'')
          then Some (Inr (get response ''text''))
        else if truthy (get response ''choices'')
                \<and> truthy (get (get (index0 (get response ''choices'')) ''message'') ''content'')
          then Some (Inr (get (get (index0 (get response ''choices'')) ''message'') ''content''))
        else if truthy (get (get response ''data'') ''content'')
          then Some (Inr (get (get response ''data'') ''content''))
        else if truthy (get (get response ''data'') ''text'')
          then Some (Inr (get (get response ''data'') ''text''))
        else if truthy (get response ''message'')
          then Some (Inr (get response ''message''))
        else if truthy (get response ''response'')
          then Some (Inr (get response ''response''))
        else None)"

definition extractContentFromResponse :: "jsval \<Rightarrow> js_error + jsval" where
  "extractContentFromResponse response =
     (case recognized response of
        Some result \<Rightarrow> result
      | None \<Rightarrow>
          Inr (JStr (''Received response but could not extract text content. Response type: ''
                     @ typeof response)))"

subsection \<open>The fallback of \<open>displayChatResponse\<close>\<close>

text \<open>\<open>Object.entries(v)\<close>: the own enumerable properties; an array and a string have
  their indices as keys.\<close>

fun indexed :: "nat \<Rightarrow> 'a list \<Rightarrow> (string \<times> 'a) list" where
  "indexed i [] = []"
| "indexed i (x # xs) = (dec_nat i, x) # indexed (Suc i) xs"

fun entries :: "jsval \<Rightarrow> (string \<times> jsval) list" where
  "entries (JObj kvs) = kvs"
| "entries (JArr xs) = indexed 0 xs"
| "entries (JStr s) = indexed 0 (map (\<lambda>c. JStr [c]) s)"
| "entries v = []"

fun nonempty_string :: "jsval \<Rightarrow> bool" where
  "nonempty_string (JStr s) = (s \<noteq> [])"
| "nonempty_string v = False"

text \<open>The local function \<open>flattenObject(obj, prefix)\<close>, with its loop over the entries
  of an object and of an array (whose keys are the indices from \<open>i\<close> on).\<close>

fun flattenObject :: "jsval \<Rightarrow> string \<Rightarrow> string list"
  and flatten_properties :: "(string \<times> jsval) list \<Rightarrow> string \<Rightarrow> string list"
  and flatten_elements :: "nat \<Rightarrow> jsval list \<Rightarrow> string \<Rightarrow> string list" where
  "flattenObject (JObj kvs) prefix = flatten_properties kvs prefix"
| "flattenObject (JArr xs) prefix = flatten_elements 0 xs prefix"
| "flattenObject (JStr s) prefix = map (\<lambda>(k, c). prefix @ k @ '': '' @ [c]) (indexed 0 s)"
| "flattenObject v prefix = []"
| "flatten_properties [] prefix = []"
| "flatten_properties ((k, v) # kvs) prefix =
     (case v of
        JStr s \<Rightarrow> (if s \<noteq> [] then [prefix @ k @ '': '' @ s] else [])
      | JArr xs \<Rightarrow> flattenObject v (prefix @ k @ ''.'')
      | JObj ps \<Rightarrow> flattenObject v (prefix @ k @ ''.'')
      | JStream ps e \<Rightarrow> flattenObject v (prefix @ k @ ''.'')
      | _ \<Rightarrow> [])
     @ flatten_properties kvs prefix"
| "flatten_elements i [] prefix = []"
| "flatten_elements i (v # vs) prefix =
     (case v of
        JStr s \<Rightarrow> (if s \<noteq> [] then [prefix @ dec_nat i @ '': '' @ s] else [])
      | JArr xs \<Rightarrow> flattenObject v (prefix @ dec_nat i @ ''.'')
      | JObj ps \<Rightarrow> flattenObject v (prefix @ dec_nat i @ ''.'')
      | JStream ps e \<Rightarrow> flattenObject v (prefix @ dec_nat i @ ''.'')
      | _ \<Rightarrow> [])
     @ flatten_elements (Suc i) vs prefix"

text \<open>
  The text \<open>displayChatResponse\<close> settles on before it shows it: the chain of probes,
  then in the final \<open>else\<close> the first own property that holds a non-empty string, then
  the flattened object, then a notice that lists the keys.
\<close>

definition displayChatResponse_content :: "jsval \<Rightarrow> js_error + jsval" where
  "displayChatResponse_content response =
     (case recognized response of
        Some result \<Rightarrow> result
      | None \<Rightarrow>
          (let props = (if truthy response then entries response else []);
               stringProps = filter (\<lambda>kv. nonempty_string (snd kv)) props
           in if stringProps \<noteq> [] then Inr (snd (hd stringProps))
              else if typeof response = ''object'' \<and> response \<noteq> JNull
                then (if flattenObject response [] \<noteq> []
                      then Inr (JStr (join_strings [CHR 0x0A] (flattenObject response [])))
                      else Inr (JStr (''Received response object with keys: ''
                                      @ join_strings '', '' (map fst (entries response))
                                      @ ''. Full response logged to console.'')))
              else Inr (JStr (''Received response but could not extract text content. Response type: ''
                              @ typeof response @ ''. Keys: ''
                              @ join_strings '', '' (map fst props)))))"

text \<open>A value whose conversion to a string cannot raise: neither the value nor, through
  nested arrays, any of its elements is an object with an own property \<open>toString\<close>.\<close>

fun plain :: "jsval \<Rightarrow> bool" where
  "plain (JArr xs) = (\<forall>x \<in> set xs. plain x)"
| "plain (JObj kvs) = (''toString'' \<notin> fst ` set kvs)"
| "plain v = True"

section \<open>Formatting of message content\<close>

text \<open>
  Both managers pass message text through a \<open>formatContent\<close> method that rewrites
  \<open>**x**\<close>, \<open>*x*\<close> and \<open>`x`\<close> with a global regular-expression replace and turns
  newlines into \<open><br>\<close>. The pattern \<open>d(.*?)d\<close> is matched from left to right:
  at an opening delimiter the capture is the shortest run of characters other than line
  terminators that is followed by the closing delimiter; when there is none the opening
  character is kept and the search goes on one character later.
\<close>

definition line_terminator :: "char \<Rightarrow> bool" where
  "line_terminator c = (c = CHR 0x0A \<or> c = CHR 0x0D)"

fun lazy_capture :: "string \<Rightarrow> string \<Rightarrow> string option" where
  "lazy_capture d [] = None"
| "lazy_capture d (c # cs) =
     (if take (length d) (c # cs) = d then Some []
      else if line_terminator c then None
      else map_option ((#) c) (lazy_capture d cs))"

text \<open>\<open>s.replace(/d(.*?)d/g, l + '$1' + r)\<close>; the counter is the number of characters
  of the match just replaced that are still to be skipped.\<close>

fun replace_wrapped :: "string \<Rightarrow> string \<Rightarrow> string \<Rightarrow> nat \<Rightarrow> string \<Rightarrow> string" where
  "replace_wrapped d l r k [] = []"
| "replace_wrapped d l r (Suc k) (c # cs) = replace_wrapped d l r k cs"
| "replace_wrapped d l r 0 (c # cs) =
     (if d \<noteq> [] \<and> take (length d) (c # cs) = d
      then (case lazy_capture d (drop (length d) (c # cs)) of
              Some cap \<Rightarrow>
                l @ cap @ r @ replace_wrapped d l r (2 * length d + length cap - 1) cs
            | None \<Rightarrow> c # replace_wrapped d l r 0 cs)
      else c # replace_wrapped d l r 0 cs)"

definition markdown :: "string \<Rightarrow> string" where
  "markdown s =
     replace_wrapped ''`'' ''<code>'' ''</code>'' 0
       (replace_wrapped ''*'' ''<em>'' ''</em>'' 0
         (replace_wrapped ''**'' ''<strong>'' ''</strong>'' 0 s))"

definition newlines_to_br :: "string \<Rightarrow> string" where
  "newlines_to_br s = concat (map (\<lambda>c. if c = CHR 0x0A then ''<br>'' else [c]) s)"

subsection \<open>\<open>JSON.stringify(v, null, 2)\<close>\<close>

definition json_escape_char :: "char \<Rightarrow> string" where
  "json_escape_char c =
     (if c = CHR 0x22 then [CHR 0x5C, CHR 0x22]
      else if c = CHR 0x5C then [CHR 0x5C, CHR 0x5C]
      else if c = CHR 0x08 then [CHR 0x5C, CHR ''b'']
      else if c = CHR 0x0C then [CHR 0x5C, CHR ''f'']
      else if c = CHR 0x0A then [CHR 0x5C, CHR ''n'']
      else if c = CHR 0x0D then [CHR 0x5C, CHR ''r'']
      else if c = CHR 0x09 then [CHR 0x5C, CHR ''t'']
      else if of_char c < (32 :: nat)
        then [CHR 0x5C, CHR ''u'', CHR ''0'', CHR ''0'',
              digit_char (of_char c div 16), digit_char (of_char c mod 16)]
      else [c])"

definition json_quote :: "string \<Rightarrow> string" where
  "json_quote s = [CHR 0x22] @ concat (map json_escape_char s) @ [CHR 0x22]"

text \<open>The first argument is the current depth of nesting. A property whose value is
  \<open>undefined\<close> is left out of an object; an \<open>undefined\<close> element of an array is
  written \<open>null\<close>. A stream object has no enumerable own property.\<close>

fun json_stringify :: "nat \<Rightarrow> jsval \<Rightarrow> string" where
  "json_stringify lvl JUndefined = ''null''"
| "json_stringify lvl JNull = ''null''"
| "json_stringify lvl (JBool b) = (if b then ''true'' else ''false'')"
| "json_stringify lvl (JNum n) = number_to_string n"
| "json_stringify lvl (JStr s) = json_quote s"
| "json_stringify lvl (JArr xs) =
     (if xs = [] then ''[]''
      else ''['' @ [CHR 0x0A] @ replicate (2 * Suc lvl) CHR '' ''
           @ join_strings ('','' @ [CHR 0x0A] @ replicate (2 * Suc lvl) CHR '' '')
               (map (json_stringify (Suc lvl)) xs)
           @ [CHR 0x0A] @ replicate (2 * lvl) CHR '' '' @ '']'')"
| "json_stringify lvl (JObj kvs) =
     (if filter (\<lambda>kv. snd kv \<noteq> JUndefined) kvs = [] then ''{}''
      else ''{'' @ [CHR 0x0A] @ replicate (2 * Suc lvl) CHR '' ''
           @ join_strings ('','' @ [CHR 0x0A] @ replicate (2 * Suc lvl) CHR '' '')
               (map (\<lambda>kv. json_quote (fst kv) @ '': '' @ json_stringify (Suc lvl) (snd kv))
                  (filter (\<lambda>kv. snd kv \<noteq> JUndefined) kvs))
           @ [CHR 0x0A] @ replicate (2 * lvl) CHR '' '' @ ''}'')"
| "json_stringify lvl (JStream ps e) = ''{}''"

text \<open>
  \<open>PuterUIManager.formatContent\<close> (the class declares the method twice; the later
  declaration is the one in force): a falsy value gives the empty string, an object or
  array is rendered by \<open>JSON.stringify\<close>, a number or boolean by \<open>String\<close>; then the
  newlines are replaced and the markdown rewritten.
\<close>

definition formatContent :: "jsval \<Rightarrow> string" where
  "formatContent c =
     (if \<not> truthy c then []
      else markdown (newlines_to_br
             (case c of
                JStr s \<Rightarrow> s
              | JBool b \<Rightarrow> (if b then ''true'' else ''false'')
              | JNum n \<Rightarrow> number_to_string n
              | _ \<Rightarrow> json_stringify 0 c)))"

text \<open>
  \<open>PuterSingleChatManager.formatContent\<close>: a falsy value gives the empty string;
  otherwise the method calls \<open>content.replace\<close>, which only a string has. Here the
  markdown is rewritten before the newlines are replaced.
\<close>

definition single_format_text :: "string \<Rightarrow> string" where
  "single_format_text s = (if s = [] then [] else newlines_to_br (markdown s))"

definition single_formatContent :: "jsval \<Rightarrow> js_error + string" where
  "single_formatContent c =
     (if \<not> truthy c then Inr []
      else (case c of
              JStr s \<Rightarrow> Inr (single_format_text s)
            | _ \<Rightarrow> Inl (TypeError ''content.replace is not a function'')))"

section \<open>Model registry and gateway\<close>

text \<open>
  \<open>puterModelCapabilities\<close> and the hosted gateway \<open>puter.ai.chat\<close> are collaborators
  outside the code at hand, so both are parameters of the model: \<open>getModel\<close> looks a
  model identifier up in the registry, \<open>chat\<close> answers one request. A request is what the
  call passes: a sequence of turns or one string, and the options object. The answer either
  rejects, with an \<open>Error\<close> object or with any other value, or resolves to a value,
  which may be a stream object.
\<close>

type_synonym model_id = string

record model =
  name :: string
  parameters :: "(string \<times> jsval) list"

record chat_turn =
  role :: string
  content :: jsval

datatype chat_input = Turns "chat_turn list" | Text string

record request =
  input :: chat_input
  options :: "(string \<times> jsval) list"

datatype chat_result = Rejects exception | Resolves jsval

type_synonym registry = "model_id \<Rightarrow> model option"
type_synonym gateway = "request \<Rightarrow> chat_result"

text \<open>\<open>{...obj, k: v}\<close>: the property keeps its place when \<open>obj\<close> has it already.\<close>

fun set_property :: "string \<Rightarrow> jsval \<Rightarrow> (string \<times> jsval) list \<Rightarrow> (string \<times> jsval) list" where
  "set_property k v [] = [(k, v)]"
| "set_property k v (p # ps) = (if fst p = k then (k, v) # ps else p # set_property k v ps)"

definition streaming_options :: "model \<Rightarrow> (string \<times> jsval) list" where
  "streaming_options m = set_property ''stream'' (JBool True) (parameters m)"

definition system_prompt :: "string \<Rightarrow> string" where
  "system_prompt n =
     ''You are '' @ n @ ''. Always identify yourself correctly as '' @ n
     @ '' when asked about your identity. Do not claim to be ChatGPT or any other model.''"

definition system_turn :: "model \<Rightarrow> chat_turn" where
  "system_turn m = \<lparr>role = ''system'', content = JStr (system_prompt (name m))\<rparr>"

definition user_turn :: "string \<Rightarrow> chat_turn" where
  "user_turn msg = \<lparr>role = ''user'', content = JStr msg\<rparr>"

definition assistant_turn :: "jsval \<Rightarrow> chat_turn" where
  "assistant_turn c = \<lparr>role = ''assistant'', content = c\<rparr>"

text \<open>The single string of the degraded request:
  \<open>`${systemMessage}\n\nUser: ${message}`\<close>.\<close>

definition flattened :: "string \<Rightarrow> string \<Rightarrow> string" where
  "flattened systemMessage msg = systemMessage @ [CHR 0x0A, CHR 0x0A] @ ''User: '' @ msg"

section \<open>Grid mode: panels and the per-model dispatcher\<close>

text \<open>
  \<open>puterUIManager.chatWindows\<close> maps a model identifier to the message container of its
  panel; the container is the list of its child elements. An assistant message carries the
  inner HTML of its content element. A message element handed back to the caller is
  referred to by its position in the container. Scroll positions are not part of the model.
\<close>

datatype element = Placeholder | UserMessage string | AssistantMessage string | TypingIndicator

type_synonym chat_windows = "model_id \<Rightarrow> element list option"

text \<open>\<open>container.querySelector(sel)?.remove()\<close>: the first matching child goes.\<close>

fun remove_first :: "('a \<Rightarrow> bool) \<Rightarrow> 'a list \<Rightarrow> 'a list" where
  "remove_first P [] = []"
| "remove_first P (x # xs) = (if P x then xs else x # remove_first P xs)"

definition showTypingIndicator :: "model_id \<Rightarrow> chat_windows \<Rightarrow> chat_windows" where
  "showTypingIndicator modelId cw =
     (case cw modelId of
        None \<Rightarrow> cw
      | Some els \<Rightarrow> cw(modelId \<mapsto> els @ [TypingIndicator]))"

definition removeTypingIndicator :: "model_id \<Rightarrow> chat_windows \<Rightarrow> chat_windows" where
  "removeTypingIndicator modelId cw =
     (case cw modelId of
        None \<Rightarrow> cw
      | Some els \<Rightarrow> cw(modelId \<mapsto> remove_first (\<lambda>x. x = TypingIndicator) els))"

text \<open>Returns the new message element (its position), or \<open>null\<close> when the model has
  no panel.\<close>

definition displayAssistantMessage ::
    "model_id \<Rightarrow> jsval \<Rightarrow> chat_windows \<Rightarrow> nat option \<times> chat_windows" where
  "displayAssistantMessage modelId c cw =
     (case cw modelId of
        None \<Rightarrow> (None, cw)
      | Some els \<Rightarrow>
          (let els' = remove_first (\<lambda>x. x = Placeholder) els
                        @ [AssistantMessage (formatContent c)]
           in (Some (length els' - 1), cw(modelId \<mapsto> els'))))"

text \<open>\<open>if (messageDiv) { contentDiv.innerHTML = html }\<close>.\<close>

definition set_message_content ::
    "model_id \<Rightarrow> nat option \<Rightarrow> string \<Rightarrow> chat_windows \<Rightarrow> chat_windows" where
  "set_message_content modelId messageDiv html cw =
     (case messageDiv of
        None \<Rightarrow> cw
      | Some i \<Rightarrow>
          (case cw modelId of
             None \<Rightarrow> cw
           | Some els \<Rightarrow> cw(modelId \<mapsto> els[i := AssistantMessage html])))"

text \<open>
  The \<open>for await\<close> loop of \<open>handleStreamingResponseForModel\<close> over the parts the stream
  yields, then the stream's end: \<open>fullContent += part.text\<close> converts the fragment to a
  string, which can raise. The result is the error that left the loop, if any.
\<close>

fun consume_stream ::
    "model_id \<Rightarrow> nat option \<Rightarrow> string \<Rightarrow> jsval list \<Rightarrow> js_error option \<Rightarrow> chat_windows
     \<Rightarrow> js_error option \<times> chat_windows" where
  "consume_stream modelId messageDiv fullContent [] fin cw = (fin, cw)"
| "consume_stream modelId messageDiv fullContent (part # parts) fin cw =
     (if truthy (get part ''text'')
      then (case to_string (get part ''text'') of
              Inl e \<Rightarrow> (Some e, cw)
            | Inr t \<Rightarrow>
                consume_stream modelId messageDiv (fullContent @ t) parts fin
                  (set_message_content modelId messageDiv
                     (formatContent (JStr (fullContent @ t))) cw))
      else consume_stream modelId messageDiv fullContent parts fin cw)"

text \<open>\<open>handleStreamingResponseForModel\<close>, given the parts of the stream object and
  its end. The \<open>catch\<close> of the method writes the error's description into the message
  element; nothing is raised to the caller.\<close>

definition handleStreamingResponseForModel ::
    "jsval list \<Rightarrow> js_error option \<Rightarrow> model_id \<Rightarrow> chat_windows \<Rightarrow> chat_windows" where
  "handleStreamingResponseForModel parts fin modelId cw =
     (let (messageDiv, cw1) = displayAssistantMessage modelId (JStr [])
                                (removeTypingIndicator modelId cw)
      in (case consume_stream modelId messageDiv [] parts fin cw1 of
            (None, cw2) \<Rightarrow> cw2
          | (Some error, cw2) \<Rightarrow>
              set_message_content modelId messageDiv (''Error: '' @ message error) cw2))"

text \<open>\<open>displayResponseForModel\<close>: the normalizer may raise.\<close>

definition displayResponseForModel ::
    "jsval \<Rightarrow> model_id \<Rightarrow> chat_windows \<Rightarrow> js_error + chat_windows" where
  "displayResponseForModel response modelId cw =
     (case extractContentFromResponse response of
        Inl e \<Rightarrow> Inl e
      | Inr c \<Rightarrow> Inr (snd (displayAssistantMessage modelId c cw)))"

text \<open>
  What a dispatch leaves behind: the requests it sent to the gateway, in order, the panels,
  and the error that escaped the call, if any.
\<close>

record dispatch =
  requests :: "request list"
  windows :: chat_windows
  escaped :: "js_error option"

definition image_notice :: string where
  "image_notice = [CHR 0xE2, CHR 0x9D, CHR 0x8C]
                  @ '' Image analysis is not supported in this version.''"

text \<open>The four requests a grid dispatch can send: the turn sequence and the flattened
  string, each with \<open>{...model.parameters, stream: true}\<close> and with
  \<open>model.parameters\<close> alone.\<close>

definition grid_messages :: "model \<Rightarrow> string \<Rightarrow> chat_turn list" where
  "grid_messages m msg = [system_turn m, user_turn msg]"

definition grid_fullMessage :: "model \<Rightarrow> string \<Rightarrow> string" where
  "grid_fullMessage m msg = flattened (system_prompt (name m)) msg"

definition streaming_turns :: "model \<Rightarrow> string \<Rightarrow> request" where
  "streaming_turns m msg = \<lparr>input = Turns (grid_messages m msg), options = streaming_options m\<rparr>"

definition streaming_text :: "model \<Rightarrow> string \<Rightarrow> request" where
  "streaming_text m msg = \<lparr>input = Text (grid_fullMessage m msg), options = streaming_options m\<rparr>"

definition blocking_turns :: "model \<Rightarrow> string \<Rightarrow> request" where
  "blocking_turns m msg = \<lparr>input = Turns (grid_messages m msg), options = parameters m\<rparr>"

definition blocking_text :: "model \<Rightarrow> string \<Rightarrow> request" where
  "blocking_text m msg = \<lparr>input = Text (grid_fullMessage m msg), options = parameters m\<rparr>"

text \<open>The tail of the \<open>try\<close> body once a response is at hand: the typing indicator
  goes, the normalized response is shown.\<close>

definition show_response ::
    "jsval \<Rightarrow> model_id \<Rightarrow> chat_windows \<Rightarrow> (exception + unit) \<times> chat_windows" where
  "show_response response modelId cw =
     (case displayResponseForModel response modelId (removeTypingIndicator modelId cw) of
        Inl e \<Rightarrow> (Inl (ErrorObject e), removeTypingIndicator modelId cw)
      | Inr cw' \<Rightarrow> (Inr (), cw'))"

text \<open>The direct response fallback: the turn sequence first, the flattened string when
  that call raises.\<close>

definition direct_response ::
    "gateway \<Rightarrow> string \<Rightarrow> model_id \<Rightarrow> model \<Rightarrow> chat_windows
     \<Rightarrow> request list \<times> (exception + unit) \<times> chat_windows" where
  "direct_response chat msg modelId m cw =
     (case chat (blocking_turns m msg) of
        Resolves response \<Rightarrow> ([blocking_turns m msg], show_response response modelId cw)
      | Rejects e \<Rightarrow>
          (case chat (blocking_text m msg) of
             Resolves response \<Rightarrow>
               ([blocking_turns m msg, blocking_text m msg], show_response response modelId cw)
           | Rejects e' \<Rightarrow> ([blocking_turns m msg, blocking_text m msg], Inl e', cw)))"

definition after_requests ::
    "request list \<Rightarrow> request list \<times> 'a \<Rightarrow> request list \<times> 'a" where
  "after_requests reqs r = (reqs @ fst r, snd r)"

text \<open>
  The body of the outer \<open>try\<close> of \<open>sendMessageToModel\<close>, after the typing indicator is
  shown and the model found. \<open>Inl\<close> is the error that reaches the outer \<open>catch\<close>. A
  streaming answer is consumed only when it is a stream object
  (\<open>typeof r[Symbol.asyncIterator] === 'function'\<close>).
\<close>

definition dispatch_body ::
    "gateway \<Rightarrow> string \<Rightarrow> 'img list \<Rightarrow> model_id \<Rightarrow> model \<Rightarrow> chat_windows
     \<Rightarrow> request list \<times> (exception + unit) \<times> chat_windows" where
  "dispatch_body chat msg images modelId m cw =
     (if images \<noteq> [] then ([], show_response (JStr image_notice) modelId cw)
      else (case chat (streaming_turns m msg) of
              Resolves (JStream parts fin) \<Rightarrow>
                ([streaming_turns m msg], Inr (),
                 handleStreamingResponseForModel parts fin modelId cw)
            | Resolves streamResponse \<Rightarrow>
                after_requests [streaming_turns m msg] (direct_response chat msg modelId m cw)
            | Rejects e \<Rightarrow>
                (case chat (streaming_text m msg) of
                   Resolves (JStream parts fin) \<Rightarrow>
                     ([streaming_turns m msg, streaming_text m msg], Inr (),
                      handleStreamingResponseForModel parts fin modelId cw)
                 | Resolves streamResponse2 \<Rightarrow>
                     after_requests [streaming_turns m msg, streaming_text m msg]
                       (direct_response chat msg modelId m cw)
                 | Rejects e2 \<Rightarrow>
                     after_requests [streaming_turns m msg, streaming_text m msg]
                       (direct_response chat msg modelId m cw))))"

text \<open>The outer \<open>catch\<close> of \<open>sendMessageToModel\<close>: the typing indicator goes, then
  \<open>Error: \<close> and what \<open>error.message\<close> gives is shown in the model's panel. When
  building that text raises, the handler ends there: the result is the error that leaves
  it, if any, and the panels.\<close>

definition dispatch_catch ::
    "exception \<Rightarrow> model_id \<Rightarrow> chat_windows \<Rightarrow> js_error option \<times> chat_windows" where
  "dispatch_catch error modelId cw =
     (case error_notice error of
        Inl e \<Rightarrow> (Some e, removeTypingIndicator modelId cw)
      | Inr notice \<Rightarrow>
          (None, snd (displayAssistantMessage modelId (JStr notice)
                        (removeTypingIndicator modelId cw))))"

text \<open>
  \<open>sendMessageToModel\<close>, run from the call to the settlement of its promise. An error
  raised inside the \<open>catch\<close> handler is not caught by anything: the promise is rejected
  with it.
\<close>

definition sendMessageToModel ::
    "registry \<Rightarrow> gateway \<Rightarrow> string \<Rightarrow> 'img list \<Rightarrow> model_id \<Rightarrow> chat_windows \<Rightarrow> dispatch" where
  "sendMessageToModel getModel chat msg images modelId cw =
     (let cw0 = showTypingIndicator modelId cw;
          (reqs, outcome, cw1) =
            (case getModel modelId of
               None \<Rightarrow>
                 ([], Inl (ErrorObject (Error (''Model '' @ modelId @ '' not found''))), cw0)
             | Some m \<Rightarrow> dispatch_body chat msg images modelId m cw0)
      in (case outcome of
            Inr u \<Rightarrow> \<lparr>requests = reqs, windows = cw1, escaped = None\<rparr>
          | Inl error \<Rightarrow>
              \<lparr>requests = reqs, windows = snd (dispatch_catch error modelId cw1),
               escaped = fst (dispatch_catch error modelId cw1)\<rparr>))"

text \<open>Where the panels end up once the \<open>try\<close> body has run: untouched after a
  normal end, through the \<open>catch\<close> after an error.\<close>

definition landed ::
    "model_id \<Rightarrow> request list \<times> (exception + unit) \<times> chat_windows \<Rightarrow> chat_windows" where
  "landed modelId r =
     (case fst (snd r) of
        Inr u \<Rightarrow> snd (snd r)
      | Inl error \<Rightarrow> snd (dispatch_catch error modelId (snd (snd r))))"

subsection \<open>Transport tiers\<close>

text \<open>
  Vocabulary for the properties below. A streaming attempt delivers when the gateway
  resolves to a stream object. The streaming answer is that of the streaming call with
  the turn sequence or, when that call raises, of the streaming call with the flattened
  string; the blocking answer likewise for the two blocking calls. The dispatch streams
  when the streaming answer delivers. \<open>answered els x\<close> is a panel after a dispatch
  that found the children \<open>els\<close>, showed its typing indicator, took the first
  indicator away again and appended the element \<open>x\<close>, which removes the placeholder.
\<close>

definition delivers_stream :: "chat_result \<Rightarrow> bool" where
  "delivers_stream r = (case r of Resolves (JStream ps e) \<Rightarrow> True | _ \<Rightarrow> False)"

definition rejected :: "chat_result \<Rightarrow> bool" where
  "rejected r = (case r of Rejects e \<Rightarrow> True | Resolves v \<Rightarrow> False)"

definition stream_answer :: "gateway \<Rightarrow> model \<Rightarrow> string \<Rightarrow> chat_result" where
  "stream_answer chat m msg =
     (case chat (streaming_turns m msg) of
        Rejects e \<Rightarrow> chat (streaming_text m msg)
      | Resolves v \<Rightarrow> Resolves v)"

definition streamed :: "gateway \<Rightarrow> model \<Rightarrow> string \<Rightarrow> bool" where
  "streamed chat m msg = delivers_stream (stream_answer chat m msg)"

definition streaming_requests :: "gateway \<Rightarrow> model \<Rightarrow> string \<Rightarrow> request list" where
  "streaming_requests chat m msg =
     (if rejected (chat (streaming_turns m msg))
      then [streaming_turns m msg, streaming_text m msg]
      else [streaming_turns m msg])"

definition blocking_requests :: "gateway \<Rightarrow> model \<Rightarrow> string \<Rightarrow> request list" where
  "blocking_requests chat m msg =
     (if rejected (chat (blocking_turns m msg))
      then [blocking_turns m msg, blocking_text m msg]
      else [blocking_turns m msg])"

definition blocking_answer :: "gateway \<Rightarrow> model \<Rightarrow> string \<Rightarrow> chat_result" where
  "blocking_answer chat m msg =
     (case chat (blocking_turns m msg) of
        Rejects e \<Rightarrow> chat (blocking_text m msg)
      | Resolves v \<Rightarrow> Resolves v)"

definition answered :: "element list \<Rightarrow> element \<Rightarrow> element list" where
  "answered els x =
     remove_first (\<lambda>y. y = Placeholder)
       (remove_first (\<lambda>y. y = TypingIndicator) (els @ [TypingIndicator])) @ [x]"

text \<open>Text that formatting leaves as it is: no newline, asterisk or backquote.\<close>

definition unmarked :: "string \<Rightarrow> bool" where
  "unmarked s = (CHR 0x0A \<notin> set s \<and> CHR ''*'' \<notin> set s \<and> CHR ''`'' \<notin> set s)"

text \<open>Text that reads the same as inner HTML: no tag opens in it and no character
  reference starts.\<close>

definition literal_html :: "string \<Rightarrow> bool" where
  "literal_html s = (CHR ''<'' \<notin> set s \<and> CHR ''&'' \<notin> set s)"

subsection \<open>The dispatch as a task that is suspended and resumed\<close>

text \<open>
  \<open>sendMessageToModel\<close> is an \<open>async\<close> function: a call runs up to its first
  \<open>await\<close> and hands back a promise; the event loop resumes it when the awaited answer
  or stream part is there, and other dispatches run in between. A task is the point at
  which a dispatch is suspended: waiting for the gateway's answer to one of the four
  requests (with the model it found), waiting for the next part of a stream (with the
  message element, the text so far, the parts still to come and the stream's end), or
  settled.
\<close>

datatype stage = StreamTurns | StreamText | DirectTurns | DirectText

datatype task =
    AwaitChat stage model
  | AwaitPart "nat option" string "jsval list" "js_error option"
  | Settled

text \<open>The promise settles, fulfilled or rejected: an error that left the \<open>try\<close>
  body goes through the \<open>catch\<close> first.\<close>

definition settle :: "model_id \<Rightarrow> (exception + unit) \<times> chat_windows \<Rightarrow> task \<times> chat_windows" where
  "settle modelId r =
     (Settled,
      case fst r of Inr u \<Rightarrow> snd r | Inl error \<Rightarrow> snd (dispatch_catch error modelId (snd r)))"

text \<open>The call itself, up to the first \<open>await\<close>.\<close>

definition start ::
    "registry \<Rightarrow> string \<Rightarrow> 'img list \<Rightarrow> model_id \<Rightarrow> chat_windows \<Rightarrow> task \<times> chat_windows" where
  "start getModel msg images modelId cw =
     (case getModel modelId of
        None \<Rightarrow>
          settle modelId
            (Inl (ErrorObject (Error (''Model '' @ modelId @ '' not found''))),
             showTypingIndicator modelId cw)
      | Some m \<Rightarrow>
          if images \<noteq> [] then
            settle modelId (show_response (JStr image_notice) modelId (showTypingIndicator modelId cw))
          else (AwaitChat StreamTurns m, showTypingIndicator modelId cw))"

text \<open>The start of \<open>handleStreamingResponseForModel\<close>, up to the first part.\<close>

definition begin_stream ::
    "jsval list \<Rightarrow> js_error option \<Rightarrow> model_id \<Rightarrow> chat_windows \<Rightarrow> task \<times> chat_windows" where
  "begin_stream parts fin modelId cw =
     (let (messageDiv, cw1) = displayAssistantMessage modelId (JStr [])
                                (removeTypingIndicator modelId cw)
      in (AwaitPart messageDiv [] parts fin, cw1))"

text \<open>One resumption: from the arrival of what the task waits for to its next
  \<open>await\<close> or its settlement.\<close>

fun resume :: "gateway \<Rightarrow> string \<Rightarrow> model_id \<Rightarrow> task \<Rightarrow> chat_windows \<Rightarrow> task \<times> chat_windows" where
  "resume chat msg modelId (AwaitChat StreamTurns m) cw =
     (case chat (streaming_turns m msg) of
        Resolves (JStream parts fin) \<Rightarrow> begin_stream parts fin modelId cw
      | Resolves streamResponse \<Rightarrow> (AwaitChat DirectTurns m, cw)
      | Rejects e \<Rightarrow> (AwaitChat StreamText m, cw))"
| "resume chat msg modelId (AwaitChat StreamText m) cw =
     (case chat (streaming_text m msg) of
        Resolves (JStream parts fin) \<Rightarrow> begin_stream parts fin modelId cw
      | Resolves streamResponse2 \<Rightarrow> (AwaitChat DirectTurns m, cw)
      | Rejects e2 \<Rightarrow> (AwaitChat DirectTurns m, cw))"
| "resume chat msg modelId (AwaitChat DirectTurns m) cw =
     (case chat (blocking_turns m msg) of
        Resolves response \<Rightarrow> settle modelId (show_response response modelId cw)
      | Rejects e \<Rightarrow> (AwaitChat DirectText m, cw))"
| "resume chat msg modelId (AwaitChat DirectText m) cw =
     (case chat (blocking_text m msg) of
        Resolves response \<Rightarrow> settle modelId (show_response response modelId cw)
      | Rejects e \<Rightarrow> settle modelId (Inl e, cw))"
| "resume chat msg modelId (AwaitPart messageDiv fullContent [] fin) cw =
     (Settled,
      case fin of
        None \<Rightarrow> cw
      | Some error \<Rightarrow> set_message_content modelId messageDiv (''Error: '' @ message error) cw)"
| "resume chat msg modelId (AwaitPart messageDiv fullContent (part # parts) fin) cw =
     (if truthy (get part ''text'')
      then (case to_string (get part ''text'') of
              Inl error \<Rightarrow>
                (Settled,
                 set_message_content modelId messageDiv (''Error: '' @ message error) cw)
            | Inr t \<Rightarrow>
                (AwaitPart messageDiv (fullContent @ t) parts fin,
                 set_message_content modelId messageDiv
                   (formatContent (JStr (fullContent @ t))) cw))
      else (AwaitPart messageDiv fullContent parts fin, cw))"
| "resume chat msg modelId Settled cw = (Settled, cw)"

text \<open>A task resumed \<open>k\<close> times on its own.\<close>

definition run_alone ::
    "registry \<Rightarrow> gateway \<Rightarrow> string \<Rightarrow> 'img list \<Rightarrow> model_id \<Rightarrow> nat \<Rightarrow> chat_windows
     \<Rightarrow> task \<times> chat_windows" where
  "run_alone getModel chat msg images modelId k cw =
     ((\<lambda>tc. resume chat msg modelId (fst tc) (snd tc)) ^^ k)
       (start getModel msg images modelId cw)"

text \<open>A suspended task settles within \<open>n\<close> resumptions, leaving the panels \<open>cw'\<close>.\<close>

definition settles_within ::
    "gateway \<Rightarrow> string \<Rightarrow> model_id \<Rightarrow> nat \<Rightarrow> task \<times> chat_windows \<Rightarrow> chat_windows \<Rightarrow> bool" where
  "settles_within chat msg modelId n tc cw' =
     (\<exists>k \<le> n. ((\<lambda>tc. resume chat msg modelId (fst tc) (snd tc)) ^^ k) tc = (Settled, cw'))"

text \<open>A number of resumptions that is enough for a dispatch: four answers of the
  gateway at most, and for a stream its parts and its end.\<close>

definition stream_length :: "chat_result \<Rightarrow> nat" where
  "stream_length r = (case r of Resolves (JStream parts fin) \<Rightarrow> Suc (length parts) | _ \<Rightarrow> 0)"

definition resumptions :: "registry \<Rightarrow> gateway \<Rightarrow> string \<Rightarrow> model_id \<Rightarrow> nat" where
  "resumptions getModel chat msg modelId =
     (case getModel modelId of
        None \<Rightarrow> 0
      | Some m \<Rightarrow> 4 + stream_length (chat (streaming_turns m msg))
                   + stream_length (chat (streaming_text m msg)))"

section \<open>Grid mode: the fan-out coordinator\<close>

text \<open>
  \<open>sendMessageToAllModels\<close> maps \<open>sendMessageToModel\<close> over the model identifiers,
  which runs every call up to its first \<open>await\<close>, one after the other, and then awaits
  \<open>Promise.allSettled\<close> of the promises. While it waits the event loop resumes the
  pending dispatches in an order the code does not control: the schedule, a list of
  positions in \<open>modelIds\<close>, is that order. \<open>Promise.allSettled\<close> never rejects, so the
  \<open>catch\<close> around it has nothing to handle; it resolves when every task is settled.
\<close>

type_synonym pool = "(model_id \<times> task) list"

fun start_all ::
    "registry \<Rightarrow> string \<Rightarrow> 'img list \<Rightarrow> model_id list \<Rightarrow> chat_windows \<Rightarrow> pool \<times> chat_windows" where
  "start_all getModel msg images [] cw = ([], cw)"
| "start_all getModel msg images (modelId # modelIds) cw =
     (let (t, cw1) = start getModel msg images modelId cw;
          (ts, cw2) = start_all getModel msg images modelIds cw1
      in ((modelId, t) # ts, cw2))"

definition resume_nth :: "gateway \<Rightarrow> string \<Rightarrow> nat \<Rightarrow> pool \<times> chat_windows \<Rightarrow> pool \<times> chat_windows" where
  "resume_nth chat msg i pc =
     (if i < length (fst pc)
      then (let (modelId, t) = fst pc ! i;
                (t', cw') = resume chat msg modelId t (snd pc)
            in ((fst pc)[i := (modelId, t')], cw'))
      else pc)"

definition all_settled :: "pool \<Rightarrow> bool" where
  "all_settled ts = list_all (\<lambda>mt. snd mt = Settled) ts"

definition sendMessageToAllModels ::
    "registry \<Rightarrow> gateway \<Rightarrow> string \<Rightarrow> 'img list \<Rightarrow> model_id list \<Rightarrow> nat list \<Rightarrow> chat_windows
     \<Rightarrow> pool \<times> chat_windows" where
  "sendMessageToAllModels getModel chat msg images modelIds schedule cw =
     fold (resume_nth chat msg) schedule (start_all getModel msg images modelIds cw)"

section \<open>Focused chat: one model, one conversation\<close>

text \<open>
  The state of \<open>PuterSingleChatManager\<close>: the selected model (\<open>null\<close> is \<open>None\<close>), the
  conversation, the in-flight flag, the children of the message container, and the
  notices \<open>showError\<close> has put on the page (their removal after three seconds is not
  modelled).
\<close>

datatype single_element =
    WelcomeMessage "string option"
  | SingleUserMessage string
  | SingleAssistantMessage string string
  | SingleTypingIndicator

record session =
  currentModel :: "model_id option"
  chatHistory :: "chat_turn list"
  isProcessing :: bool
  messagesContainer :: "single_element list"
  notices :: "string list"

definition showError :: "string \<Rightarrow> session \<Rightarrow> session" where
  "showError text s = s\<lparr>notices := notices s @ [text]\<rparr>"

definition clearChat :: "session \<Rightarrow> session" where
  "clearChat s = s\<lparr>chatHistory := [], messagesContainer := []\<rparr>"

definition showModelSelectedMessage :: "registry \<Rightarrow> model_id \<Rightarrow> session \<Rightarrow> session" where
  "showModelSelectedMessage getModel modelId s =
     (case getModel modelId of
        None \<Rightarrow> s
      | Some m \<Rightarrow> s\<lparr>messagesContainer := [WelcomeMessage (Some (name m))]\<rparr>)"

definition handleModelChange :: "registry \<Rightarrow> string \<Rightarrow> session \<Rightarrow> session" where
  "handleModelChange getModel modelId s =
     (if modelId = []
      then s\<lparr>currentModel := None, messagesContainer := [WelcomeMessage None]\<rparr>
      else showModelSelectedMessage getModel modelId
             (clearChat (s\<lparr>currentModel := Some modelId\<rparr>)))"

text \<open>\<open>!message.trim()\<close>: the message is empty or all white space (the white space of
  the ASCII range; a character is one byte here).\<close>

definition white_space :: "char \<Rightarrow> bool" where
  "white_space c = (c \<in> {CHR 0x09, CHR 0x0A, CHR 0x0B, CHR 0x0C, CHR 0x0D, CHR 0x20})"

definition blank :: "string \<Rightarrow> bool" where
  "blank msg = list_all white_space msg"

fun is_welcome :: "single_element \<Rightarrow> bool" where
  "is_welcome (WelcomeMessage h) = True"
| "is_welcome x = False"

definition remove_nth :: "nat \<Rightarrow> 'a list \<Rightarrow> 'a list" where
  "remove_nth i xs = take i xs @ drop (Suc i) xs"

definition displayUserMessage :: "string \<Rightarrow> session \<Rightarrow> session" where
  "displayUserMessage msg s =
     s\<lparr>messagesContainer := messagesContainer s @ [SingleUserMessage (single_format_text msg)]\<rparr>"

definition badge :: "registry \<Rightarrow> session \<Rightarrow> string" where
  "badge getModel s =
     (case currentModel s of
        None \<Rightarrow> ''AI Assistant''
      | Some modelId \<Rightarrow>
          (case getModel modelId of None \<Rightarrow> ''AI Assistant'' | Some m \<Rightarrow> name m))"

text \<open>The focused chat's \<open>displayAssistantMessage\<close>: formatting runs before the element
  is appended, so nothing is added when it raises.\<close>

definition single_displayAssistantMessage ::
    "registry \<Rightarrow> jsval \<Rightarrow> session \<Rightarrow> js_error + nat \<times> session" where
  "single_displayAssistantMessage getModel c s =
     (case single_formatContent c of
        Inl e \<Rightarrow> Inl e
      | Inr html \<Rightarrow>
          Inr (length (messagesContainer s),
               s\<lparr>messagesContainer :=
                    messagesContainer s @ [SingleAssistantMessage (badge getModel s) html]\<rparr>))"

definition single_set_content :: "nat \<Rightarrow> string \<Rightarrow> session \<Rightarrow> session" where
  "single_set_content i html s =
     s\<lparr>messagesContainer :=
          (messagesContainer s)
            [i := (case messagesContainer s ! i of
                     SingleAssistantMessage b h \<Rightarrow> SingleAssistantMessage b html
                   | x \<Rightarrow> x)]\<rparr>"

text \<open>The \<open>for await\<close> loop of the focused chat's \<open>handleStreamingResponse\<close>; it hands
  back the accumulated text together with the error that left the loop, if any.\<close>

fun single_consume_stream ::
    "nat \<Rightarrow> string \<Rightarrow> jsval list \<Rightarrow> js_error option \<Rightarrow> session
     \<Rightarrow> js_error option \<times> string \<times> session" where
  "single_consume_stream messageDiv fullContent [] fin s = (fin, fullContent, s)"
| "single_consume_stream messageDiv fullContent (part # parts) fin s =
     (if truthy (get part ''text'')
      then (case to_string (get part ''text'') of
              Inl e \<Rightarrow> (Some e, fullContent, s)
            | Inr t \<Rightarrow>
                single_consume_stream messageDiv (fullContent @ t) parts fin
                  (single_set_content messageDiv (single_format_text (fullContent @ t)) s))
      else single_consume_stream messageDiv fullContent parts fin s)"

text \<open>\<open>handleStreamingResponse\<close>: the assistant turn is pushed after the loop, inside
  the \<open>try\<close>; the \<open>catch\<close> only rewrites the message element.\<close>

definition handleStreamingResponse ::
    "registry \<Rightarrow> jsval list \<Rightarrow> js_error option \<Rightarrow> session \<Rightarrow> session" where
  "handleStreamingResponse getModel parts fin s =
     (case single_displayAssistantMessage getModel (JStr []) s of
        Inl error \<Rightarrow> s
      | Inr (messageDiv, s1) \<Rightarrow>
          (case single_consume_stream messageDiv [] parts fin s1 of
             (None, fullContent, s2) \<Rightarrow>
               s2\<lparr>chatHistory := chatHistory s2 @ [assistant_turn (JStr fullContent)]\<rparr>
           | (Some error, fullContent, s2) \<Rightarrow>
               single_set_content messageDiv (''Error: '' @ message error) s2))"

definition short_system_prompt :: "string \<Rightarrow> string" where
  "short_system_prompt n =
     ''You are '' @ n @ ''. Always identify yourself correctly as '' @ n
     @ '' when asked about your identity.''"

record single_send =
  sent :: "request list"
  after :: session
  thrown :: "js_error option"

text \<open>The requests of the focused chat: the system turn followed by the whole
  conversation, streaming and blocking, and the flattened string built from the new
  message alone.\<close>

definition outgoing :: "model \<Rightarrow> chat_turn list \<Rightarrow> chat_turn list" where
  "outgoing m history = system_turn m # history"

definition single_streaming :: "model \<Rightarrow> chat_turn list \<Rightarrow> request" where
  "single_streaming m history =
     \<lparr>input = Turns (outgoing m history), options = streaming_options m\<rparr>"

definition single_blocking :: "model \<Rightarrow> chat_turn list \<Rightarrow> request" where
  "single_blocking m history = \<lparr>input = Turns (outgoing m history), options = parameters m\<rparr>"

definition single_blocking_text :: "model \<Rightarrow> string \<Rightarrow> request" where
  "single_blocking_text m msg =
     \<lparr>input = Text (flattened (short_system_prompt (name m)) msg), options = parameters m\<rparr>"

text \<open>The tail of the \<open>try\<close> body once a response is at hand (the typing indicator
  is gone already): normalize, show, and only then push the assistant turn.\<close>

definition single_show_response ::
    "registry \<Rightarrow> jsval \<Rightarrow> session \<Rightarrow> (exception + unit) \<times> session" where
  "single_show_response getModel response s =
     (case extractContentFromResponse response of
        Inl e \<Rightarrow> (Inl (ErrorObject e), s)
      | Inr c \<Rightarrow>
          (case single_displayAssistantMessage getModel c s of
             Inl e \<Rightarrow> (Inl (ErrorObject e), s)
           | Inr (messageDiv, s') \<Rightarrow>
               (Inr (), s'\<lparr>chatHistory := chatHistory s' @ [assistant_turn c]\<rparr>)))"

text \<open>The fallback to a direct response; \<open>typingIndicator\<close> is the position of the
  indicator the send has shown.\<close>

definition single_direct_response ::
    "registry \<Rightarrow> gateway \<Rightarrow> string \<Rightarrow> model \<Rightarrow> nat \<Rightarrow> session
     \<Rightarrow> request list \<times> (exception + unit) \<times> session" where
  "single_direct_response getModel chat msg m typingIndicator s =
     (let untyped = s\<lparr>messagesContainer := remove_nth typingIndicator (messagesContainer s)\<rparr>
      in (case chat (single_blocking m (chatHistory s)) of
            Resolves response \<Rightarrow>
              ([single_blocking m (chatHistory s)],
               single_show_response getModel response untyped)
          | Rejects e \<Rightarrow>
              (case chat (single_blocking_text m msg) of
                 Resolves response \<Rightarrow>
                   ([single_blocking m (chatHistory s), single_blocking_text m msg],
                    single_show_response getModel response untyped)
               | Rejects e' \<Rightarrow>
                   ([single_blocking m (chatHistory s), single_blocking_text m msg],
                    Inl e', s))))"

text \<open>The body of the \<open>try\<close> of \<open>sendMessage\<close>; \<open>Inl\<close> is the error that reaches
  the \<open>catch\<close>. The handler of a failed streaming call logs \<open>e.message\<close> before the
  fallback; when that read raises, the fallback is not reached.\<close>

definition send_body ::
    "registry \<Rightarrow> gateway \<Rightarrow> string \<Rightarrow> session
     \<Rightarrow> request list \<times> (exception + unit) \<times> session" where
  "send_body getModel chat msg s =
     (let s1 = displayUserMessage msg
                 (s\<lparr>messagesContainer := remove_first is_welcome (messagesContainer s)\<rparr>);
          s2 = s1\<lparr>chatHistory := chatHistory s1 @ [user_turn msg]\<rparr>;
          typingIndicator = length (messagesContainer s2);
          s3 = s2\<lparr>messagesContainer := messagesContainer s2 @ [SingleTypingIndicator]\<rparr>
      in (case (case currentModel s3 of None \<Rightarrow> None | Some modelId \<Rightarrow> getModel modelId) of
            None \<Rightarrow> ([], Inl (ErrorObject (Error ''Selected model not found'')), s3)
          | Some m \<Rightarrow>
              (case chat (single_streaming m (chatHistory s3)) of
                 Resolves (JStream parts fin) \<Rightarrow>
                   ([single_streaming m (chatHistory s3)], Inr (),
                    handleStreamingResponse getModel parts fin
                      (s3\<lparr>messagesContainer :=
                            remove_nth typingIndicator (messagesContainer s3)\<rparr>))
               | Resolves response \<Rightarrow>
                   after_requests [single_streaming m (chatHistory s3)]
                     (single_direct_response getModel chat msg m typingIndicator s3)
               | Rejects e \<Rightarrow>
                   (case error_message e of
                      Inl raised \<Rightarrow>
                        ([single_streaming m (chatHistory s3)], Inl (ErrorObject raised), s3)
                    | Inr logged \<Rightarrow>
                        after_requests [single_streaming m (chatHistory s3)]
                          (single_direct_response getModel chat msg m typingIndicator s3)))))"

text \<open>The \<open>catch\<close> of \<open>sendMessage\<close>: the first typing indicator in the container
  goes, then the notice is built and shown. The result is the error that leaves the
  handler, if any, and the session.\<close>

definition send_catch ::
    "registry \<Rightarrow> exception \<Rightarrow> session \<Rightarrow> js_error option \<times> session" where
  "send_catch getModel error s =
     (let s1 = s\<lparr>messagesContainer :=
                    remove_first (\<lambda>x. x = SingleTypingIndicator) (messagesContainer s)\<rparr>
      in (case error_notice error of
            Inl e \<Rightarrow> (Some e, s1)
          | Inr notice \<Rightarrow>
              (case single_displayAssistantMessage getModel (JStr notice) s1 of
                 Inl e \<Rightarrow> (Some e, s1)
               | Inr (messageDiv, s2) \<Rightarrow> (None, s2))))"

text \<open>
  \<open>sendMessage\<close>, run from the call to the settlement of its promise with no other
  event in between: the two validations, the single-flight guard, then the \<open>try\<close> with
  its \<open>catch\<close> (which removes the first typing indicator and shows \<open>Error: \<close> and
  what \<open>error.message\<close> gives) and its \<open>finally\<close> (which clears the flag on every
  path). An error raised inside the \<open>catch\<close> handler rejects the promise. The next
  subsection takes the send apart at its \<open>await\<close>s and lets other events in between.
\<close>

definition sendMessage :: "registry \<Rightarrow> gateway \<Rightarrow> string \<Rightarrow> session \<Rightarrow> single_send" where
  "sendMessage getModel chat msg s =
     (if currentModel s = None \<or> currentModel s = Some []
        then \<lparr>sent = [], after = showError ''Please select a model first'' s, thrown = None\<rparr>
      else if blank msg
        then \<lparr>sent = [], after = showError ''Please enter a message'' s, thrown = None\<rparr>
      else if isProcessing s
        then \<lparr>sent = [], after = s, thrown = None\<rparr>
      else (case send_body getModel chat msg (s\<lparr>isProcessing := True\<rparr>) of
              (reqs, Inr u, s1) \<Rightarrow>
                \<lparr>sent = reqs, after = s1\<lparr>isProcessing := False\<rparr>, thrown = None\<rparr>
            | (reqs, Inl error, s1) \<Rightarrow>
                (case send_catch getModel error s1 of
                   (raised, s2) \<Rightarrow>
                     \<lparr>sent = reqs, after = s2\<lparr>isProcessing := False\<rparr>, thrown = raised\<rparr>)))"

subsection \<open>The send as a task that is suspended and resumed\<close>

text \<open>
  \<open>sendMessage\<close> is an \<open>async\<close> function: a call runs up to its first \<open>await\<close>,
  and the event loop resumes it when the gateway's answer or the next part of the stream
  is there. In between, the page handles other events: the \<open>change\<close> event of the model
  select, which calls \<open>handleModelChange\<close> whether or not a send is in flight, and
  further calls of \<open>sendMessage\<close>. A pending send is the point at which it is suspended,
  with what its local variables hold: the model it found, the turn sequence \<open>messages\<close>
  it built when it started, the message, and the typing indicator; or, inside
  \<open>handleStreamingResponse\<close>, the message element, the text so far, the parts still to
  come and the stream's end. An element is held by its position in the message container
  for as long as it is a child of the container, and by \<open>None\<close> once it has been
  detached: both \<open>handleModelChange\<close> paths assign the container's \<open>innerHTML\<close>, which
  detaches every child, and removing or rewriting a detached element leaves the container
  as it is.
\<close>

datatype single_task =
    AwaitStreaming model "chat_turn list" string "nat option"
  | AwaitDirect model "chat_turn list" string "nat option"
  | AwaitDirectText model string "nat option"
  | AwaitStreamPart "nat option" string "jsval list" "js_error option"

type_synonym focused = "session \<times> single_task option"

fun detach :: "single_task \<Rightarrow> single_task" where
  "detach (AwaitStreaming m messages msg typingIndicator) = AwaitStreaming m messages msg None"
| "detach (AwaitDirect m messages msg typingIndicator) = AwaitDirect m messages msg None"
| "detach (AwaitDirectText m msg typingIndicator) = AwaitDirectText m msg None"
| "detach (AwaitStreamPart messageDiv fullContent parts fin) =
     AwaitStreamPart None fullContent parts fin"

text \<open>\<open>element.remove()\<close> and \<open>contentDiv.innerHTML = html\<close> through such a handle.\<close>

definition remove_element :: "nat option \<Rightarrow> session \<Rightarrow> session" where
  "remove_element handle s =
     (case handle of
        None \<Rightarrow> s
      | Some i \<Rightarrow> s\<lparr>messagesContainer := remove_nth i (messagesContainer s)\<rparr>)"

definition write_element :: "nat option \<Rightarrow> string \<Rightarrow> session \<Rightarrow> session" where
  "write_element handle html s =
     (case handle of None \<Rightarrow> s | Some i \<Rightarrow> single_set_content i html s)"

text \<open>The \<open>finally\<close> of \<open>sendMessage\<close>, which ends the send, and its \<open>catch\<close>
  followed by the \<open>finally\<close>.\<close>

definition finish_send :: "session \<Rightarrow> focused" where
  "finish_send s = (s\<lparr>isProcessing := False\<rparr>, None)"

definition fail_send :: "registry \<Rightarrow> exception \<Rightarrow> session \<Rightarrow> focused" where
  "fail_send getModel error s = finish_send (snd (send_catch getModel error s))"

text \<open>A call of \<open>sendMessage\<close>, up to its first \<open>await\<close>: a call that is turned down
  by a validation or by the guard, or cannot find its model, ends there.\<close>

definition start_send :: "registry \<Rightarrow> string \<Rightarrow> focused \<Rightarrow> focused" where
  "start_send getModel msg st =
     (let s = fst st in
      if currentModel s = None \<or> currentModel s = Some []
        then (showError ''Please select a model first'' s, snd st)
      else if blank msg
        then (showError ''Please enter a message'' s, snd st)
      else if isProcessing s
        then st
      else (let s0 = s\<lparr>isProcessing := True\<rparr>;
                s1 = displayUserMessage msg
                       (s0\<lparr>messagesContainer := remove_first is_welcome (messagesContainer s0)\<rparr>);
                s2 = s1\<lparr>chatHistory := chatHistory s1 @ [user_turn msg]\<rparr>;
                typingIndicator = length (messagesContainer s2);
                s3 = s2\<lparr>messagesContainer := messagesContainer s2 @ [SingleTypingIndicator]\<rparr>
            in (case (case currentModel s3 of None \<Rightarrow> None | Some modelId \<Rightarrow> getModel modelId) of
                  None \<Rightarrow> fail_send getModel (ErrorObject (Error ''Selected model not found'')) s3
                | Some m \<Rightarrow>
                    (s3, Some (AwaitStreaming m (outgoing m (chatHistory s3)) msg
                                 (Some typingIndicator))))))"

text \<open>The streaming answer is a stream: the typing indicator goes and
  \<open>handleStreamingResponse\<close> runs up to the first part.\<close>

definition single_begin_stream ::
    "registry \<Rightarrow> jsval list \<Rightarrow> js_error option \<Rightarrow> nat option \<Rightarrow> session \<Rightarrow> focused" where
  "single_begin_stream getModel parts fin typingIndicator s =
     (case single_displayAssistantMessage getModel (JStr []) (remove_element typingIndicator s) of
        Inl error \<Rightarrow> finish_send (remove_element typingIndicator s)
      | Inr (messageDiv, s1) \<Rightarrow> (s1, Some (AwaitStreamPart (Some messageDiv) [] parts fin)))"

text \<open>A blocking call has resolved: the typing indicator goes, the response is
  normalized and shown and the assistant turn pushed.\<close>

definition single_finish_response ::
    "registry \<Rightarrow> jsval \<Rightarrow> nat option \<Rightarrow> session \<Rightarrow> focused" where
  "single_finish_response getModel response typingIndicator s =
     (case single_show_response getModel response (remove_element typingIndicator s) of
        (Inr u, s1) \<Rightarrow> finish_send s1
      | (Inl error, s1) \<Rightarrow> fail_send getModel error s1)"

text \<open>One resumption of a pending send: from the arrival of what it waits for to its
  next \<open>await\<close> or its end.\<close>

fun single_resume :: "registry \<Rightarrow> gateway \<Rightarrow> single_task \<Rightarrow> session \<Rightarrow> focused" where
  "single_resume getModel chat (AwaitStreaming m messages msg typingIndicator) s =
     (case chat \<lparr>input = Turns messages, options = streaming_options m\<rparr> of
        Resolves (JStream parts fin) \<Rightarrow> single_begin_stream getModel parts fin typingIndicator s
      | Resolves response \<Rightarrow> (s, Some (AwaitDirect m messages msg typingIndicator))
      | Rejects e \<Rightarrow>
          (case error_message e of
             Inl raised \<Rightarrow> fail_send getModel (ErrorObject raised) s
           | Inr logged \<Rightarrow> (s, Some (AwaitDirect m messages msg typingIndicator))))"
| "single_resume getModel chat (AwaitDirect m messages msg typingIndicator) s =
     (case chat \<lparr>input = Turns messages, options = parameters m\<rparr> of
        Resolves response \<Rightarrow> single_finish_response getModel response typingIndicator s
      | Rejects e \<Rightarrow> (s, Some (AwaitDirectText m msg typingIndicator)))"
| "single_resume getModel chat (AwaitDirectText m msg typingIndicator) s =
     (case chat (single_blocking_text m msg) of
        Resolves response \<Rightarrow> single_finish_response getModel response typingIndicator s
      | Rejects e \<Rightarrow> fail_send getModel e s)"
| "single_resume getModel chat (AwaitStreamPart messageDiv fullContent [] fin) s =
     (case fin of
        None \<Rightarrow>
          finish_send (s\<lparr>chatHistory := chatHistory s @ [assistant_turn (JStr fullContent)]\<rparr>)
      | Some error \<Rightarrow>
          finish_send (write_element messageDiv (''Error: '' @ message error) s))"
| "single_resume getModel chat (AwaitStreamPart messageDiv fullContent (part # parts) fin) s =
     (if truthy (get part ''text'')
      then (case to_string (get part ''text'') of
              Inl error \<Rightarrow>
                finish_send (write_element messageDiv (''Error: '' @ message error) s)
            | Inr t \<Rightarrow>
                (write_element messageDiv (single_format_text (fullContent @ t)) s,
                 Some (AwaitStreamPart messageDiv (fullContent @ t) parts fin)))
      else (s, Some (AwaitStreamPart messageDiv fullContent parts fin)))"

text \<open>
  What happens to the focused chat: the user picks an entry of the model select, the
  user sends a message, or what the pending send waits for arrives.
\<close>

datatype event = Select string | Send string | Arrive

fun focused_step :: "registry \<Rightarrow> gateway \<Rightarrow> event \<Rightarrow> focused \<Rightarrow> focused" where
  "focused_step getModel chat (Select modelId) st =
     (handleModelChange getModel modelId (fst st), map_option detach (snd st))"
| "focused_step getModel chat (Send msg) st = start_send getModel msg st"
| "focused_step getModel chat Arrive st =
     (case snd st of
        None \<Rightarrow> st
      | Some t \<Rightarrow> single_resume getModel chat t (fst st))"

definition focused_run :: "registry \<Rightarrow> gateway \<Rightarrow> event list \<Rightarrow> focused \<Rightarrow> focused" where
  "focused_run getModel chat events st = fold (focused_step getModel chat) events st"

text \<open>No model is picked while a send is in flight: every \<open>Select\<close> of a model
  identifier finds the flag clear.\<close>

fun undisturbed :: "registry \<Rightarrow> gateway \<Rightarrow> event list \<Rightarrow> focused \<Rightarrow> bool" where
  "undisturbed getModel chat [] st = True"
| "undisturbed getModel chat (ev # evs) st =
     ((case ev of Select modelId \<Rightarrow> modelId = [] \<or> \<not> isProcessing (fst st) | _ \<Rightarrow> True)
      \<and> undisturbed getModel chat evs (focused_step getModel chat ev st))"

text \<open>
  A send that nothing interrupts. A pending send ends within \<open>n\<close> arrivals, leaving the
  session \<open>s'\<close>; \<open>settle_send\<close> is the session once the \<open>try\<close> body has ended,
  through the \<open>catch\<close> after an error and through the \<open>finally\<close>; and a number of
  arrivals that is enough for a send: three answers of the gateway at most, and for a
  stream its parts and its end.
\<close>

definition finishes_within :: "registry \<Rightarrow> gateway \<Rightarrow> nat \<Rightarrow> focused \<Rightarrow> session \<Rightarrow> bool" where
  "finishes_within getModel chat n st s' =
     (\<exists>k \<le> n. (focused_step getModel chat Arrive ^^ k) st = (s', None))"

definition settle_send :: "registry \<Rightarrow> (exception + unit) \<times> session \<Rightarrow> session" where
  "settle_send getModel r =
     (case fst r of
        Inr u \<Rightarrow> (snd r)\<lparr>isProcessing := False\<rparr>
      | Inl error \<Rightarrow> (snd (send_catch getModel error (snd r)))\<lparr>isProcessing := False\<rparr>)"

definition single_resumptions :: "registry \<Rightarrow> gateway \<Rightarrow> string \<Rightarrow> session \<Rightarrow> nat" where
  "single_resumptions getModel chat msg s =
     (case (case currentModel s of None \<Rightarrow> None | Some modelId \<Rightarrow> getModel modelId) of
        None \<Rightarrow> 0
      | Some m \<Rightarrow> 3 + stream_length (chat (single_streaming m (chatHistory s @ [user_turn msg]))))"

subsection \<open>The conversation\<close>

text \<open>
  Vocabulary for the properties below. A stored conversation is well formed when it holds
  user and assistant turns only and, unless empty, starts with a user turn. A send is an
  exchange when it leaves the conversation longer by the user turn and an assistant turn.
\<close>

definition conversation_ok :: "chat_turn list \<Rightarrow> bool" where
  "conversation_ok h =
     ((\<forall>t \<in> set h. role t = ''user'' \<or> role t = ''assistant'')
      \<and> (h \<noteq> [] \<longrightarrow> role (hd h) = ''user''))"

definition exchanged :: "registry \<Rightarrow> gateway \<Rightarrow> string \<Rightarrow> session \<Rightarrow> bool" where
  "exchanged getModel chat msg s =
     (\<exists>c. chatHistory (after (sendMessage getModel chat msg s))
            = chatHistory s @ [\<lparr>role = ''user'', content = JStr msg\<rparr>,
                               \<lparr>role = ''assistant'', content = c\<rparr>])"

text \<open>The session a send leaves behind.\<close>

definition then_send :: "registry \<Rightarrow> gateway \<Rightarrow> string \<Rightarrow> session \<Rightarrow> session" where
  "then_send getModel chat msg s = after (sendMessage getModel chat msg s)"

text \<open>The session as the constructor leaves it, and a session with a send in flight:
  the user's message is shown and pushed, the typing indicator is up, the gateway has not
  answered yet.\<close>

definition fresh_session :: session where
  "fresh_session =
     \<lparr>currentModel = None, chatHistory = [], isProcessing = False,
      messagesContainer = [], notices = []\<rparr>"

definition in_flight_session :: session where
  "in_flight_session =
     \<lparr>currentModel = Some ''a'', chatHistory = [user_turn ''hi''], isProcessing = True,
      messagesContainer = [SingleUserMessage ''hi'', SingleTypingIndicator], notices = []\<rparr>"

section \<open>Sample collaborators\<close>

text \<open>A registry of three models and a few gateways, for concrete runs.\<close>

definition sample_model :: "string \<Rightarrow> model" where
  "sample_model modelId =
     \<lparr>name = modelId, parameters = [(''model'', JStr modelId), (''max_tokens'', JNum 1000)]\<rparr>"

definition sample_registry :: registry where
  "sample_registry modelId =
     (if modelId \<in> {''a'', ''b'', ''c''} then Some (sample_model modelId) else None)"

text \<open>A gateway that is down.\<close>

definition failing_gateway :: gateway where
  "failing_gateway r = Rejects (ErrorObject (Error ''service unavailable''))"

text \<open>A gateway that rejects every request with \<open>null\<close>, and one whose error has
  markup in its description.\<close>

definition null_gateway :: gateway where
  "null_gateway r = Rejects (Thrown JNull)"

definition marked_gateway :: gateway where
  "marked_gateway r = Rejects (ErrorObject (Error ''quota *exceeded* for <b>this</b> model''))"


text \<open>A gateway that never streams and answers every request with the same payload.\<close>

definition constant_gateway :: "jsval \<Rightarrow> gateway" where
  "constant_gateway v r = Resolves v"



text \<open>A gateway that is down for model \<open>b\<close> and answers every other model, in two
  parts when a stream is asked for.\<close>

definition partial_gateway :: gateway where
  "partial_gateway r =
     (if map_of (options r) ''model'' = Some (JStr ''b'')
        then Rejects (ErrorObject (Error ''model overloaded''))
      else if map_of (options r) ''stream'' = Some (JBool True)
        then Resolves (JStream [JObj [(''text'', JStr ''Hel'')], JObj [(''text'', JStr ''lo'')]] None)
      else Resolves (JStr ''Hello''))"

text \<open>Three panels that show the user's message already.\<close>

definition sample_windows :: chat_windows where
  "sample_windows =
     [''a'' \<mapsto> [UserMessage ''hi''], ''b'' \<mapsto> [UserMessage ''hi''], ''c'' \<mapsto> [UserMessage ''hi'']]"

text \<open>The schedule that resumes \<open>n\<close> tasks in turn, \<open>rounds\<close> times over.\<close>

definition round_robin :: "nat \<Rightarrow> nat \<Rightarrow> nat list" where
  "round_robin n rounds = concat (replicate rounds [0..<n])"

section \<open>Properties of the normalizer\<close>

lemma extract_plain_text: "extractContentFromResponse (JStr s) = Inr (JStr s)"
  by (simp add: extractContentFromResponse_def recognized_def)

lemma extract_message_content:
  assumes "truthy (get (get response ''message'') ''content'')"
  shows "extractContentFromResponse response = Inr (get (get response ''message'') ''content'')"
  using assms by (cases response) (simp_all add: extractContentFromResponse_def recognized_def)

text \<open>Whatever else a payload holds, the inherited \<open>toString\<close> answers as soon as the
  nested \<open>message.content\<close> does not: the later probes are reached only by \<open>null\<close>,
  \<open>undefined\<close> and objects with an own property \<open>toString\<close>.\<close>

lemma recognized_by_toString:
  assumes "has_toString response" and "\<not> truthy (get (get response ''message'') ''content'')"
  shows "recognized response = Some (map_sum id JStr (to_string response))"
  using assms by (cases response) (simp_all add: recognized_def)

lemma extract_object_toString:
  assumes "''toString'' \<notin> fst ` set kvs"
    and "\<not> truthy (get (get (JObj kvs) ''message'') ''content'')"
  shows "extractContentFromResponse (JObj kvs) = Inr (JStr ''[object Object]'')"
  using assms recognized_by_toString [of "JObj kvs"]
  by (simp add: extractContentFromResponse_def)

lemma extract_array_toString:
  "extractContentFromResponse (JArr xs) = map_sum id JStr (to_string (JArr xs))"
  using recognized_by_toString [of "JArr xs"]
  by (simp add: extractContentFromResponse_def)

lemma join_results_Inr:
  assumes "\<forall>r \<in> set rs. \<exists>s. r = Inr s"
  shows "\<exists>s. join_results sep rs = Inr s"
  using assms by (induction sep rs rule: join_results.induct) auto

lemma to_string_plain: "plain v \<Longrightarrow> \<exists>s. to_string v = Inr s"
proof (induction v)
  case (JArr xs)
  then show ?case
    by (auto intro!: join_results_Inr)
qed auto

text \<open>
  C2. The normalizer is to resolve the listed shapes in priority order and return their
  text. A plain string and a truthy nested \<open>message.content\<close> are returned
  (\<open>extract_plain_text\<close>, \<open>extract_message_content\<close>). Every other listed shape is an
  array or an object, which inherits \<open>toString\<close>, so the third probe answers before the
  probe written for the shape is reached: the \<open>choices\<close> payload, the tagged text list
  and the payloads with a direct \<open>content\<close>, \<open>text\<close>, \<open>data.content\<close> or
  \<open>response\<close> field all come back as \<open>[object Object]\<close>.
\<close>

theorem extract_shapes_shadowed:
  "extractContentFromResponse
     (JObj [(''choices'', JArr [JObj [(''message'', JObj [(''content'', JStr ''hi'')])]])])
     = Inr (JStr ''[object Object]'')
   \<and> extractContentFromResponse (JArr [JObj [(''type'', JStr ''text''), (''text'', JStr ''x'')]])
     = Inr (JStr ''[object Object]'')
   \<and> extractContentFromResponse (JObj [(''content'', JStr ''hi'')]) = Inr (JStr ''[object Object]'')
   \<and> extractContentFromResponse (JObj [(''text'', JStr ''hi'')]) = Inr (JStr ''[object Object]'')
   \<and> extractContentFromResponse (JObj [(''data'', JObj [(''content'', JStr ''hi'')])])
     = Inr (JStr ''[object Object]'')
   \<and> extractContentFromResponse (JObj [(''response'', JStr ''hi'')]) = Inr (JStr ''[object Object]'')"
  by (simp add: extractContentFromResponse_def recognized_def)

text \<open>
  C5. The normalizer is to return a string and never raise, whatever the payload. It
  returns the field it finds as it is, and an array is converted element by element:
  \<open>{message: {content: 42}}\<close> gives the number \<open>42\<close>, and \<open>[{toString: 1}]\<close>
  raises a \<open>TypeError\<close>.
\<close>

theorem extract_not_always_string:
  "extractContentFromResponse (JObj [(''message'', JObj [(''content'', JNum 42)])]) = Inr (JNum 42)
   \<and> extractContentFromResponse (JArr [JObj [(''toString'', JNum 1)]])
     = Inl (TypeError ''Cannot convert object to primitive value'')"
  by (simp add: extractContentFromResponse_def recognized_def)

text \<open>
  C5, as the code has it. The normalizer raises on no payload other than an array one of
  whose elements (through nested arrays) is an object with an own \<open>toString\<close> property.
  It returns a string for every payload that is plain (no own \<open>toString\<close> property in
  the payload or, through nested arrays, in its elements) and whose nested
  \<open>message.content\<close> is absent, falsy or a string.
\<close>

theorem extract_string_on_plain:
  "((isArray response \<longrightarrow> plain response) \<longrightarrow> (\<exists>v. extractContentFromResponse response = Inr v))
   \<and> (plain response
        \<and> (\<not> truthy (get (get response ''message'') ''content'')
            \<or> (\<exists>s. get (get response ''message'') ''content'' = JStr s))
      \<longrightarrow> (\<exists>s. extractContentFromResponse response = Inr (JStr s)))"
proof (intro conjI impI)
  assume "isArray response \<longrightarrow> plain response"
  then show "\<exists>v. extractContentFromResponse response = Inr v"
    using to_string_plain [of response]
    by (cases response) (auto simp: extractContentFromResponse_def recognized_def)
next
  assume a: "plain response
        \<and> (\<not> truthy (get (get response ''message'') ''content'')
            \<or> (\<exists>s. get (get response ''message'') ''content'' = JStr s))"
  show "\<exists>s. extractContentFromResponse response = Inr (JStr s)"
  proof (cases "truthy (get (get response ''message'') ''content'')")
    case True
    with a extract_message_content [OF True] show ?thesis by auto
  next
    case False
    with a to_string_plain [of response] show ?thesis
      by (cases response) (auto simp: extractContentFromResponse_def recognized_def)
  qed
qed

theorem extract_string_on_plain_witness:
  "plain (JArr [JStr ''a'', JNum 1])
   \<and> \<not> truthy (get (get (JArr [JStr ''a'', JNum 1]) ''message'') ''content'')
   \<and> extractContentFromResponse (JArr [JStr ''a'', JNum 1]) = Inr (JStr ''a,1'')"
  using extract_string_on_plain [of "JArr [JStr ''a'', JNum 1]"]
  by (simp add: extractContentFromResponse_def recognized_def number_to_string_def
        dec_nat.simps digit_char_def)

text \<open>
  C6. A payload of no recognized shape is to give a non-empty diagnostic that names the
  run-time type and the field names. The object \<open>{foo: 1, bar: 2}\<close> inherits
  \<open>toString\<close>, so both \<open>extractContentFromResponse\<close> and \<open>displayChatResponse\<close>
  answer \<open>[object Object]\<close> before their final \<open>else\<close> is reached; and the empty
  array, of no recognized shape either, gives the empty string.
\<close>

theorem unrecognized_object_text:
  "extractContentFromResponse (JObj [(''foo'', JNum 1), (''bar'', JNum 2)])
     = Inr (JStr ''[object Object]'')
   \<and> displayChatResponse_content (JObj [(''foo'', JNum 1), (''bar'', JNum 2)])
     = Inr (JStr ''[object Object]'')
   \<and> extractContentFromResponse (JArr []) = Inr (JStr [])"
  by (simp add: extractContentFromResponse_def displayChatResponse_content_def recognized_def)

section \<open>Properties of the per-model dispatcher\<close>

lemma replace_wrapped_absent:
  assumes "d \<noteq> []" and "hd d \<notin> set s"
  shows "replace_wrapped d l r 0 s = s"
  using assms
proof (induction s)
  case Nil
  then show ?case by simp
next
  case (Cons c cs)
  then have "take (length d) (c # cs) \<noteq> d"
    by (cases d) auto
  with Cons show ?case by simp
qed

lemma newlines_to_br_absent: "CHR 0x0A \<notin> set s \<Longrightarrow> newlines_to_br s = s"
  by (induction s) (auto simp: newlines_to_br_def)

lemma markdown_unmarked: "unmarked s \<Longrightarrow> markdown s = s"
  by (simp add: unmarked_def markdown_def replace_wrapped_absent)

lemma formatContent_unmarked: "unmarked s \<Longrightarrow> formatContent (JStr s) = s"
  by (simp add: formatContent_def markdown_unmarked newlines_to_br_absent unmarked_def)

lemma unmarked_error: "unmarked s \<Longrightarrow> unmarked (''Error: '' @ s)"
  by (simp add: unmarked_def)

lemma remove_first_append_last:
  "\<forall>x \<in> set xs. \<not> P x \<Longrightarrow> P y \<Longrightarrow> remove_first P (xs @ [y]) = xs"
  by (induction xs) auto

lemma answered_fresh:
  assumes "TypingIndicator \<notin> set els"
  shows "answered els x = remove_first (\<lambda>y. y = Placeholder) els @ [x]"
proof -
  have "remove_first (\<lambda>y. y = TypingIndicator) (els @ [TypingIndicator]) = els"
    using assms by (intro remove_first_append_last) auto
  then show ?thesis by (simp add: answered_def)
qed

text \<open>Panels after the typing indicator was shown.\<close>

lemma shown_then_message:
  assumes "cw modelId = Some els"
  shows "displayAssistantMessage modelId c
           (removeTypingIndicator modelId (showTypingIndicator modelId cw))
         = (Some (length (answered els (AssistantMessage (formatContent c))) - 1),
            cw(modelId \<mapsto> answered els (AssistantMessage (formatContent c))))"
  using assms
  by (simp add: displayAssistantMessage_def removeTypingIndicator_def showTypingIndicator_def
        answered_def Let_def)

lemma dispatch_body_cases:
  "dispatch_body chat msg [] modelId m cw =
     (case stream_answer chat m msg of
        Resolves (JStream parts fin) \<Rightarrow>
          (streaming_requests chat m msg, Inr (),
           handleStreamingResponseForModel parts fin modelId cw)
      | _ \<Rightarrow>
          (streaming_requests chat m msg @ blocking_requests chat m msg,
           (case blocking_answer chat m msg of
              Rejects e \<Rightarrow> (Inl e, cw)
            | Resolves v \<Rightarrow> show_response v modelId cw)))"
  by (simp add: dispatch_body_def stream_answer_def streaming_requests_def
        blocking_requests_def blocking_answer_def rejected_def direct_response_def
        after_requests_def
      split: chat_result.splits jsval.splits)



lemma notice_error_object: "error_notice (ErrorObject e) = Inr (''Error: '' @ message e)"
  by (simp add: error_notice_def)

lemma caught_error_object: "fst (dispatch_catch (ErrorObject e) modelId cw) = None"
  by (simp add: dispatch_catch_def notice_error_object)

lemma sendMessageToModel_text:
  assumes "getModel modelId = Some m"
  shows "sendMessageToModel getModel chat msg [] modelId cw =
     (if streamed chat m msg
      then \<lparr>requests = streaming_requests chat m msg,
            windows = (case stream_answer chat m msg of
                         Resolves (JStream parts fin) \<Rightarrow>
                           handleStreamingResponseForModel parts fin modelId
                             (showTypingIndicator modelId cw)
                       | _ \<Rightarrow> cw),
            escaped = None\<rparr>
      else \<lparr>requests = streaming_requests chat m msg @ blocking_requests chat m msg,
            windows = (case blocking_answer chat m msg of
                         Rejects e \<Rightarrow>
                           snd (dispatch_catch e modelId (showTypingIndicator modelId cw))
                       | Resolves v \<Rightarrow>
                           landed modelId
                             ([], show_response v modelId (showTypingIndicator modelId cw))),
            escaped = (case blocking_answer chat m msg of
                         Rejects e \<Rightarrow>
                           fst (dispatch_catch e modelId (showTypingIndicator modelId cw))
                       | Resolves v \<Rightarrow> None)\<rparr>)"
  using assms
  by (auto simp: sendMessageToModel_def dispatch_body_cases streamed_def delivers_stream_def
        landed_def Let_def show_response_def caught_error_object
      split: chat_result.splits jsval.splits sum.splits prod.splits)

lemma caught_panel:
  assumes "cw modelId = Some els"
  shows "dispatch_catch error modelId (showTypingIndicator modelId cw)
         = (case error_notice error of
              Inl raised \<Rightarrow>
                (Some raised,
                 cw(modelId \<mapsto> remove_first (\<lambda>y. y = TypingIndicator) (els @ [TypingIndicator])))
            | Inr notice \<Rightarrow>
                (None,
                 cw(modelId \<mapsto> answered els (AssistantMessage (formatContent (JStr notice))))))"
proof (cases "error_notice error")
  case (Inl raised)
  then show ?thesis
    using assms
    by (simp add: dispatch_catch_def removeTypingIndicator_def showTypingIndicator_def)
next
  case (Inr notice)
  then show ?thesis
    using assms shown_then_message [of cw modelId els "JStr notice"]
    by (simp add: dispatch_catch_def)
qed


lemma literal_error: "literal_html s \<Longrightarrow> literal_html (''Error: '' @ s)"
  by (simp add: literal_html_def)

text \<open>
  C4. When all transport attempts fail, the error message is to appear in the panel and
  no exception is to leave \<open>sendMessageToModel\<close>. With a gateway that rejects every
  request with \<open>null\<close>, no attempt delivers and the last blocking call raises; the
  \<open>catch\<close> removes the typing indicator, raises on \<open>error.message\<close> and the
  dispatch is rejected with that \<open>TypeError\<close>, the panel showing no message. And with
  an error whose description holds asterisks and a tag, the message that is appended does
  not hold the description: the formatting has rewritten it and the rest is markup.
\<close>

theorem failed_dispatch_can_reject:
  "\<not> streamed null_gateway (sample_model ''a'') ''hi''
   \<and> blocking_answer null_gateway (sample_model ''a'') ''hi'' = Rejects (Thrown JNull)
   \<and> escaped (sendMessageToModel sample_registry null_gateway ''hi'' ([] :: unit list) ''a''
        sample_windows)
      = Some (TypeError (''Cannot read properties of null (reading '' @ [CHR 0x27] @ ''message''
                         @ [CHR 0x27] @ '')''))
   \<and> windows (sendMessageToModel sample_registry null_gateway ''hi'' ([] :: unit list) ''a''
        sample_windows) ''a''
      = Some [UserMessage ''hi'']
   \<and> \<not> streamed marked_gateway (sample_model ''a'') ''hi''
   \<and> blocking_answer marked_gateway (sample_model ''a'') ''hi''
      = Rejects (ErrorObject (Error ''quota *exceeded* for <b>this</b> model''))
   \<and> windows (sendMessageToModel sample_registry marked_gateway ''hi'' ([] :: unit list) ''a''
        sample_windows) ''a''
      = Some [UserMessage ''hi'',
              AssistantMessage ''Error: quota <em>exceeded</em> for <b>this</b> model'']"
proof -
  let ?m = "sample_model ''a''"
  have "\<not> streamed null_gateway ?m ''hi''"
    by (simp add: streamed_def stream_answer_def null_gateway_def delivers_stream_def)
  moreover have "blocking_answer null_gateway ?m ''hi'' = Rejects (Thrown JNull)"
    by (simp add: blocking_answer_def null_gateway_def)
  moreover have "escaped (sendMessageToModel sample_registry null_gateway ''hi'' ([] :: unit list)
        ''a'' sample_windows)
      = Some (TypeError (''Cannot read properties of null (reading '' @ [CHR 0x27] @ ''message''
                         @ [CHR 0x27] @ '')''))"
    by code_simp
  moreover have "windows (sendMessageToModel sample_registry null_gateway ''hi'' ([] :: unit list)
        ''a'' sample_windows) ''a'' = Some [UserMessage ''hi'']"
    by code_simp
  moreover have "\<not> streamed marked_gateway ?m ''hi''"
    by (simp add: streamed_def stream_answer_def marked_gateway_def delivers_stream_def)
  moreover have "blocking_answer marked_gateway ?m ''hi''
      = Rejects (ErrorObject (Error ''quota *exceeded* for <b>this</b> model''))"
    by (simp add: blocking_answer_def marked_gateway_def)
  moreover have "windows (sendMessageToModel sample_registry marked_gateway ''hi''
        ([] :: unit list) ''a'' sample_windows) ''a''
      = Some [UserMessage ''hi'',
              AssistantMessage ''Error: quota <em>exceeded</em> for <b>this</b> model'']"
    by code_simp
  ultimately show ?thesis by blast
qed

text \<open>
  C4, as the code has it. When every transport attempt of a dispatch fails (no streaming
  attempt delivers a stream, the blocking call with the turn sequence raises and the
  blocking call with the flattened string raises with \<open>error\<close>), the requests sent are
  the streaming attempts followed by the two blocking calls, and the model's panel, and no
  other, changes: the typing indicator shown by the dispatch is taken away again. When
  \<open>`Error: ${error.message}`\<close> can be built, one assistant message is appended whose
  inner HTML is that notice, formatted, and nothing escapes; when building it raises, no
  message is appended and the dispatch is rejected with what was raised. For an
  \<open>Error\<close> object the notice is \<open>Error: \<close> and its description, and when the
  description has no newline, asterisk, backquote, \<open><\<close> or \<open>&\<close> the inner HTML is
  that text, letter for letter and free of markup. For \<open>null\<close> and \<open>undefined\<close> the
  notice cannot be built. In a panel without a stale indicator the children are the old
  ones, less the placeholder when a message is appended.
\<close>

theorem all_transports_fail:
  assumes "getModel modelId = Some m" and "cw modelId = Some els"
    and "\<not> streamed chat m msg" and "blocking_answer chat m msg = Rejects error"
  shows "requests (sendMessageToModel getModel chat msg [] modelId cw)
        = streaming_requests chat m msg @ [blocking_turns m msg, blocking_text m msg]
    \<and> (\<forall>notice. error_notice error = Inr notice \<longrightarrow>
          escaped (sendMessageToModel getModel chat msg [] modelId cw) = None
          \<and> windows (sendMessageToModel getModel chat msg [] modelId cw)
              = cw(modelId \<mapsto> answered els (AssistantMessage (formatContent (JStr notice)))))
    \<and> (\<forall>raised. error_notice error = Inl raised \<longrightarrow>
          escaped (sendMessageToModel getModel chat msg [] modelId cw) = Some raised
          \<and> windows (sendMessageToModel getModel chat msg [] modelId cw)
              = cw(modelId \<mapsto>
                   remove_first (\<lambda>y. y = TypingIndicator) (els @ [TypingIndicator])))
    \<and> (\<forall>e. error = ErrorObject e \<longrightarrow> error_notice error = Inr (''Error: '' @ message e))
    \<and> (\<forall>e. error = ErrorObject e \<and> unmarked (message e) \<and> literal_html (message e) \<longrightarrow>
          formatContent (JStr (''Error: '' @ message e)) = ''Error: '' @ message e
          \<and> literal_html (''Error: '' @ message e))
    \<and> (error = Thrown JNull \<or> error = Thrown JUndefined \<longrightarrow>
          (\<exists>raised. error_notice error = Inl raised))
    \<and> (TypingIndicator \<notin> set els \<longrightarrow>
          remove_first (\<lambda>y. y = TypingIndicator) (els @ [TypingIndicator]) = els
          \<and> (\<forall>x. answered els x = remove_first (\<lambda>y. y = Placeholder) els @ [x]))"
proof -
  have "rejected (chat (blocking_turns m msg))"
    using assms(4) by (simp add: blocking_answer_def rejected_def split: chat_result.splits)
  then have 1: "requests (sendMessageToModel getModel chat msg [] modelId cw)
      = streaming_requests chat m msg @ [blocking_turns m msg, blocking_text m msg]"
    using assms by (simp add: sendMessageToModel_text [of getModel modelId m] blocking_requests_def)
  have caught: "escaped (sendMessageToModel getModel chat msg [] modelId cw) = fst (dispatch_catch error modelId (showTypingIndicator modelId cw))"
    "windows (sendMessageToModel getModel chat msg [] modelId cw) = snd (dispatch_catch error modelId (showTypingIndicator modelId cw))"
    using assms by (simp_all add: sendMessageToModel_text [of getModel modelId m])
  have 2: "escaped (sendMessageToModel getModel chat msg [] modelId cw) = None
      \<and> windows (sendMessageToModel getModel chat msg [] modelId cw) = cw(modelId \<mapsto> answered els (AssistantMessage (formatContent (JStr notice))))"
    if "error_notice error = Inr notice" for notice
    using that caught caught_panel [of cw modelId els error] assms(2) by simp
  have 3: "escaped (sendMessageToModel getModel chat msg [] modelId cw) = Some raised
      \<and> windows (sendMessageToModel getModel chat msg [] modelId cw)
          = cw(modelId \<mapsto> remove_first (\<lambda>y. y = TypingIndicator) (els @ [TypingIndicator]))"
    if "error_notice error = Inl raised" for raised
    using that caught caught_panel [of cw modelId els error] assms(2) by simp
  have 4: "error_notice error = Inr (''Error: '' @ message e)" if "error = ErrorObject e" for e
    using that by (simp add: notice_error_object)
  have 5: "formatContent (JStr (''Error: '' @ message e)) = ''Error: '' @ message e
      \<and> literal_html (''Error: '' @ message e)"
    if "unmarked (message e)" and "literal_html (message e)" for e
    using that formatContent_unmarked [OF unmarked_error] literal_error by blast
  have 6: "\<exists>raised. error_notice error = Inl raised"
    if "error = Thrown JNull \<or> error = Thrown JUndefined"
    using that by (auto simp: error_notice_def)
  have 7: "remove_first (\<lambda>y. y = TypingIndicator) (els @ [TypingIndicator]) = els
      \<and> (\<forall>x. answered els x = remove_first (\<lambda>y. y = Placeholder) els @ [x])"
    if "TypingIndicator \<notin> set els"
    using that remove_first_append_last [of els "\<lambda>y. y = TypingIndicator" TypingIndicator]
    by (auto simp: answered_fresh)
  show ?thesis
    using 1 2 3 4 5 6 7 by blast
qed

theorem all_transports_fail_witness:
  "sample_registry ''a'' = Some (sample_model ''a'')
   \<and> sample_windows ''a'' = Some [UserMessage ''hi'']
   \<and> \<not> streamed failing_gateway (sample_model ''a'') ''hi''
   \<and> blocking_answer failing_gateway (sample_model ''a'') ''hi''
      = Rejects (ErrorObject (Error ''service unavailable''))
   \<and> error_notice (ErrorObject (Error ''service unavailable'')) = Inr ''Error: service unavailable''
   \<and> unmarked ''service unavailable'' \<and> literal_html ''service unavailable''
   \<and> TypingIndicator \<notin> set [UserMessage ''hi'']
   \<and> escaped (sendMessageToModel sample_registry failing_gateway ''hi'' ([] :: unit list) ''a''
        sample_windows) = None
   \<and> windows (sendMessageToModel sample_registry failing_gateway ''hi'' ([] :: unit list) ''a''
        sample_windows)
      = sample_windows(''a'' \<mapsto> [UserMessage ''hi'', AssistantMessage ''Error: service unavailable''])
   \<and> length (requests (sendMessageToModel sample_registry failing_gateway ''hi'' ([] :: unit list)
        ''a'' sample_windows)) = 4
   \<and> \<not> streamed null_gateway (sample_model ''a'') ''hi''
   \<and> blocking_answer null_gateway (sample_model ''a'') ''hi'' = Rejects (Thrown JNull)
   \<and> error_notice (Thrown JNull)
      = Inl (TypeError (''Cannot read properties of null (reading '' @ [CHR 0x27] @ ''message''
                        @ [CHR 0x27] @ '')''))
   \<and> escaped (sendMessageToModel sample_registry null_gateway ''hi'' ([] :: unit list) ''a''
        sample_windows)
      = Some (TypeError (''Cannot read properties of null (reading '' @ [CHR 0x27] @ ''message''
                         @ [CHR 0x27] @ '')''))
   \<and> windows (sendMessageToModel sample_registry null_gateway ''hi'' ([] :: unit list) ''a''
        sample_windows)
      = sample_windows(''a'' \<mapsto> [UserMessage ''hi''])"
proof -
  let ?e = "Error ''service unavailable''"
  have 1: "sample_registry ''a'' = Some (sample_model ''a'')"
    by (simp add: sample_registry_def)
  have 2: "sample_windows ''a'' = Some [UserMessage ''hi'']"
    by (simp add: sample_windows_def)
  have 3: "\<not> streamed failing_gateway (sample_model ''a'') ''hi''"
    by (simp add: streamed_def stream_answer_def failing_gateway_def delivers_stream_def)
  have 4: "blocking_answer failing_gateway (sample_model ''a'') ''hi'' = Rejects (ErrorObject ?e)"
    by (simp add: blocking_answer_def failing_gateway_def)
  have 5: "unmarked (message ?e)" "literal_html (message ?e)"
    by (simp_all add: unmarked_def literal_html_def)
  have 6: "TypingIndicator \<notin> set [UserMessage ''hi'']"
    by simp
  let ?D = "sendMessageToModel sample_registry failing_gateway ''hi'' ([] :: unit list) ''a''
        sample_windows"
  note fact = all_transports_fail [where getModel = sample_registry and modelId = "''a''"
        and m = "sample_model ''a''" and cw = sample_windows and els = "[UserMessage ''hi'']"
        and chat = failing_gateway and msg = "''hi''" and error = "ErrorObject ?e", OF 1 2 3 4]
  from fact have notice: "error_notice (ErrorObject ?e) = Inr (''Error: '' @ message ?e)"
    by blast
  from fact 5 have shown: "formatContent (JStr (''Error: '' @ message ?e)) = ''Error: '' @ message ?e"
    by blast
  from fact 6 have fresh: "answered [UserMessage ''hi''] (AssistantMessage (''Error: '' @ message ?e))
      = remove_first (\<lambda>y. y = Placeholder) [UserMessage ''hi'']
        @ [AssistantMessage (''Error: '' @ message ?e)]"
    by blast
  from fact notice have "escaped ?D = None"
    and "windows ?D = sample_windows(''a'' \<mapsto> answered [UserMessage ''hi'']
           (AssistantMessage (formatContent (JStr (''Error: '' @ message ?e)))))"
    by blast+
  moreover from fact have "requests ?D = streaming_requests failing_gateway (sample_model ''a'') ''hi''
        @ [blocking_turns (sample_model ''a'') ''hi'', blocking_text (sample_model ''a'') ''hi'']"
    by blast
  ultimately have down: "escaped ?D = None"
    "windows ?D
       = sample_windows(''a'' \<mapsto> [UserMessage ''hi'', AssistantMessage ''Error: service unavailable''])"
    "length (requests ?D) = 4"
    using shown fresh by (simp_all add: streaming_requests_def rejected_def failing_gateway_def)
  let ?N = "sendMessageToModel sample_registry null_gateway ''hi'' ([] :: unit list) ''a''
        sample_windows"
  let ?raised = "TypeError (''Cannot read properties of null (reading '' @ [CHR 0x27] @ ''message''
                            @ [CHR 0x27] @ '')'')"
  have 7: "\<not> streamed null_gateway (sample_model ''a'') ''hi''"
    by (simp add: streamed_def stream_answer_def null_gateway_def delivers_stream_def)
  have 8: "blocking_answer null_gateway (sample_model ''a'') ''hi'' = Rejects (Thrown JNull)"
    by (simp add: blocking_answer_def null_gateway_def)
  have 9: "error_notice (Thrown JNull) = Inl ?raised"
    by (simp add: error_notice_def)
  note null = all_transports_fail [where getModel = sample_registry and modelId = "''a''"
        and m = "sample_model ''a''" and cw = sample_windows and els = "[UserMessage ''hi'']"
        and chat = null_gateway and msg = "''hi''" and error = "Thrown JNull", OF 1 2 7 8]
  from null 9 have "escaped ?N = Some ?raised"
    and "windows ?N = sample_windows(''a'' \<mapsto>
           remove_first (\<lambda>y. y = TypingIndicator) ([UserMessage ''hi''] @ [TypingIndicator]))"
    by blast+
  then have rejects: "escaped ?N = Some ?raised"
    "windows ?N = sample_windows(''a'' \<mapsto> [UserMessage ''hi''])"
    by simp_all
  show ?thesis
    using 1 2 3 4 5 6 7 8 9 notice down rejects by simp
qed





section \<open>Properties of the fan-out\<close>

text \<open>Locality: a step of the dispatch for one model reads and writes that model's panel
  only.\<close>

lemma resume_other:
  "m \<noteq> modelId \<Longrightarrow> snd (resume chat msg modelId t cw) m = cw m"
proof (induction chat msg modelId t cw rule: resume.induct)
qed (auto simp: begin_stream_def settle_def show_response_def displayResponseForModel_def
        displayAssistantMessage_def removeTypingIndicator_def dispatch_catch_def
        set_message_content_def Let_def
      split: chat_result.splits jsval.splits option.splits sum.splits prod.splits)

lemma resume_same:
  "cw modelId = cw' modelId \<Longrightarrow>
     fst (resume chat msg modelId t cw) = fst (resume chat msg modelId t cw')
     \<and> snd (resume chat msg modelId t cw) modelId = snd (resume chat msg modelId t cw') modelId"
proof (induction chat msg modelId t cw rule: resume.induct)
qed (auto simp: begin_stream_def settle_def show_response_def displayResponseForModel_def
        displayAssistantMessage_def removeTypingIndicator_def dispatch_catch_def
        set_message_content_def Let_def
      split: chat_result.splits jsval.splits option.splits sum.splits prod.splits)

lemma start_other:
  "m \<noteq> modelId \<Longrightarrow> snd (start getModel msg images modelId cw) m = cw m"
  by (auto simp: start_def settle_def show_response_def displayResponseForModel_def
        displayAssistantMessage_def removeTypingIndicator_def showTypingIndicator_def
        dispatch_catch_def Let_def
      split: option.splits sum.splits prod.splits)

lemma start_same:
  "cw modelId = cw' modelId \<Longrightarrow>
     fst (start getModel msg images modelId cw) = fst (start getModel msg images modelId cw')
     \<and> snd (start getModel msg images modelId cw) modelId
       = snd (start getModel msg images modelId cw') modelId"
  by (auto simp: start_def settle_def show_response_def displayResponseForModel_def
        displayAssistantMessage_def removeTypingIndicator_def showTypingIndicator_def
        dispatch_catch_def Let_def
      split: option.splits sum.splits prod.splits)

lemma run_alone_Suc:
  "run_alone getModel chat msg images modelId (Suc k) cw =
     resume chat msg modelId (fst (run_alone getModel chat msg images modelId k cw))
       (snd (run_alone getModel chat msg images modelId k cw))"
  by (simp add: run_alone_def)

lemma run_alone_0: "run_alone getModel chat msg images modelId 0 cw = start getModel msg images modelId cw"
  by (simp add: run_alone_def)

lemma start_all_pool:
  assumes "distinct modelIds"
  shows "fst (start_all getModel msg images modelIds cw)
           = map (\<lambda>m. (m, fst (start getModel msg images m cw))) modelIds
       \<and> (\<forall>m. snd (start_all getModel msg images modelIds cw) m
              = (if m \<in> set modelIds then snd (start getModel msg images m cw) m else cw m))"
  using assms
proof (induction modelIds arbitrary: cw)
  case Nil
  then show ?case by simp
next
  case (Cons a as)
  let ?cw1 = "snd (start getModel msg images a cw)"
  have other: "\<And>m. m \<noteq> a \<Longrightarrow> ?cw1 m = cw m"
    by (simp add: start_other)
  have IH: "fst (start_all getModel msg images as ?cw1)
           = map (\<lambda>m. (m, fst (start getModel msg images m ?cw1))) as"
    "\<And>m. snd (start_all getModel msg images as ?cw1) m
              = (if m \<in> set as then snd (start getModel msg images m ?cw1) m else ?cw1 m)"
    using Cons by auto
  have same: "\<And>m. m \<in> set as \<Longrightarrow>
       fst (start getModel msg images m ?cw1) = fst (start getModel msg images m cw)
       \<and> snd (start getModel msg images m ?cw1) m = snd (start getModel msg images m cw) m"
  proof -
    fix m assume "m \<in> set as"
    then have "m \<noteq> a" using Cons.prems by auto
    then have "?cw1 m = cw m" by (rule other)
    then show "fst (start getModel msg images m ?cw1) = fst (start getModel msg images m cw)
       \<and> snd (start getModel msg images m ?cw1) m = snd (start getModel msg images m cw) m"
      by (rule start_same)
  qed
  have unfold: "start_all getModel msg images (a # as) cw
      = ((a, fst (start getModel msg images a cw)) # fst (start_all getModel msg images as ?cw1),
         snd (start_all getModel msg images as ?cw1))"
    by (simp add: split_beta Let_def)
  show ?case
    unfolding unfold using Cons.prems other same by (auto simp: IH)
qed

lemma fan_out_invariant:
  assumes "distinct modelIds"
  shows "length (fst (sendMessageToAllModels getModel chat msg images modelIds schedule cw))
           = length modelIds
     \<and> (\<forall>i < length modelIds.
          fst (sendMessageToAllModels getModel chat msg images modelIds schedule cw) ! i
            = (modelIds ! i,
               fst (run_alone getModel chat msg images (modelIds ! i) (count_list schedule i) cw))
          \<and> snd (sendMessageToAllModels getModel chat msg images modelIds schedule cw) (modelIds ! i)
            = snd (run_alone getModel chat msg images (modelIds ! i) (count_list schedule i) cw)
                (modelIds ! i))
     \<and> (\<forall>m. m \<notin> set modelIds \<longrightarrow>
          snd (sendMessageToAllModels getModel chat msg images modelIds schedule cw) m = cw m)"
proof (induction schedule rule: rev_induct)
  case Nil
  show ?case
    using start_all_pool [OF assms, of getModel msg images cw]
    by (simp add: sendMessageToAllModels_def run_alone_0)
next
  case (snoc j js)
  let ?pc = "sendMessageToAllModels getModel chat msg images modelIds js cw"
  let ?solo = "\<lambda>i k. run_alone getModel chat msg images (modelIds ! i) k cw"
  have step: "sendMessageToAllModels getModel chat msg images modelIds (js @ [j]) cw
              = resume_nth chat msg j ?pc"
    by (simp add: sendMessageToAllModels_def)
  have len: "length (fst ?pc) = length modelIds"
    and pool: "\<And>i. i < length modelIds \<Longrightarrow>
                 fst ?pc ! i = (modelIds ! i, fst (?solo i (count_list js i)))"
    and panel: "\<And>i. i < length modelIds \<Longrightarrow>
                 snd ?pc (modelIds ! i) = snd (?solo i (count_list js i)) (modelIds ! i)"
    and rest: "\<And>m. m \<notin> set modelIds \<Longrightarrow> snd ?pc m = cw m"
    using snoc by auto
  show ?case
  proof (cases "j < length modelIds")
    case False
    then have "resume_nth chat msg j ?pc = ?pc"
      by (simp add: resume_nth_def len)
    moreover have "\<And>i. i < length modelIds \<Longrightarrow> count_list (js @ [j]) i = count_list js i"
      using False by auto
    ultimately show ?thesis
      using len pool panel rest by (simp add: step)
  next
    case True
    let ?m = "modelIds ! j"
    let ?t = "fst (?solo j (count_list js j))"
    let ?r = "resume chat msg ?m ?t (snd ?pc)"
    have r: "resume_nth chat msg j ?pc = ((fst ?pc)[j := (?m, fst ?r)], snd ?r)"
      using True pool [OF True] by (simp add: resume_nth_def len split_beta Let_def)
    have agree: "fst ?r = fst (?solo j (Suc (count_list js j)))
                 \<and> snd ?r ?m = snd (?solo j (Suc (count_list js j))) ?m"
      using resume_same [of "snd ?pc" ?m "snd (?solo j (count_list js j))" chat msg ?t]
        panel [OF True]
      by (simp add: run_alone_Suc)
    have others: "\<And>m. m \<noteq> ?m \<Longrightarrow> snd ?r m = snd ?pc m"
      by (simp add: resume_other)
    have distinct_nth: "\<And>i. i < length modelIds \<Longrightarrow> i \<noteq> j \<Longrightarrow> modelIds ! i \<noteq> ?m"
      using assms True by (simp add: nth_eq_iff_index_eq)
    have count: "\<And>i. count_list (js @ [j]) i = (if i = j then Suc (count_list js j) else count_list js i)"
      by auto
    show ?thesis
      unfolding step r
    proof (intro conjI allI impI)
      show "length (fst ((fst ?pc)[j := (?m, fst ?r)], snd ?r)) = length modelIds"
        by (simp add: len)
    next
      fix i assume i: "i < length modelIds"
      show "fst ((fst ?pc)[j := (?m, fst ?r)], snd ?r) ! i
            = (modelIds ! i, fst (?solo i (count_list (js @ [j]) i)))"
        using i pool [OF i] agree len by (cases "i = j") (simp_all add: count)
      show "snd ((fst ?pc)[j := (?m, fst ?r)], snd ?r) (modelIds ! i)
            = snd (?solo i (count_list (js @ [j]) i)) (modelIds ! i)"
        using i panel [OF i] agree others distinct_nth [OF i]
        by (cases "i = j") (simp_all add: count)
    next
      fix m assume "m \<notin> set modelIds"
      then have "m \<noteq> ?m" using True by auto
      then show "snd ((fst ?pc)[j := (?m, fst ?r)], snd ?r) m = cw m"
        using others rest \<open>m \<notin> set modelIds\<close> by simp
    qed
  qed
qed


lemma settles_now: "settles_within chat msg modelId n (Settled, cw) cw"
  unfolding settles_within_def by (rule exI [of _ 0]) simp

lemma settles_step:
  assumes "settles_within chat msg modelId n (resume chat msg modelId t cw) cw'" and "Suc n \<le> n'"
  shows "settles_within chat msg modelId n' (t, cw) cw'"
proof -
  from assms(1) obtain k
    where k: "k \<le> n"
      "((\<lambda>tc. resume chat msg modelId (fst tc) (snd tc)) ^^ k) (resume chat msg modelId t cw)
           = (Settled, cw')"
    unfolding settles_within_def by blast
  then have "((\<lambda>tc. resume chat msg modelId (fst tc) (snd tc)) ^^ Suc k) (t, cw) = (Settled, cw')"
    by (simp add: funpow_Suc_right del: funpow.simps)
  moreover have "Suc k \<le> n'" using k(1) assms(2) by simp
  ultimately show ?thesis unfolding settles_within_def by blast
qed

lemma settled_stays:
  "((\<lambda>tc. resume chat msg modelId (fst tc) (snd tc)) ^^ k) (Settled, cw) = (Settled, cw)"
  by (induction k) simp_all

lemma settles_later:
  assumes "settles_within chat msg modelId n tc cw'" and "n \<le> k"
  shows "((\<lambda>tc. resume chat msg modelId (fst tc) (snd tc)) ^^ k) tc = (Settled, cw')"
proof -
  from assms(1) obtain j
    where j: "j \<le> n" "((\<lambda>tc. resume chat msg modelId (fst tc) (snd tc)) ^^ j) tc = (Settled, cw')"
    unfolding settles_within_def by blast
  with assms(2) obtain d where "k = d + j"
    by (metis le_add_diff_inverse2 le_trans)
  then show ?thesis using j(2) by (simp add: funpow_add settled_stays)
qed

lemma parts_settle:
  "settles_within chat msg modelId (Suc (length parts))
     (AwaitPart messageDiv acc parts fin, cw)
     (case consume_stream modelId messageDiv acc parts fin cw of
        (None, cw2) \<Rightarrow> cw2
      | (Some error, cw2) \<Rightarrow>
          set_message_content modelId messageDiv (''Error: '' @ message error) cw2)"
proof (induction parts arbitrary: acc cw)
  case Nil
  show ?case
    by (rule settles_step [where n = 0]) (auto simp: settles_now split: option.splits)
next
  case (Cons p ps)
  show ?case
  proof (rule settles_step [where n = "Suc (length ps)"], cases "truthy (get p ''text'')")
    case False
    then show "settles_within chat msg modelId (Suc (length ps))
       (resume chat msg modelId (AwaitPart messageDiv acc (p # ps) fin) cw)
       (case consume_stream modelId messageDiv acc (p # ps) fin cw of
          (None, cw2) \<Rightarrow> cw2
        | (Some error, cw2) \<Rightarrow>
            set_message_content modelId messageDiv (''Error: '' @ message error) cw2)"
      using Cons [of acc cw] by simp
  next
    case True
    then show "settles_within chat msg modelId (Suc (length ps))
       (resume chat msg modelId (AwaitPart messageDiv acc (p # ps) fin) cw)
       (case consume_stream modelId messageDiv acc (p # ps) fin cw of
          (None, cw2) \<Rightarrow> cw2
        | (Some error, cw2) \<Rightarrow>
            set_message_content modelId messageDiv (''Error: '' @ message error) cw2)"
      using Cons by (cases "to_string (get p ''text'')") (simp_all add: settles_now)
  qed simp
qed

lemma stream_settles:
  "settles_within chat msg modelId (Suc (length parts)) (begin_stream parts fin modelId cw)
     (handleStreamingResponseForModel parts fin modelId cw)"
  using parts_settle
  by (simp add: begin_stream_def handleStreamingResponseForModel_def split_beta Let_def)

lemma landed_after [simp]: "landed modelId (after_requests reqs r) = landed modelId r"
  by (cases r) (simp add: landed_def after_requests_def split: sum.splits)

lemma settle_settles:
  "settles_within chat msg modelId n (settle modelId r) (landed modelId (reqs, r))"
  by (cases r) (simp add: settle_def landed_def settles_now split: sum.splits)

lemma direct_settles:
  "settles_within chat msg modelId 2 (AwaitChat DirectTurns m, cw)
     (landed modelId (direct_response chat msg modelId m cw))"
proof (rule settles_step [where n = 1], cases "chat (blocking_turns m msg)")
  case (Resolves v)
  then show "settles_within chat msg modelId 1 (resume chat msg modelId (AwaitChat DirectTurns m) cw)
     (landed modelId (direct_response chat msg modelId m cw))"
    by (simp add: direct_response_def settle_settles)
next
  case (Rejects e)
  then show "settles_within chat msg modelId 1 (resume chat msg modelId (AwaitChat DirectTurns m) cw)
     (landed modelId (direct_response chat msg modelId m cw))"
    by (auto intro!: settles_step [where n = 0] simp: direct_response_def settle_settles
          split: chat_result.splits)
qed simp

lemma settles_mono:
  "settles_within chat msg modelId n tc cw' \<Longrightarrow> n \<le> n' \<Longrightarrow> settles_within chat msg modelId n' tc cw'"
  unfolding settles_within_def by (meson le_trans)

lemma after_stream_answer:
  "settles_within chat msg modelId (2 + stream_length (Resolves v))
     (case v of JStream parts fin \<Rightarrow> begin_stream parts fin modelId cw
              | _ \<Rightarrow> (AwaitChat DirectTurns m, cw))
     (landed modelId
        (case v of
           JStream parts fin \<Rightarrow> (reqs, Inr (), handleStreamingResponseForModel parts fin modelId cw)
         | _ \<Rightarrow> after_requests reqs (direct_response chat msg modelId m cw)))"
proof (cases v)
  case (JStream parts fin)
  then show ?thesis
    using settles_mono [OF stream_settles [of chat msg modelId parts fin cw],
        of "2 + stream_length (Resolves v)"]
    by (simp add: stream_length_def landed_def)
qed (use settles_mono [OF direct_settles [of chat msg modelId m cw],
        of "2 + stream_length (Resolves v)"] in \<open>simp_all add: stream_length_def\<close>)

lemma body_settles:
  "settles_within chat msg modelId
     (4 + stream_length (chat (streaming_turns m msg)) + stream_length (chat (streaming_text m msg)))
     (AwaitChat StreamTurns m, cw)
     (landed modelId (dispatch_body chat msg [] modelId m cw))"
proof (cases "chat (streaming_turns m msg)")
  case (Resolves v)
  have "settles_within chat msg modelId (2 + stream_length (Resolves v))
          (resume chat msg modelId (AwaitChat StreamTurns m) cw)
          (landed modelId (dispatch_body chat msg [] modelId m cw))"
    using after_stream_answer [where chat = chat and msg = msg and modelId = modelId and v = v
          and cw = cw and m = m and reqs = "[streaming_turns m msg]"] Resolves
    by (cases v) (simp_all add: dispatch_body_def)
  then show ?thesis
    by (rule settles_step) (simp add: Resolves)
next
  case (Rejects e)
  have "settles_within chat msg modelId (3 + stream_length (chat (streaming_text m msg)))
          (AwaitChat StreamText m, cw)
          (landed modelId (dispatch_body chat msg [] modelId m cw))"
  proof (cases "chat (streaming_text m msg)")
    case (Resolves v)
    have "settles_within chat msg modelId (2 + stream_length (Resolves v))
          (resume chat msg modelId (AwaitChat StreamText m) cw)
          (landed modelId (dispatch_body chat msg [] modelId m cw))"
      using after_stream_answer [where chat = chat and msg = msg and modelId = modelId and v = v
          and cw = cw and m = m and reqs = "[streaming_turns m msg, streaming_text m msg]"]
        Resolves Rejects
      by (cases v) (simp_all add: dispatch_body_def)
    then show ?thesis
      by (rule settles_step) (simp add: Resolves)
  next
    case Rejects2: (Rejects e2)
    have "settles_within chat msg modelId 2
          (resume chat msg modelId (AwaitChat StreamText m) cw)
          (landed modelId (dispatch_body chat msg [] modelId m cw))"
      using Rejects Rejects2 direct_settles [of chat msg modelId m cw]
      by (simp add: dispatch_body_def)
    then show ?thesis
      by (rule settles_step) simp
  qed
  then have "settles_within chat msg modelId (3 + stream_length (chat (streaming_text m msg)))
          (resume chat msg modelId (AwaitChat StreamTurns m) cw)
          (landed modelId (dispatch_body chat msg [] modelId m cw))"
    using Rejects by simp
  then show ?thesis
    by (rule settles_step) simp
qed

lemma windows_landed:
  "windows (sendMessageToModel getModel chat msg images modelId cw) =
     landed modelId
       (case getModel modelId of
          None \<Rightarrow> ([], Inl (ErrorObject (Error (''Model '' @ modelId @ '' not found''))),
                   showTypingIndicator modelId cw)
        | Some m \<Rightarrow> dispatch_body chat msg images modelId m (showTypingIndicator modelId cw))"
  by (simp add: sendMessageToModel_def landed_def Let_def split: prod.splits sum.splits)

lemma dispatch_settles:
  "settles_within chat msg modelId (resumptions getModel chat msg modelId)
     (start getModel msg images modelId cw)
     (windows (sendMessageToModel getModel chat msg images modelId cw))"
proof (cases "getModel modelId")
  case None
  then show ?thesis
    by (simp add: windows_landed start_def settle_settles)
next
  case (Some m)
  show ?thesis
  proof (cases "images = []")
    case True
    then show ?thesis
      using Some body_settles [of chat msg modelId m "showTypingIndicator modelId cw"]
      by (simp add: windows_landed start_def resumptions_def)
  next
    case False
    then show ?thesis
      using Some
      by (simp add: windows_landed start_def dispatch_body_def settle_settles)
  qed
qed

lemma run_alone_settled:
  assumes "resumptions getModel chat msg modelId \<le> k"
  shows "run_alone getModel chat msg images modelId k cw
       = (Settled, windows (sendMessageToModel getModel chat msg images modelId cw))"
  unfolding run_alone_def using dispatch_settles assms by (rule settles_later)

text \<open>
  C1. \<open>sendMessageToAllModels\<close> starts one dispatch per model identifier before any of
  them is resumed: with the empty schedule every task stands where its own call leaves it.
  For distinct model identifiers and any schedule that resumes each dispatch as often as
  it needs (\<open>resumptions\<close> bounds that number), in whatever order and interleaving, every
  task is settled, so \<open>Promise.allSettled\<close> resolves; the panel of each target model is
  what \<open>sendMessageToModel\<close> run alone on the initial panels leaves there, whatever the
  other dispatches did, failures included; every other panel is untouched.
\<close>

theorem fan_out_isolated:
  assumes "distinct modelIds"
    and "\<forall>i < length modelIds.
           resumptions getModel chat msg (modelIds ! i) \<le> count_list schedule i"
  shows "(\<forall>i < length modelIds.
            fst (sendMessageToAllModels getModel chat msg images modelIds [] cw) ! i
              = (modelIds ! i, fst (start getModel msg images (modelIds ! i) cw)))
     \<and> all_settled (fst (sendMessageToAllModels getModel chat msg images modelIds schedule cw))
     \<and> map fst (fst (sendMessageToAllModels getModel chat msg images modelIds schedule cw))
         = modelIds
     \<and> (\<forall>m. snd (sendMessageToAllModels getModel chat msg images modelIds schedule cw) m
            = (if m \<in> set modelIds
               then windows (sendMessageToModel getModel chat msg images m cw) m
               else cw m))"
proof -
  let ?R = "sendMessageToAllModels getModel chat msg images modelIds schedule cw"
  note inv = fan_out_invariant [OF assms(1), of getModel chat msg images schedule cw]
  have len: "length (fst ?R) = length modelIds"
    using inv by simp
  have task: "fst ?R ! i = (modelIds ! i, Settled)"
    and panel: "snd ?R (modelIds ! i)
         = windows (sendMessageToModel getModel chat msg images (modelIds ! i) cw) (modelIds ! i)"
    if "i < length modelIds" for i
    using inv assms(2) that
      run_alone_settled [of getModel chat msg "modelIds ! i" "count_list schedule i" images cw]
    by auto
  have "all_settled (fst ?R)"
    using len task by (simp add: all_settled_def list_all_length)
  moreover have "map fst (fst ?R) = modelIds"
    using len task by (intro nth_equalityI) auto
  moreover have "snd ?R m = (if m \<in> set modelIds
                  then windows (sendMessageToModel getModel chat msg images m cw) m
                  else cw m)" for m
  proof (cases "m \<in> set modelIds")
    case True
    then obtain i where "i < length modelIds" "modelIds ! i = m"
      by (auto simp: in_set_conv_nth)
    with panel [of i] True show ?thesis by simp
  next
    case False
    with inv show ?thesis by simp
  qed
  moreover have "\<forall>i < length modelIds.
            fst (sendMessageToAllModels getModel chat msg images modelIds [] cw) ! i
              = (modelIds ! i, fst (start getModel msg images (modelIds ! i) cw))"
    using fan_out_invariant [OF assms(1), of getModel chat msg images "[]" cw]
    by (simp add: run_alone_0)
  ultimately show ?thesis by blast
qed

theorem fan_out_isolated_witness:
  "distinct [''a'', ''b'', ''c'']
   \<and> resumptions sample_registry partial_gateway ''hi'' ''a'' \<le> count_list (round_robin 3 10) 0
   \<and> resumptions sample_registry partial_gateway ''hi'' ''b'' \<le> count_list (round_robin 3 10) 1
   \<and> resumptions sample_registry partial_gateway ''hi'' ''c'' \<le> count_list (round_robin 3 10) 2
   \<and> all_settled (fst (sendMessageToAllModels sample_registry partial_gateway ''hi''
        ([] :: unit list) [''a'', ''b'', ''c''] (round_robin 3 10) sample_windows))
   \<and> snd (sendMessageToAllModels sample_registry partial_gateway ''hi''
        ([] :: unit list) [''a'', ''b'', ''c''] (round_robin 3 10) sample_windows) ''a''
      = Some [UserMessage ''hi'', AssistantMessage ''Hello'']
   \<and> snd (sendMessageToAllModels sample_registry partial_gateway ''hi''
        ([] :: unit list) [''a'', ''b'', ''c''] (round_robin 3 10) sample_windows) ''b''
      = Some [UserMessage ''hi'', AssistantMessage ''Error: model overloaded'']
   \<and> snd (sendMessageToAllModels sample_registry partial_gateway ''hi''
        ([] :: unit list) [''a'', ''b'', ''c''] (round_robin 3 10) sample_windows) ''c''
      = Some [UserMessage ''hi'', AssistantMessage ''Hello'']"
proof -
  let ?ids = "[''a'', ''b'', ''c'']"
  let ?R = "sendMessageToAllModels sample_registry partial_gateway ''hi''
        ([] :: unit list) ?ids (round_robin 3 10) sample_windows"
  have d: "distinct ?ids" by simp
  have a: "resumptions sample_registry partial_gateway ''hi'' ''a'' \<le> count_list (round_robin 3 10) 0"
    by code_simp
  have b: "resumptions sample_registry partial_gateway ''hi'' ''b'' \<le> count_list (round_robin 3 10) 1"
    by code_simp
  have c: "resumptions sample_registry partial_gateway ''hi'' ''c'' \<le> count_list (round_robin 3 10) 2"
    by code_simp
  have enough: "\<forall>i < length ?ids.
      resumptions sample_registry partial_gateway ''hi'' (?ids ! i) \<le> count_list (round_robin 3 10) i"
  proof (intro allI impI)
    fix i assume "i < length ?ids"
    then consider "i = 0" | "i = 1" | "i = 2" by fastforce
    then show "resumptions sample_registry partial_gateway ''hi'' (?ids ! i)
               \<le> count_list (round_robin 3 10) i"
      using a b c by cases simp_all
  qed
  have wa: "windows (sendMessageToModel sample_registry partial_gateway ''hi'' ([] :: unit list)
              ''a'' sample_windows) ''a'' = Some [UserMessage ''hi'', AssistantMessage ''Hello'']"
    by code_simp
  have wb: "windows (sendMessageToModel sample_registry partial_gateway ''hi'' ([] :: unit list)
              ''b'' sample_windows) ''b''
            = Some [UserMessage ''hi'', AssistantMessage ''Error: model overloaded'']"
    by code_simp
  have wc: "windows (sendMessageToModel sample_registry partial_gateway ''hi'' ([] :: unit list)
              ''c'' sample_windows) ''c'' = Some [UserMessage ''hi'', AssistantMessage ''Hello'']"
    by code_simp
  have "all_settled (fst ?R)"
    and "\<forall>m. snd ?R m = (if m \<in> set ?ids
               then windows (sendMessageToModel sample_registry partial_gateway ''hi''
                      ([] :: unit list) m sample_windows) m
               else sample_windows m)"
    using fan_out_isolated [OF d enough, of "[] :: unit list" sample_windows] by blast+
  then show ?thesis
    using a b c wa wb wc by simp
qed

section \<open>Properties of the focused chat\<close>

lemma remove_nth_last: "remove_nth (length xs) (xs @ [x]) = xs"
  by (simp add: remove_nth_def)

lemma single_display_string:
  "single_displayAssistantMessage getModel (JStr t) s
     = Inr (length (messagesContainer s),
            s\<lparr>messagesContainer := messagesContainer s
                   @ [SingleAssistantMessage (badge getModel s) (single_format_text t)]\<rparr>)"
  by (simp add: single_displayAssistantMessage_def single_formatContent_def single_format_text_def)




text \<open>What a send leaves in the conversation.\<close>

lemma handleStreamingResponse_history:
  "chatHistory (handleStreamingResponse getModel parts fin s) = chatHistory s
   \<or> (\<exists>c. chatHistory (handleStreamingResponse getModel parts fin s)
            = chatHistory s @ [assistant_turn c])"
proof -
  have a: "chatHistory (snd (snd (single_consume_stream i acc ps fin s'))) = chatHistory s'"
    for i acc ps s'
    by (induction ps arbitrary: acc s')
       (auto simp: single_set_content_def split: sum.splits)
  let ?s1 = "s\<lparr>messagesContainer := messagesContainer s
                   @ [SingleAssistantMessage (badge getModel s) (single_format_text [])]\<rparr>"
  obtain r acc' s2
    where r: "single_consume_stream (length (messagesContainer s)) [] parts fin ?s1 = (r, acc', s2)"
    by (metis prod_cases3)
  have "chatHistory s2 = chatHistory s"
    using a [of "length (messagesContainer s)" "[]" parts ?s1] r by simp
  then show ?thesis
    using r
    by (cases r)
       (auto simp: handleStreamingResponse_def single_display_string single_set_content_def)
qed


lemma handleStreamingResponse_frame:
  "currentModel (handleStreamingResponse getModel parts fin s) = currentModel s
   \<and> isProcessing (handleStreamingResponse getModel parts fin s) = isProcessing s
   \<and> notices (handleStreamingResponse getModel parts fin s) = notices s"
proof -
  have a: "currentModel (snd (snd (single_consume_stream i acc ps fin s'))) = currentModel s'
         \<and> isProcessing (snd (snd (single_consume_stream i acc ps fin s'))) = isProcessing s'
         \<and> notices (snd (snd (single_consume_stream i acc ps fin s'))) = notices s'"
    for i acc ps s'
    by (induction ps arbitrary: acc s')
       (auto simp: single_set_content_def split: sum.splits)
  let ?s1 = "s\<lparr>messagesContainer := messagesContainer s
                   @ [SingleAssistantMessage (badge getModel s) (single_format_text [])]\<rparr>"
  obtain r acc' s2
    where r: "single_consume_stream (length (messagesContainer s)) [] parts fin ?s1 = (r, acc', s2)"
    by (metis prod_cases3)
  have "currentModel s2 = currentModel s \<and> isProcessing s2 = isProcessing s \<and> notices s2 = notices s"
    using a [of "length (messagesContainer s)" "[]" parts ?s1] r by simp
  then show ?thesis
    using r
    by (cases r)
       (auto simp: handleStreamingResponse_def single_display_string single_set_content_def)
qed

lemma single_show_response_cases:
  "(\<exists>e. single_show_response getModel v s = (Inl e, s))
   \<or> (\<exists>c s'. single_show_response getModel v s = (Inr (), s')
          \<and> chatHistory s' = chatHistory s @ [assistant_turn c]
          \<and> currentModel s' = currentModel s \<and> isProcessing s' = isProcessing s
          \<and> notices s' = notices s)"
  by (auto simp: single_show_response_def single_displayAssistantMessage_def
      split: sum.splits)

text \<open>A send that passes the validations and the guard and finds its model.\<close>

lemma send_body_valid:
  assumes "currentModel s = Some modelId" and "getModel modelId = Some m"
  shows "send_body getModel chat msg s =
     (case chat (single_streaming m (chatHistory s @ [user_turn msg])) of
        Resolves (JStream parts fin) \<Rightarrow>
          ([single_streaming m (chatHistory s @ [user_turn msg])], Inr (),
           handleStreamingResponse getModel parts fin
             (s\<lparr>chatHistory := chatHistory s @ [user_turn msg],
                messagesContainer := remove_first is_welcome (messagesContainer s)
                   @ [SingleUserMessage (single_format_text msg)]\<rparr>))
      | Resolves response \<Rightarrow>
          after_requests [single_streaming m (chatHistory s @ [user_turn msg])]
            (single_direct_response getModel chat msg m
               (Suc (length (remove_first is_welcome (messagesContainer s))))
               (s\<lparr>chatHistory := chatHistory s @ [user_turn msg],
                  messagesContainer := remove_first is_welcome (messagesContainer s)
                     @ [SingleUserMessage (single_format_text msg), SingleTypingIndicator]\<rparr>))
      | Rejects e \<Rightarrow>
          (case error_message e of
             Inl raised \<Rightarrow>
               ([single_streaming m (chatHistory s @ [user_turn msg])], Inl (ErrorObject raised),
                s\<lparr>chatHistory := chatHistory s @ [user_turn msg],
                  messagesContainer := remove_first is_welcome (messagesContainer s)
                     @ [SingleUserMessage (single_format_text msg), SingleTypingIndicator]\<rparr>)
           | Inr logged \<Rightarrow>
               after_requests [single_streaming m (chatHistory s @ [user_turn msg])]
                 (single_direct_response getModel chat msg m
                    (Suc (length (remove_first is_welcome (messagesContainer s))))
                    (s\<lparr>chatHistory := chatHistory s @ [user_turn msg],
                       messagesContainer := remove_first is_welcome (messagesContainer s)
                          @ [SingleUserMessage (single_format_text msg),
                             SingleTypingIndicator]\<rparr>))))"
proof -
  have "remove_nth (Suc (length xs)) (xs @ [x, y]) = xs @ [x]" for xs :: "single_element list" and x y
    using remove_nth_last [of "xs @ [x]" y] by simp
  then show ?thesis
    using assms
    by (simp add: send_body_def displayUserMessage_def Let_def
        cong: chat_result.case_cong jsval.case_cong sum.case_cong)
qed

lemma single_direct_response_requests:
  "\<forall>r \<in> set (fst (single_direct_response getModel chat msg m i s)).
     \<forall>ts. input r = Turns ts \<longrightarrow> ts = outgoing m (chatHistory s)"
  by (auto simp: single_direct_response_def single_blocking_def single_blocking_text_def Let_def
      split: chat_result.splits)

lemma single_direct_response_cases:
  "(\<exists>e s'. snd (single_direct_response getModel chat msg m i s) = (Inl e, s')
          \<and> chatHistory s' = chatHistory s)
   \<or> (\<exists>c s'. snd (single_direct_response getModel chat msg m i s) = (Inr (), s')
          \<and> chatHistory s' = chatHistory s @ [assistant_turn c])"
proof -
  let ?u = "s\<lparr>messagesContainer := remove_nth i (messagesContainer s)\<rparr>"
  have shown: "(\<exists>e s'. single_show_response getModel v ?u = (Inl e, s')
          \<and> chatHistory s' = chatHistory s)
     \<or> (\<exists>c s'. single_show_response getModel v ?u = (Inr (), s')
          \<and> chatHistory s' = chatHistory s @ [assistant_turn c])" for v
    using single_show_response_cases [of getModel v ?u] by auto
  show ?thesis
  proof (cases "chat (single_blocking m (chatHistory s))")
    case (Resolves v)
    then show ?thesis
      using shown [of v] by (auto simp: single_direct_response_def)
  next
    case (Rejects e)
    show ?thesis
    proof (cases "chat (single_blocking_text m msg)")
      case (Resolves v)
      then show ?thesis
        using Rejects shown [of v] by (auto simp: single_direct_response_def)
    next
      case Rejects2: (Rejects e2)
      then show ?thesis
        using Rejects by (auto simp: single_direct_response_def)
    qed
  qed
qed

lemma single_direct_response_frame:
  "currentModel (snd (snd (single_direct_response getModel chat msg m i s))) = currentModel s
   \<and> isProcessing (snd (snd (single_direct_response getModel chat msg m i s))) = isProcessing s
   \<and> notices (snd (snd (single_direct_response getModel chat msg m i s))) = notices s"
proof -
  let ?u = "s\<lparr>messagesContainer := remove_nth i (messagesContainer s)\<rparr>"
  have "currentModel (snd (single_show_response getModel v ?u)) = currentModel s
   \<and> isProcessing (snd (single_show_response getModel v ?u)) = isProcessing s
   \<and> notices (snd (single_show_response getModel v ?u)) = notices s" for v
    using single_show_response_cases [of getModel v ?u] by auto
  then show ?thesis
    by (simp add: single_direct_response_def Let_def split: chat_result.splits)
qed


lemma send_body_requests:
  assumes "currentModel s = Some modelId" and "getModel modelId = Some m"
  shows "hd (fst (send_body getModel chat msg s))
           = single_streaming m (chatHistory s @ [user_turn msg])
       \<and> fst (send_body getModel chat msg s) \<noteq> []
       \<and> (\<forall>r \<in> set (fst (send_body getModel chat msg s)).
            \<forall>ts. input r = Turns ts \<longrightarrow> ts = outgoing m (chatHistory s @ [user_turn msg]))"
proof -
  let ?s3 = "s\<lparr>chatHistory := chatHistory s @ [user_turn msg],
                  messagesContainer := remove_first is_welcome (messagesContainer s)
                     @ [SingleUserMessage (single_format_text msg), SingleTypingIndicator]\<rparr>"
  have "\<forall>r \<in> set (fst (single_direct_response getModel chat msg m i ?s3)).
          \<forall>ts. input r = Turns ts \<longrightarrow> ts = outgoing m (chatHistory s @ [user_turn msg])" for i
    using single_direct_response_requests [of getModel chat msg m i ?s3] by simp
  then show ?thesis
    using assms
    by (auto simp: send_body_valid [where m = m and modelId = modelId] after_requests_def
          single_streaming_def
        split: chat_result.splits jsval.splits sum.splits)
qed

lemma send_body_history:
  assumes "currentModel s = Some modelId" and "getModel modelId = Some m"
  shows "chatHistory (snd (snd (send_body getModel chat msg s))) = chatHistory s @ [user_turn msg]
     \<or> (fst (snd (send_body getModel chat msg s)) = Inr ()
         \<and> (\<exists>c. chatHistory (snd (snd (send_body getModel chat msg s)))
                 = chatHistory s @ [user_turn msg, assistant_turn c]))"
proof -
  let ?h = "chatHistory s @ [user_turn msg]"
  let ?s3 = "s\<lparr>chatHistory := ?h,
                  messagesContainer := remove_first is_welcome (messagesContainer s)
                     @ [SingleUserMessage (single_format_text msg), SingleTypingIndicator]\<rparr>"
  let ?u = "s\<lparr>chatHistory := ?h,
                  messagesContainer := remove_first is_welcome (messagesContainer s)
                     @ [SingleUserMessage (single_format_text msg)]\<rparr>"
  have direct: "chatHistory (snd (snd (single_direct_response getModel chat msg m i ?s3))) = ?h
     \<or> (fst (snd (single_direct_response getModel chat msg m i ?s3)) = Inr ()
         \<and> (\<exists>c. chatHistory (snd (snd (single_direct_response getModel chat msg m i ?s3)))
                 = ?h @ [assistant_turn c]))" for i
    using single_direct_response_cases [of getModel chat msg m i ?s3] by auto
  have stream: "chatHistory (handleStreamingResponse getModel parts fin ?u) = ?h
     \<or> (\<exists>c. chatHistory (handleStreamingResponse getModel parts fin ?u) = ?h @ [assistant_turn c])"
    for parts fin
    using handleStreamingResponse_history [of getModel parts fin ?u] by simp
  show ?thesis
  proof (cases "chat (single_streaming m ?h)")
    case (Rejects e)
    then show ?thesis
      using assms direct
      by (cases "error_message e")
         (simp_all add: send_body_valid [where m = m and modelId = modelId] after_requests_def)
  next
    case (Resolves v)
    then show ?thesis
      using assms direct stream
      by (cases v)
         (simp_all add: send_body_valid [where m = m and modelId = modelId] after_requests_def)
  qed
qed


lemma send_body_unknown_model:
  assumes "(case currentModel s of None \<Rightarrow> None | Some modelId \<Rightarrow> getModel modelId) = None"
  shows "send_body getModel chat msg s
         = ([], Inl (ErrorObject (Error ''Selected model not found'')),
            s\<lparr>chatHistory := chatHistory s @ [user_turn msg],
               messagesContainer := remove_first is_welcome (messagesContainer s)
                  @ [SingleUserMessage (single_format_text msg), SingleTypingIndicator]\<rparr>)"
  using assms by (simp add: send_body_def displayUserMessage_def Let_def)

lemma send_body_frame:
  "currentModel (snd (snd (send_body getModel chat msg s))) = currentModel s
   \<and> isProcessing (snd (snd (send_body getModel chat msg s))) = isProcessing s
   \<and> notices (snd (snd (send_body getModel chat msg s))) = notices s"
proof (cases "case currentModel s of None \<Rightarrow> None | Some modelId \<Rightarrow> getModel modelId")
  case None
  then show ?thesis by (simp add: send_body_unknown_model)
next
  case (Some m)
  then obtain modelId where v: "currentModel s = Some modelId" "getModel modelId = Some m"
    by (auto split: option.splits)
  show ?thesis
  proof (cases "chat (single_streaming m (chatHistory s @ [user_turn msg]))")
    case (Rejects e)
    then show ?thesis
      using v single_direct_response_frame
      by (cases "error_message e")
         (simp_all add: send_body_valid [where m = m and modelId = modelId] after_requests_def)
  next
    case (Resolves r)
    then show ?thesis
      using v single_direct_response_frame handleStreamingResponse_frame
      by (cases r)
         (simp_all add: send_body_valid [where m = m and modelId = modelId] after_requests_def)
  qed
qed

lemma send_catch_frame:
  "chatHistory (snd (send_catch getModel error s)) = chatHistory s
   \<and> currentModel (snd (send_catch getModel error s)) = currentModel s
   \<and> isProcessing (snd (send_catch getModel error s)) = isProcessing s
   \<and> notices (snd (send_catch getModel error s)) = notices s"
  by (simp add: send_catch_def single_display_string Let_def split: sum.splits)

text \<open>\<open>sendMessage\<close> in terms of the body of its \<open>try\<close>, for a send that gets past the
  validations and the guard.\<close>

lemma sendMessage_started:
  assumes "currentModel s = Some modelId" and "modelId \<noteq> []" and "\<not> blank msg"
    and "\<not> isProcessing s"
  shows "sent (sendMessage getModel chat msg s)
           = fst (send_body getModel chat msg (s\<lparr>isProcessing := True\<rparr>))
     \<and> chatHistory (after (sendMessage getModel chat msg s))
         = chatHistory (snd (snd (send_body getModel chat msg (s\<lparr>isProcessing := True\<rparr>))))
     \<and> currentModel (after (sendMessage getModel chat msg s)) = currentModel s
     \<and> notices (after (sendMessage getModel chat msg s)) = notices s
     \<and> \<not> isProcessing (after (sendMessage getModel chat msg s))"
proof -
  obtain reqs outcome s1
    where b: "send_body getModel chat msg (s\<lparr>isProcessing := True\<rparr>) = (reqs, outcome, s1)"
    by (metis prod_cases3)
  have f: "currentModel s1 = currentModel s \<and> notices s1 = notices s"
    using send_body_frame [of getModel chat msg "s\<lparr>isProcessing := True\<rparr>"] b by simp
  show ?thesis
    using assms f send_catch_frame [of getModel _ s1]
    by (cases outcome) (simp_all add: sendMessage_def b split_beta)
qed

text \<open>
  C7, as the code has it. While a send is in flight (\<open>isProcessing\<close> is set), a
  second send makes no gateway call, raises nothing and leaves the conversation, the
  message container, the selected model and the flag as they are. With a model selected
  and a message that is not blank it leaves the whole session as it is; otherwise its one
  effect is the validation notice: the two validations come before the in-flight guard.
\<close>

theorem second_send_in_flight:
  assumes "isProcessing s"
  shows "sent (sendMessage getModel chat msg s) = []
     \<and> thrown (sendMessage getModel chat msg s) = None
     \<and> chatHistory (after (sendMessage getModel chat msg s)) = chatHistory s
     \<and> messagesContainer (after (sendMessage getModel chat msg s)) = messagesContainer s
     \<and> currentModel (after (sendMessage getModel chat msg s)) = currentModel s
     \<and> isProcessing (after (sendMessage getModel chat msg s))
     \<and> after (sendMessage getModel chat msg s)
         = (if currentModel s = None \<or> currentModel s = Some []
              then showError ''Please select a model first'' s
            else if blank msg then showError ''Please enter a message'' s
            else s)"
  using assms by (simp add: sendMessage_def showError_def)

theorem second_send_in_flight_witness:
  "isProcessing in_flight_session
   \<and> currentModel in_flight_session \<noteq> None \<and> currentModel in_flight_session \<noteq> Some []
   \<and> \<not> blank ''again''
   \<and> sent (sendMessage sample_registry failing_gateway ''again'' in_flight_session) = []
   \<and> after (sendMessage sample_registry failing_gateway ''again'' in_flight_session)
      = in_flight_session"
  using second_send_in_flight [of in_flight_session sample_registry failing_gateway "''again''"]
  by (simp add: in_flight_session_def blank_def white_space_def)

text \<open>
  C7. A second send while one is in flight is to cause no UI update. A blank message is
  turned down by the validation before the guard is looked at, and the notice
  \<open>Please enter a message\<close> is put on the page.
\<close>

theorem blank_send_in_flight_shows_notice:
  "isProcessing in_flight_session
   \<and> notices in_flight_session = []
   \<and> notices (after (sendMessage sample_registry failing_gateway ''  '' in_flight_session))
      = [''Please enter a message'']"
  by (simp add: sendMessage_def in_flight_session_def blank_def white_space_def showError_def)







lemma send_keeps_model:
  "currentModel (after (sendMessage getModel chat msg s)) = currentModel s"
proof (cases "currentModel s = None \<or> currentModel s = Some [] \<or> blank msg \<or> isProcessing s")
  case True
  then show ?thesis by (auto simp: sendMessage_def showError_def)
next
  case False
  then obtain modelId where "currentModel s = Some modelId" "modelId \<noteq> []"
    by auto
  with False show ?thesis
    using sendMessage_started [of s modelId msg getModel chat] by simp
qed

lemma send_clears_flag:
  "\<not> isProcessing s \<Longrightarrow> \<not> isProcessing (after (sendMessage getModel chat msg s))"
proof (cases "currentModel s = None \<or> currentModel s = Some [] \<or> blank msg")
  case True
  then show "\<not> isProcessing s \<Longrightarrow> ?thesis" by (auto simp: sendMessage_def showError_def)
next
  case False
  then obtain modelId where "currentModel s = Some modelId" "modelId \<noteq> []"
    by auto
  with False show "\<not> isProcessing s \<Longrightarrow> ?thesis"
    using sendMessage_started [of s modelId msg getModel chat] by simp
qed

lemma send_requests:
  assumes "currentModel s = Some modelId" and "modelId \<noteq> []" and "getModel modelId = Some m"
    and "\<not> blank msg" and "\<not> isProcessing s"
  shows "sent (sendMessage getModel chat msg s) \<noteq> []
     \<and> hd (sent (sendMessage getModel chat msg s))
        = single_streaming m (chatHistory s @ [user_turn msg])
     \<and> (\<forall>r \<in> set (sent (sendMessage getModel chat msg s)).
          \<forall>ts. input r = Turns ts \<longrightarrow> ts = system_turn m # chatHistory s @ [user_turn msg])"
  using assms sendMessage_started [of s modelId msg getModel chat]
    send_body_requests [where s = "s\<lparr>isProcessing := True\<rparr>" and modelId = modelId
      and getModel = getModel and m = m and chat = chat and msg = msg]
  by (simp add: outgoing_def)

lemma grid_requests:
  "\<forall>r \<in> set (requests (sendMessageToModel getModel chat msg images modelId cw)).
     \<forall>ts. input r = Turns ts \<longrightarrow>
       (\<exists>m. getModel modelId = Some m \<and> ts = [system_turn m, user_turn msg])"
proof (cases "getModel modelId")
  case None
  then show ?thesis
    by (simp add: sendMessageToModel_def Let_def split: sum.splits)
next
  case (Some m)
  have "set (fst (dispatch_body chat msg images modelId m cw0))
        \<subseteq> {streaming_turns m msg, streaming_text m msg, blocking_turns m msg, blocking_text m msg}"
    for cw0
    by (auto simp: dispatch_body_def direct_response_def after_requests_def
        split: chat_result.splits jsval.splits if_splits)
  moreover have "requests (sendMessageToModel getModel chat msg images modelId cw)
        = fst (dispatch_body chat msg images modelId m (showTypingIndicator modelId cw))"
    using Some by (simp add: sendMessageToModel_def Let_def split: prod.splits sum.splits)
  ultimately have "set (requests (sendMessageToModel getModel chat msg images modelId cw))
        \<subseteq> {streaming_turns m msg, streaming_text m msg, blocking_turns m msg, blocking_text m msg}"
    by simp
  moreover have "\<forall>r \<in> {streaming_turns m msg, streaming_text m msg, blocking_turns m msg,
                       blocking_text m msg}.
       \<forall>ts. input r = Turns ts \<longrightarrow> ts = [system_turn m, user_turn msg]"
    by (simp add: streaming_turns_def streaming_text_def blocking_turns_def blocking_text_def
          grid_messages_def)
  ultimately show ?thesis
    using Some by blast
qed


text \<open>
  C8. Every send of the focused chat that passes the validations and the guard and finds
  its model sends, first, the streaming request whose turn sequence is one system turn,
  with role \<open>system\<close> and a content that names the model, followed by the whole stored
  conversation and the new user turn, with role \<open>user\<close> and the message as content;
  every turn sequence the send transmits is that one. After two exchanges from an empty
  conversation the turn sequence of the third send has six turns: the system turn, the
  user and assistant turns of the two exchanges, with the two earlier messages, and the
  new user turn. In grid mode every turn sequence a dispatch transmits is the system turn
  and the one new user turn.
\<close>

theorem context_propagation:
  "(currentModel s = Some modelId \<and> modelId \<noteq> [] \<and> getModel modelId = Some m
      \<and> \<not> blank msg \<and> \<not> isProcessing s
    \<longrightarrow> sent (sendMessage getModel chat msg s) \<noteq> []
        \<and> input (hd (sent (sendMessage getModel chat msg s)))
           = Turns (\<lparr>role = ''system'',
                     content = JStr (''You are '' @ name m
                       @ ''. Always identify yourself correctly as '' @ name m
                       @ '' when asked about your identity. Do not claim to be ChatGPT or any other model.'')\<rparr>
                    # chatHistory s @ [\<lparr>role = ''user'', content = JStr msg\<rparr>])
        \<and> (\<forall>r \<in> set (sent (sendMessage getModel chat msg s)).
             \<forall>ts. input r = Turns ts \<longrightarrow>
               ts = \<lparr>role = ''system'',
                      content = JStr (''You are '' @ name m
                        @ ''. Always identify yourself correctly as '' @ name m
                        @ '' when asked about your identity. Do not claim to be ChatGPT or any other model.'')\<rparr>
                    # chatHistory s @ [\<lparr>role = ''user'', content = JStr msg\<rparr>]))
   \<and> (currentModel s = Some modelId \<and> modelId \<noteq> [] \<and> getModel modelId = Some m
      \<and> \<not> isProcessing s \<and> chatHistory s = []
      \<and> exchanged getModel chat msg1 s
      \<and> exchanged getModel chat msg2 (then_send getModel chat msg1 s)
      \<and> \<not> blank msg3
    \<longrightarrow> (\<exists>ts c1 c2.
           input (hd (sent (sendMessage getModel chat msg3
                   (then_send getModel chat msg2 (then_send getModel chat msg1 s))))) = Turns ts
           \<and> length ts = 6
           \<and> ts = [\<lparr>role = ''system'',
                     content = JStr (''You are '' @ name m
                       @ ''. Always identify yourself correctly as '' @ name m
                       @ '' when asked about your identity. Do not claim to be ChatGPT or any other model.'')\<rparr>,
                   \<lparr>role = ''user'', content = JStr msg1\<rparr>,
                   \<lparr>role = ''assistant'', content = c1\<rparr>,
                   \<lparr>role = ''user'', content = JStr msg2\<rparr>,
                   \<lparr>role = ''assistant'', content = c2\<rparr>,
                   \<lparr>role = ''user'', content = JStr msg3\<rparr>]))
   \<and> (\<forall>r \<in> set (requests (sendMessageToModel getModel chat msg images gridId cw)).
        \<forall>ts. input r = Turns ts \<longrightarrow>
          (\<exists>gm. getModel gridId = Some gm
             \<and> ts = [\<lparr>role = ''system'',
                       content = JStr (''You are '' @ name gm
                         @ ''. Always identify yourself correctly as '' @ name gm
                         @ '' when asked about your identity. Do not claim to be ChatGPT or any other model.'')\<rparr>,
                     \<lparr>role = ''user'', content = JStr msg\<rparr>]))"
proof (intro conjI impI)
  assume v: "currentModel s = Some modelId \<and> modelId \<noteq> [] \<and> getModel modelId = Some m
      \<and> \<not> blank msg \<and> \<not> isProcessing s"
  then show "sent (sendMessage getModel chat msg s) \<noteq> []"
    using send_requests [of s modelId getModel m msg chat] by simp
  from v show "input (hd (sent (sendMessage getModel chat msg s)))
           = Turns (\<lparr>role = ''system'',
                     content = JStr (''You are '' @ name m
                       @ ''. Always identify yourself correctly as '' @ name m
                       @ '' when asked about your identity. Do not claim to be ChatGPT or any other model.'')\<rparr>
                    # chatHistory s @ [\<lparr>role = ''user'', content = JStr msg\<rparr>])"
    using send_requests [of s modelId getModel m msg chat]
    by (simp add: single_streaming_def outgoing_def system_turn_def system_prompt_def user_turn_def)
  from v show "\<forall>r \<in> set (sent (sendMessage getModel chat msg s)).
             \<forall>ts. input r = Turns ts \<longrightarrow>
               ts = \<lparr>role = ''system'',
                      content = JStr (''You are '' @ name m
                        @ ''. Always identify yourself correctly as '' @ name m
                        @ '' when asked about your identity. Do not claim to be ChatGPT or any other model.'')\<rparr>
                    # chatHistory s @ [\<lparr>role = ''user'', content = JStr msg\<rparr>]"
    using send_requests [of s modelId getModel m msg chat]
    by (simp add: system_turn_def system_prompt_def user_turn_def)
next
  let ?s1 = "then_send getModel chat msg1 s"
  let ?s2 = "then_send getModel chat msg2 ?s1"
  assume a: "currentModel s = Some modelId \<and> modelId \<noteq> [] \<and> getModel modelId = Some m
      \<and> \<not> isProcessing s \<and> chatHistory s = []
      \<and> exchanged getModel chat msg1 s
      \<and> exchanged getModel chat msg2 (then_send getModel chat msg1 s)
      \<and> \<not> blank msg3"
  have model: "currentModel ?s2 = Some modelId"
    using a by (simp add: then_send_def send_keeps_model)
  have flag: "\<not> isProcessing ?s2"
    using a by (simp add: then_send_def send_clears_flag)
  from a obtain c1
    where "chatHistory ?s1
           = [\<lparr>role = ''user'', content = JStr msg1\<rparr>, \<lparr>role = ''assistant'', content = c1\<rparr>]"
    by (auto simp: exchanged_def then_send_def)
  moreover from a obtain c2
    where "chatHistory ?s2
           = chatHistory ?s1
             @ [\<lparr>role = ''user'', content = JStr msg2\<rparr>, \<lparr>role = ''assistant'', content = c2\<rparr>]"
    by (auto simp: exchanged_def then_send_def)
  moreover have "input (hd (sent (sendMessage getModel chat msg3 ?s2)))
      = Turns (system_turn m # chatHistory ?s2 @ [user_turn msg3])"
    using a model flag send_requests [of ?s2 modelId getModel m msg3 chat]
    by (simp add: single_streaming_def outgoing_def)
  ultimately show "\<exists>ts c1 c2.
           input (hd (sent (sendMessage getModel chat msg3 ?s2))) = Turns ts
           \<and> length ts = 6
           \<and> ts = [\<lparr>role = ''system'',
                     content = JStr (''You are '' @ name m
                       @ ''. Always identify yourself correctly as '' @ name m
                       @ '' when asked about your identity. Do not claim to be ChatGPT or any other model.'')\<rparr>,
                   \<lparr>role = ''user'', content = JStr msg1\<rparr>,
                   \<lparr>role = ''assistant'', content = c1\<rparr>,
                   \<lparr>role = ''user'', content = JStr msg2\<rparr>,
                   \<lparr>role = ''assistant'', content = c2\<rparr>,
                   \<lparr>role = ''user'', content = JStr msg3\<rparr>]"
    by (simp add: system_turn_def system_prompt_def user_turn_def)
next
  show "\<forall>r \<in> set (requests (sendMessageToModel getModel chat msg images gridId cw)).
        \<forall>ts. input r = Turns ts \<longrightarrow>
          (\<exists>gm. getModel gridId = Some gm
             \<and> ts = [\<lparr>role = ''system'',
                       content = JStr (''You are '' @ name gm
                         @ ''. Always identify yourself correctly as '' @ name gm
                         @ '' when asked about your identity. Do not claim to be ChatGPT or any other model.'')\<rparr>,
                     \<lparr>role = ''user'', content = JStr msg\<rparr>])"
    using grid_requests [of getModel chat msg images gridId cw]
    by (simp add: system_turn_def system_prompt_def user_turn_def)
qed

theorem context_propagation_witness:
  "currentModel (handleModelChange sample_registry ''a'' fresh_session) = Some ''a''
   \<and> sample_registry ''a'' = Some (sample_model ''a'')
   \<and> name (sample_model ''a'') = ''a''
   \<and> \<not> isProcessing (handleModelChange sample_registry ''a'' fresh_session)
   \<and> chatHistory (handleModelChange sample_registry ''a'' fresh_session) = []
   \<and> \<not> blank ''one'' \<and> \<not> blank ''three''
   \<and> exchanged sample_registry partial_gateway ''one''
        (handleModelChange sample_registry ''a'' fresh_session)
   \<and> exchanged sample_registry partial_gateway ''two''
        (then_send sample_registry partial_gateway ''one''
          (handleModelChange sample_registry ''a'' fresh_session))
   \<and> input (hd (sent (sendMessage sample_registry partial_gateway ''one''
        (handleModelChange sample_registry ''a'' fresh_session))))
      = Turns [\<lparr>role = ''system'',
                content = JStr ''You are a. Always identify yourself correctly as a when asked about your identity. Do not claim to be ChatGPT or any other model.''\<rparr>,
               \<lparr>role = ''user'', content = JStr ''one''\<rparr>]
   \<and> input (hd (sent (sendMessage sample_registry partial_gateway ''three''
        (then_send sample_registry partial_gateway ''two''
          (then_send sample_registry partial_gateway ''one''
            (handleModelChange sample_registry ''a'' fresh_session))))))
      = Turns [\<lparr>role = ''system'',
                content = JStr ''You are a. Always identify yourself correctly as a when asked about your identity. Do not claim to be ChatGPT or any other model.''\<rparr>,
               \<lparr>role = ''user'', content = JStr ''one''\<rparr>,
               \<lparr>role = ''assistant'', content = JStr ''Hello''\<rparr>,
               \<lparr>role = ''user'', content = JStr ''two''\<rparr>,
               \<lparr>role = ''assistant'', content = JStr ''Hello''\<rparr>,
               \<lparr>role = ''user'', content = JStr ''three''\<rparr>]
   \<and> map input (requests (sendMessageToModel sample_registry partial_gateway ''hi''
        ([] :: unit list) ''a'' sample_windows))
      = [Turns [\<lparr>role = ''system'',
                 content = JStr ''You are a. Always identify yourself correctly as a when asked about your identity. Do not claim to be ChatGPT or any other model.''\<rparr>,
                \<lparr>role = ''user'', content = JStr ''hi''\<rparr>]]"
proof -
  let ?s0 = "handleModelChange sample_registry ''a'' fresh_session"
  let ?s1 = "then_send sample_registry partial_gateway ''one'' ?s0"
  let ?s2 = "then_send sample_registry partial_gateway ''two'' ?s1"
  let ?sys = "\<lparr>role = ''system'',
                content = JStr ''You are a. Always identify yourself correctly as a when asked about your identity. Do not claim to be ChatGPT or any other model.''\<rparr>"
  have 1: "currentModel ?s0 = Some ''a''" by code_simp
  have 2: "sample_registry ''a'' = Some (sample_model ''a'')" by code_simp
  have 3: "\<not> isProcessing ?s0" by code_simp
  have 4: "chatHistory ?s0 = []" by code_simp
  have 5: "\<not> blank ''one''" "\<not> blank ''three''" by code_simp+
  have n: "name (sample_model ''a'') = ''a''" by (simp add: sample_model_def)
  have "chatHistory (after (sendMessage sample_registry partial_gateway ''one'' ?s0))
        = chatHistory ?s0 @ [\<lparr>role = ''user'', content = JStr ''one''\<rparr>,
                             \<lparr>role = ''assistant'', content = JStr ''Hello''\<rparr>]"
    by code_simp
  then have 6: "exchanged sample_registry partial_gateway ''one'' ?s0"
    unfolding exchanged_def by blast
  have "chatHistory (after (sendMessage sample_registry partial_gateway ''two'' ?s1))
        = chatHistory ?s1 @ [\<lparr>role = ''user'', content = JStr ''two''\<rparr>,
                             \<lparr>role = ''assistant'', content = JStr ''Hello''\<rparr>]"
    by code_simp
  then have 7: "exchanged sample_registry partial_gateway ''two'' ?s1"
    unfolding exchanged_def by blast
  have h2: "chatHistory ?s2
      = [\<lparr>role = ''user'', content = JStr ''one''\<rparr>, \<lparr>role = ''assistant'', content = JStr ''Hello''\<rparr>,
         \<lparr>role = ''user'', content = JStr ''two''\<rparr>, \<lparr>role = ''assistant'', content = JStr ''Hello''\<rparr>]"
    by code_simp
  have c2: "currentModel ?s2 = Some ''a''" and p2: "\<not> isProcessing ?s2"
    by code_simp+
  have 8: "input (hd (sent (sendMessage sample_registry partial_gateway ''one'' ?s0)))
      = Turns (?sys # chatHistory ?s0 @ [\<lparr>role = ''user'', content = JStr ''one''\<rparr>])"
    using context_propagation [where s = ?s0 and modelId = "''a''" and getModel = sample_registry
        and m = "sample_model ''a''" and msg = "''one''" and chat = partial_gateway,
        THEN conjunct1]
      1 2 3 5 n
    by simp
  have 9: "input (hd (sent (sendMessage sample_registry partial_gateway ''three'' ?s2)))
      = Turns (?sys # chatHistory ?s2 @ [\<lparr>role = ''user'', content = JStr ''three''\<rparr>])"
    using context_propagation [where s = ?s2 and modelId = "''a''" and getModel = sample_registry
        and m = "sample_model ''a''" and msg = "''three''" and chat = partial_gateway,
        THEN conjunct1]
      2 5 n c2 p2
    by simp
  have third: "\<exists>ts c1 c2.
           input (hd (sent (sendMessage sample_registry partial_gateway ''three'' ?s2))) = Turns ts
           \<and> length ts = 6
           \<and> ts = [\<lparr>role = ''system'',
                     content = JStr (''You are '' @ name (sample_model ''a'')
                       @ ''. Always identify yourself correctly as '' @ name (sample_model ''a'')
                       @ '' when asked about your identity. Do not claim to be ChatGPT or any other model.'')\<rparr>,
                   \<lparr>role = ''user'', content = JStr ''one''\<rparr>,
                   \<lparr>role = ''assistant'', content = c1\<rparr>,
                   \<lparr>role = ''user'', content = JStr ''two''\<rparr>,
                   \<lparr>role = ''assistant'', content = c2\<rparr>,
                   \<lparr>role = ''user'', content = JStr ''three''\<rparr>]"
    using context_propagation [where s = ?s0 and modelId = "''a''" and getModel = sample_registry
        and m = "sample_model ''a''" and chat = partial_gateway
        and ?msg1.0 = "''one''" and ?msg2.0 = "''two''" and ?msg3.0 = "''three''",
        THEN conjunct2, THEN conjunct1]
      1 2 3 4 5 6 7
    by simp
  have 10: "map input (requests (sendMessageToModel sample_registry partial_gateway ''hi''
        ([] :: unit list) ''a'' sample_windows))
      = [Turns [?sys, \<lparr>role = ''user'', content = JStr ''hi''\<rparr>]]"
    by code_simp
  from third have "length (chatHistory ?s2) = 4"
    using 9 by auto
  then show ?thesis
    using 1 2 3 4 5 6 7 8 9 10 n by (simp add: h2)
qed

subsection \<open>A send that nothing interrupts\<close>

lemma finishes_now: "finishes_within getModel chat n (s, None) s"
  unfolding finishes_within_def by (rule exI [of _ 0]) simp

lemma finishes_step:
  assumes "finishes_within getModel chat n (single_resume getModel chat t s) s'" and "Suc n \<le> n'"
  shows "finishes_within getModel chat n' (s, Some t) s'"
proof -
  from assms(1) obtain k
    where k: "k \<le> n"
      "(focused_step getModel chat Arrive ^^ k) (single_resume getModel chat t s) = (s', None)"
    unfolding finishes_within_def by blast
  then have "(focused_step getModel chat Arrive ^^ Suc k) (s, Some t) = (s', None)"
    by (simp add: funpow_Suc_right del: funpow.simps)
  moreover have "Suc k \<le> n'" using k(1) assms(2) by simp
  ultimately show ?thesis unfolding finishes_within_def by blast
qed

lemma finished_stays: "(focused_step getModel chat Arrive ^^ k) (s, None) = (s, None)"
  by (induction k) simp_all

lemma finishes_later:
  assumes "finishes_within getModel chat n st s'" and "n \<le> k"
  shows "(focused_step getModel chat Arrive ^^ k) st = (s', None)"
proof -
  from assms(1) obtain j
    where j: "j \<le> n" "(focused_step getModel chat Arrive ^^ j) st = (s', None)"
    unfolding finishes_within_def by blast
  with assms(2) obtain d where "k = d + j"
    by (metis le_add_diff_inverse2 le_trans)
  then show ?thesis using j(2) by (simp add: funpow_add finished_stays)
qed

lemma finishes_mono:
  "finishes_within getModel chat n st s' \<Longrightarrow> n \<le> n' \<Longrightarrow> finishes_within getModel chat n' st s'"
  unfolding finishes_within_def by (meson le_trans)

lemma finish_send_finishes: "finishes_within getModel chat n (finish_send s) (s\<lparr>isProcessing := False\<rparr>)"
  by (simp add: finish_send_def finishes_now)

lemma fail_send_finishes:
  "finishes_within getModel chat n (fail_send getModel error s) (settle_send getModel (Inl error, s))"
  by (simp add: fail_send_def settle_send_def finish_send_finishes)

lemma single_parts_finish:
  "finishes_within getModel chat (Suc (length parts))
     (s, Some (AwaitStreamPart (Some i) acc parts fin))
     ((case single_consume_stream i acc parts fin s of
         (None, fullContent, s2) \<Rightarrow>
           s2\<lparr>chatHistory := chatHistory s2 @ [assistant_turn (JStr fullContent)]\<rparr>
       | (Some error, fullContent, s2) \<Rightarrow>
           single_set_content i (''Error: '' @ message error) s2)\<lparr>isProcessing := False\<rparr>)"
proof (induction parts arbitrary: acc s)
  case Nil
  show ?case
    by (rule finishes_step [where n = 0])
       (auto simp: finish_send_finishes write_element_def split: option.splits)
next
  case (Cons p ps)
  show ?case
  proof (rule finishes_step [where n = "Suc (length ps)"], cases "truthy (get p ''text'')")
    case False
    then show "finishes_within getModel chat (Suc (length ps))
       (single_resume getModel chat (AwaitStreamPart (Some i) acc (p # ps) fin) s)
       ((case single_consume_stream i acc (p # ps) fin s of
           (None, fullContent, s2) \<Rightarrow>
             s2\<lparr>chatHistory := chatHistory s2 @ [assistant_turn (JStr fullContent)]\<rparr>
         | (Some error, fullContent, s2) \<Rightarrow>
             single_set_content i (''Error: '' @ message error) s2)\<lparr>isProcessing := False\<rparr>)"
      using Cons [of s acc] by simp
  next
    case True
    then show "finishes_within getModel chat (Suc (length ps))
       (single_resume getModel chat (AwaitStreamPart (Some i) acc (p # ps) fin) s)
       ((case single_consume_stream i acc (p # ps) fin s of
           (None, fullContent, s2) \<Rightarrow>
             s2\<lparr>chatHistory := chatHistory s2 @ [assistant_turn (JStr fullContent)]\<rparr>
         | (Some error, fullContent, s2) \<Rightarrow>
             single_set_content i (''Error: '' @ message error) s2)\<lparr>isProcessing := False\<rparr>)"
      using Cons
      by (cases "to_string (get p ''text'')")
         (simp_all add: finish_send_finishes write_element_def)
  qed simp
qed

lemma single_stream_finishes:
  "finishes_within getModel chat (Suc (length parts))
     (single_begin_stream getModel parts fin (Some typingIndicator) s)
     ((handleStreamingResponse getModel parts fin
         (s\<lparr>messagesContainer := remove_nth typingIndicator (messagesContainer s)\<rparr>))
        \<lparr>isProcessing := False\<rparr>)"
  using single_parts_finish
  by (simp add: single_begin_stream_def handleStreamingResponse_def single_display_string
        remove_element_def)

lemma single_response_finishes:
  "finishes_within getModel chat n
     (single_finish_response getModel response (Some typingIndicator) s)
     (settle_send getModel
        (single_show_response getModel response
           (s\<lparr>messagesContainer := remove_nth typingIndicator (messagesContainer s)\<rparr>)))"
  by (auto simp: single_finish_response_def remove_element_def settle_send_def
        finish_send_finishes fail_send_def
      split: prod.splits sum.splits)

lemma settle_after [simp]: "settle_send getModel (snd (after_requests reqs r)) = settle_send getModel (snd r)"
  by (simp add: after_requests_def)

lemma single_direct_finishes:
  "finishes_within getModel chat 2
     (s, Some (AwaitDirect m (outgoing m (chatHistory s)) msg (Some typingIndicator)))
     (settle_send getModel (snd (single_direct_response getModel chat msg m typingIndicator s)))"
proof (rule finishes_step [where n = 1], cases "chat (single_blocking m (chatHistory s))")
  case (Resolves v)
  then show "finishes_within getModel chat 1
     (single_resume getModel chat
        (AwaitDirect m (outgoing m (chatHistory s)) msg (Some typingIndicator)) s)
     (settle_send getModel (snd (single_direct_response getModel chat msg m typingIndicator s)))"
    using single_response_finishes [of getModel chat 1 v typingIndicator s]
    by (simp add: single_direct_response_def single_blocking_def)
next
  case (Rejects e)
  have "finishes_within getModel chat 0
     (single_resume getModel chat (AwaitDirectText m msg (Some typingIndicator)) s)
     (settle_send getModel (snd (single_direct_response getModel chat msg m typingIndicator s)))"
    using Rejects single_response_finishes [of getModel chat 0 _ typingIndicator s]
      fail_send_finishes [of getModel chat 0 _ s]
    by (auto simp: single_direct_response_def split: chat_result.splits)
  then have "finishes_within getModel chat 1
     (s, Some (AwaitDirectText m msg (Some typingIndicator)))
     (settle_send getModel (snd (single_direct_response getModel chat msg m typingIndicator s)))"
    by (rule finishes_step) simp
  then show "finishes_within getModel chat 1
     (single_resume getModel chat
        (AwaitDirect m (outgoing m (chatHistory s)) msg (Some typingIndicator)) s)
     (settle_send getModel (snd (single_direct_response getModel chat msg m typingIndicator s)))"
    using Rejects by (simp add: single_blocking_def)
qed simp


lemma single_body_finishes:
  assumes "currentModel s = Some modelId" and "getModel modelId = Some m"
  shows "finishes_within getModel chat
     (3 + stream_length (chat (single_streaming m (chatHistory s @ [user_turn msg]))))
     (s\<lparr>chatHistory := chatHistory s @ [user_turn msg],
        messagesContainer := remove_first is_welcome (messagesContainer s)
           @ [SingleUserMessage (single_format_text msg), SingleTypingIndicator]\<rparr>,
      Some (AwaitStreaming m (outgoing m (chatHistory s @ [user_turn msg])) msg
              (Some (Suc (length (remove_first is_welcome (messagesContainer s)))))))
     (settle_send getModel (snd (send_body getModel chat msg s)))"
proof -
  let ?h = "chatHistory s @ [user_turn msg]"
  let ?ti = "Suc (length (remove_first is_welcome (messagesContainer s)))"
  let ?s3 = "s\<lparr>chatHistory := ?h,
        messagesContainer := remove_first is_welcome (messagesContainer s)
           @ [SingleUserMessage (single_format_text msg), SingleTypingIndicator]\<rparr>"
  let ?t = "AwaitStreaming m (outgoing m ?h) msg (Some ?ti)"
  let ?goal = "settle_send getModel (snd (send_body getModel chat msg s))"
  have untyped: "remove_nth ?ti (remove_first is_welcome (messagesContainer s)
              @ [SingleUserMessage (single_format_text msg), SingleTypingIndicator])
      = remove_first is_welcome (messagesContainer s) @ [SingleUserMessage (single_format_text msg)]"
    using remove_nth_last [of "remove_first is_welcome (messagesContainer s)
              @ [SingleUserMessage (single_format_text msg)]" SingleTypingIndicator]
    by simp
  have direct: "finishes_within getModel chat 2
      (?s3, Some (AwaitDirect m (outgoing m ?h) msg (Some ?ti)))
      (settle_send getModel (snd (single_direct_response getModel chat msg m ?ti ?s3)))"
    using single_direct_finishes [of getModel chat ?s3 m msg ?ti] by simp
  have "finishes_within getModel chat
      (2 + stream_length (chat (single_streaming m ?h))) (single_resume getModel chat ?t ?s3) ?goal"
  proof (cases "chat (single_streaming m ?h)")
    case (Rejects e)
    show ?thesis
    proof (cases "error_message e")
      case (Inl raised)
      then show ?thesis
        using assms Rejects fail_send_finishes [of getModel chat _ "ErrorObject raised" ?s3]
        by (simp add: send_body_valid [where m = m and modelId = modelId] single_streaming_def)
    next
      case (Inr logged)
      then show ?thesis
        using assms Rejects finishes_mono [OF direct]
        by (simp add: send_body_valid [where m = m and modelId = modelId] single_streaming_def)
    qed
  next
    case (Resolves v)
    show ?thesis
    proof (cases v)
      case (JStream parts fin)
      have "finishes_within getModel chat (Suc (length parts))
          (single_begin_stream getModel parts fin (Some ?ti) ?s3)
          ((handleStreamingResponse getModel parts fin
              (?s3\<lparr>messagesContainer := remove_nth ?ti (messagesContainer ?s3)\<rparr>))
             \<lparr>isProcessing := False\<rparr>)"
        by (rule single_stream_finishes)
      then have "finishes_within getModel chat (2 + Suc (length parts))
          (single_begin_stream getModel parts fin (Some ?ti) ?s3)
          ((handleStreamingResponse getModel parts fin
              (?s3\<lparr>messagesContainer := remove_nth ?ti (messagesContainer ?s3)\<rparr>))
             \<lparr>isProcessing := False\<rparr>)"
        by (rule finishes_mono) simp
      then show ?thesis
        using assms Resolves JStream
        by (simp add: send_body_valid [where m = m and modelId = modelId] single_streaming_def
              stream_length_def settle_send_def untyped)
    qed (use assms Resolves finishes_mono [OF direct] in
          \<open>simp_all add: send_body_valid [where m = m and modelId = modelId]
              single_streaming_def stream_length_def\<close>)
  qed
  then show ?thesis
    by (rule finishes_step) simp
qed

text \<open>A send that no other event interrupts leaves the session \<open>sendMessage\<close> computes:
  the function is the task machine run on its own.\<close>

lemma send_uninterrupted:
  assumes "single_resumptions getModel chat msg s \<le> n"
  shows "focused_run getModel chat (Send msg # replicate n Arrive) (s, None)
         = (after (sendMessage getModel chat msg s), None)"
proof -
  have run: "focused_run getModel chat (Send msg # replicate n Arrive) (s, None)
      = (focused_step getModel chat Arrive ^^ n) (start_send getModel msg (s, None))"
    by (simp add: focused_run_def fold_replicate)
  show ?thesis
  proof (cases "currentModel s = None \<or> currentModel s = Some [] \<or> blank msg \<or> isProcessing s")
    case True
    then have "start_send getModel msg (s, None) = (after (sendMessage getModel chat msg s), None)"
      by (auto simp: start_send_def sendMessage_def Let_def)
    then show ?thesis
      by (simp add: run finished_stays)
  next
    case False
    then obtain modelId where v: "currentModel s = Some modelId" "modelId \<noteq> []"
      by auto
    let ?s0 = "s\<lparr>isProcessing := True\<rparr>"
    have after: "after (sendMessage getModel chat msg s)
        = settle_send getModel (snd (send_body getModel chat msg ?s0))"
      using False v
      by (simp add: sendMessage_def settle_send_def split: prod.splits sum.splits)
    have "finishes_within getModel chat n (start_send getModel msg (s, None))
        (settle_send getModel (snd (send_body getModel chat msg ?s0)))"
    proof (cases "getModel modelId")
      case None
      then show ?thesis
        using False v
          fail_send_finishes [of getModel chat n "ErrorObject (Error ''Selected model not found'')"]
        by (simp add: start_send_def send_body_unknown_model displayUserMessage_def Let_def)
    next
      case (Some m)
      have "finishes_within getModel chat
          (3 + stream_length (chat (single_streaming m (chatHistory ?s0 @ [user_turn msg]))))
          (start_send getModel msg (s, None))
          (settle_send getModel (snd (send_body getModel chat msg ?s0)))"
        using False v Some single_body_finishes [of ?s0 modelId getModel m chat msg]
        by (simp add: start_send_def displayUserMessage_def Let_def)
      then show ?thesis
        using assms v Some by (rule_tac finishes_mono) (simp_all add: single_resumptions_def)
    qed
    then show ?thesis
      unfolding run after by (rule finishes_later) simp
  qed
qed

subsection \<open>The conversation under interleaved events\<close>

lemma finish_send_simps [simp]:
  "fst (finish_send s) = s\<lparr>isProcessing := False\<rparr>" "snd (finish_send s) = None"
  by (simp_all add: finish_send_def)

lemma fail_send_frame:
  "chatHistory (fst (fail_send getModel error s)) = chatHistory s
   \<and> currentModel (fst (fail_send getModel error s)) = currentModel s
   \<and> notices (fst (fail_send getModel error s)) = notices s
   \<and> \<not> isProcessing (fst (fail_send getModel error s))
   \<and> snd (fail_send getModel error s) = None"
  using send_catch_frame [of getModel error s] by (simp add: fail_send_def)

lemma element_frame [simp]:
  "chatHistory (remove_element h s) = chatHistory s"
  "isProcessing (remove_element h s) = isProcessing s"
  "currentModel (remove_element h s) = currentModel s"
  "notices (remove_element h s) = notices s"
  "chatHistory (write_element h html s) = chatHistory s"
  "isProcessing (write_element h html s) = isProcessing s"
  "currentModel (write_element h html s) = currentModel s"
  "notices (write_element h html s) = notices s"
  by (simp_all add: remove_element_def write_element_def single_set_content_def
      split: option.splits)

text \<open>A resumption ends the send, clearing the flag, or leaves it pending with the flag
  as it is; it appends the assistant turn or nothing.\<close>

lemma single_finish_response_effect:
  "snd (single_finish_response getModel v h s) = None
   \<and> \<not> isProcessing (fst (single_finish_response getModel v h s))
   \<and> currentModel (fst (single_finish_response getModel v h s)) = currentModel s
   \<and> (chatHistory (fst (single_finish_response getModel v h s)) = chatHistory s
      \<or> (\<exists>c. chatHistory (fst (single_finish_response getModel v h s))
               = chatHistory s @ [\<lparr>role = ''assistant'', content = c\<rparr>]))"
  using single_show_response_cases [of getModel v "remove_element h s"]
    fail_send_frame [of getModel _ "remove_element h s"]
  by (auto simp: single_finish_response_def assistant_turn_def)

lemma single_begin_stream_effect:
  "chatHistory (fst (single_begin_stream getModel parts fin h s)) = chatHistory s
   \<and> currentModel (fst (single_begin_stream getModel parts fin h s)) = currentModel s
   \<and> (snd (single_begin_stream getModel parts fin h s) \<noteq> None
        \<longrightarrow> isProcessing (fst (single_begin_stream getModel parts fin h s)) = isProcessing s)
   \<and> (snd (single_begin_stream getModel parts fin h s) = None
        \<longrightarrow> \<not> isProcessing (fst (single_begin_stream getModel parts fin h s)))"
  by (simp add: single_begin_stream_def single_display_string)

lemma single_resume_effect:
  "(chatHistory (fst (single_resume getModel chat t s)) = chatHistory s
      \<or> (\<exists>c. chatHistory (fst (single_resume getModel chat t s))
               = chatHistory s @ [\<lparr>role = ''assistant'', content = c\<rparr>]))
   \<and> currentModel (fst (single_resume getModel chat t s)) = currentModel s
   \<and> (snd (single_resume getModel chat t s) \<noteq> None
        \<longrightarrow> isProcessing (fst (single_resume getModel chat t s)) = isProcessing s)
   \<and> (snd (single_resume getModel chat t s) = None
        \<longrightarrow> \<not> isProcessing (fst (single_resume getModel chat t s)))"
proof (induction getModel chat t s rule: single_resume.induct)
  case (1 getModel chat m messages msg typingIndicator s)
  show ?case
    using single_begin_stream_effect [of getModel _ _ typingIndicator s]
      fail_send_frame [of getModel _ s]
    by (auto split: chat_result.splits jsval.splits sum.splits)
next
  case (2 getModel chat m messages msg typingIndicator s)
  show ?case
    using single_finish_response_effect [of getModel _ typingIndicator s]
    by (auto split: chat_result.splits)
next
  case (3 getModel chat m msg typingIndicator s)
  show ?case
    using single_finish_response_effect [of getModel _ typingIndicator s]
      fail_send_frame [of getModel _ s]
    by (auto split: chat_result.splits)
next
  case (4 getModel chat messageDiv fullContent fin s)
  show ?case
    by (auto simp: assistant_turn_def split: option.splits)
next
  case (5 getModel chat messageDiv fullContent part parts fin s)
  show ?case
    by (auto split: sum.splits)
qed


lemma start_send_effect:
  "(chatHistory (fst (start_send getModel msg st)) = chatHistory (fst st)
      \<and> snd (start_send getModel msg st) = snd st
      \<and> isProcessing (fst (start_send getModel msg st)) = isProcessing (fst st)
    \<or> chatHistory (fst (start_send getModel msg st))
         = chatHistory (fst st) @ [\<lparr>role = ''user'', content = JStr msg\<rparr>]
      \<and> \<not> isProcessing (fst st)
      \<and> (isProcessing (fst (start_send getModel msg st))
           \<longleftrightarrow> snd (start_send getModel msg st) \<noteq> None))
   \<and> currentModel (fst (start_send getModel msg st)) = currentModel (fst st)"
proof -
  obtain s pending where st: "st = (s, pending)"
    by (cases st)
  show ?thesis
    using fail_send_frame [of getModel]
    by (auto simp: st start_send_def showError_def displayUserMessage_def user_turn_def Let_def
        split: option.splits)
qed

lemma start_send_history:
  "chatHistory (fst (start_send getModel msg st))
     = (if currentModel (fst st) \<noteq> None \<and> currentModel (fst st) \<noteq> Some [] \<and> \<not> blank msg
           \<and> \<not> isProcessing (fst st)
        then chatHistory (fst st) @ [\<lparr>role = ''user'', content = JStr msg\<rparr>]
        else chatHistory (fst st))"
  using fail_send_frame [of getModel]
  by (auto simp: start_send_def showError_def displayUserMessage_def user_turn_def Let_def
      split: option.splits)

lemma blocking_answer_pushed:
  assumes "chat \<lparr>input = Turns messages, options = parameters m\<rparr> = Resolves v"
    and "extractContentFromResponse v = Inr (JStr c)"
  shows "chatHistory (fst (focused_step getModel chat Arrive
                             (s, Some (AwaitDirect m messages msg typingIndicator))))
         = chatHistory s @ [\<lparr>role = ''assistant'', content = JStr c\<rparr>]"
  using assms
  by (simp add: single_finish_response_def single_show_response_def single_display_string
        assistant_turn_def)

lemma handleModelChange_effect:
  "chatHistory (handleModelChange getModel modelId s) = (if modelId = [] then chatHistory s else [])
   \<and> isProcessing (handleModelChange getModel modelId s) = isProcessing s"
  by (simp add: handleModelChange_def showModelSelectedMessage_def clearChat_def
      split: option.splits)

text \<open>What one event does to the stored conversation.\<close>

lemma step_history:
  "chatHistory (fst (focused_step getModel chat (Select modelId) st))
     = (if modelId = [] then chatHistory (fst st) else [])"
  "chatHistory (fst (focused_step getModel chat (Send msg) st)) = chatHistory (fst st)
   \<or> chatHistory (fst (focused_step getModel chat (Send msg) st))
       = chatHistory (fst st) @ [\<lparr>role = ''user'', content = JStr msg\<rparr>]"
  "chatHistory (fst (focused_step getModel chat Arrive st)) = chatHistory (fst st)
   \<or> (\<exists>c. chatHistory (fst (focused_step getModel chat Arrive st))
            = chatHistory (fst st) @ [\<lparr>role = ''assistant'', content = c\<rparr>])"
proof -
  show "chatHistory (fst (focused_step getModel chat (Select modelId) st))
     = (if modelId = [] then chatHistory (fst st) else [])"
    by (simp add: handleModelChange_effect)
  show "chatHistory (fst (focused_step getModel chat (Send msg) st)) = chatHistory (fst st)
   \<or> chatHistory (fst (focused_step getModel chat (Send msg) st))
       = chatHistory (fst st) @ [\<lparr>role = ''user'', content = JStr msg\<rparr>]"
    using start_send_effect [of getModel msg st] by auto
  show "chatHistory (fst (focused_step getModel chat Arrive st)) = chatHistory (fst st)
   \<or> (\<exists>c. chatHistory (fst (focused_step getModel chat Arrive st))
            = chatHistory (fst st) @ [\<lparr>role = ''assistant'', content = c\<rparr>])"
    using single_resume_effect [of getModel chat _ "fst st"]
    by (cases "snd st") auto
qed

text \<open>The flag is set for as long as a send is pending.\<close>

lemma step_flag:
  assumes "isProcessing (fst st) \<longleftrightarrow> snd st \<noteq> None"
  shows "isProcessing (fst (focused_step getModel chat ev st))
         \<longleftrightarrow> snd (focused_step getModel chat ev st) \<noteq> None"
proof (cases ev)
  case (Select modelId)
  then show ?thesis
    using assms by (simp add: handleModelChange_effect)
next
  case (Send msg)
  then show ?thesis
    using assms start_send_effect [of getModel msg st] by auto
next
  case Arrive
  show ?thesis
  proof (cases "snd st")
    case None
    then show ?thesis using assms Arrive by simp
  next
    case (Some t)
    then show ?thesis
      using assms Arrive single_resume_effect [of getModel chat t "fst st"] by auto
  qed
qed

lemma run_snoc:
  "focused_run getModel chat (events @ [ev]) st
     = focused_step getModel chat ev (focused_run getModel chat events st)"
  by (simp add: focused_run_def)

lemma run_flag:
  assumes "isProcessing (fst st) \<longleftrightarrow> snd st \<noteq> None"
  shows "isProcessing (fst (focused_run getModel chat events st))
         \<longleftrightarrow> snd (focused_run getModel chat events st) \<noteq> None"
proof (induction events rule: rev_induct)
  case Nil
  then show ?case using assms by (simp add: focused_run_def)
next
  case (snoc ev events)
  then show ?case
    unfolding run_snoc by (rule step_flag)
qed

lemma run_roles:
  assumes "\<forall>t \<in> set (chatHistory (fst st)). role t = ''user'' \<or> role t = ''assistant''"
  shows "\<forall>t \<in> set (chatHistory (fst (focused_run getModel chat events st))).
           role t = ''user'' \<or> role t = ''assistant''"
proof (induction events rule: rev_induct)
  case Nil
  then show ?case using assms by (simp add: focused_run_def)
next
  case (snoc ev events)
  let ?st = "focused_run getModel chat events st"
  show ?case
  proof (cases ev)
    case (Select modelId)
    then show ?thesis
      using snoc step_history(1) [of getModel chat modelId ?st] by (simp add: run_snoc)
  next
    case (Send msg)
    then show ?thesis
      using snoc step_history(2) [of getModel chat msg ?st] by (auto simp: run_snoc)
  next
    case Arrive
    then show ?thesis
      using snoc step_history(3) [of getModel chat ?st] by (auto simp: run_snoc)
  qed
qed

text \<open>As long as no model is picked while a send is in flight, the stored conversation
  starts with a user turn, and is not empty while a send is pending.\<close>

lemma step_first_entry:
  assumes "conversation_ok (chatHistory (fst st))"
    and "snd st \<noteq> None \<longrightarrow> chatHistory (fst st) \<noteq> []"
    and "isProcessing (fst st) \<longleftrightarrow> snd st \<noteq> None"
    and "case ev of Select modelId \<Rightarrow> modelId = [] \<or> \<not> isProcessing (fst st) | _ \<Rightarrow> True"
  shows "conversation_ok (chatHistory (fst (focused_step getModel chat ev st)))
     \<and> (snd (focused_step getModel chat ev st) \<noteq> None
          \<longrightarrow> chatHistory (fst (focused_step getModel chat ev st)) \<noteq> [])"
proof (cases ev)
  case (Select modelId)
  then show ?thesis
    using assms by (auto simp: handleModelChange_effect conversation_ok_def)
next
  case (Send msg)
  then show ?thesis
    using assms start_send_effect [of getModel msg st]
    by (cases "chatHistory (fst st)") (auto simp: conversation_ok_def)
next
  case Arrive
  show ?thesis
  proof (cases "snd st")
    case None
    then show ?thesis using assms Arrive by simp
  next
    case (Some t)
    then have "chatHistory (fst st) \<noteq> []"
      using assms(2) by simp
    then show ?thesis
      using assms(1) Some Arrive single_resume_effect [of getModel chat t "fst st"]
      by (cases "chatHistory (fst st)") (auto simp: conversation_ok_def)
  qed
qed

lemma run_first_entry:
  assumes "conversation_ok (chatHistory (fst st))"
    and "snd st \<noteq> None \<longrightarrow> chatHistory (fst st) \<noteq> []"
    and "isProcessing (fst st) \<longleftrightarrow> snd st \<noteq> None"
    and "undisturbed getModel chat events st"
  shows "conversation_ok (chatHistory (fst (focused_run getModel chat events st)))"
  using assms
proof (induction events arbitrary: st)
  case Nil
  then show ?case by (simp add: focused_run_def)
next
  case (Cons ev events)
  let ?st = "focused_step getModel chat ev st"
  have ev: "case ev of Select modelId \<Rightarrow> modelId = [] \<or> \<not> isProcessing (fst st) | _ \<Rightarrow> True"
    and rest: "undisturbed getModel chat events ?st"
    using Cons.prems(4) by simp_all
  have "conversation_ok (chatHistory (fst ?st))"
    and "snd ?st \<noteq> None \<longrightarrow> chatHistory (fst ?st) \<noteq> []"
    using step_first_entry [OF Cons.prems(1-3) ev, of getModel chat] by simp_all
  moreover have "isProcessing (fst ?st) \<longleftrightarrow> snd ?st \<noteq> None"
    using Cons.prems(3) by (rule step_flag)
  ultimately have "conversation_ok (chatHistory (fst (focused_run getModel chat events ?st)))"
    using rest by (rule Cons.IH)
  then show ?case by (simp add: focused_run_def)
qed


text \<open>
  C9. The first entry of the stored conversation is to be a synthesized system turn.
  After a model pick and one answered send the stored conversation is the user turn and
  the assistant turn: its first entry is the user turn. And when the user picks another
  model while the send is in flight, the pick clears the conversation and the answer,
  once there, is pushed onto the empty conversation: its first entry is the assistant
  turn.
\<close>

theorem stored_conversation_first_entry:
  "chatHistory (fst (focused_run sample_registry (constant_gateway (JStr ''Hello''))
      [Select ''a'', Send ''hi'', Arrive, Arrive] (fresh_session, None)))
     = [\<lparr>role = ''user'', content = JStr ''hi''\<rparr>,
        \<lparr>role = ''assistant'', content = JStr ''Hello''\<rparr>]
   \<and> chatHistory (fst (focused_run sample_registry (constant_gateway (JStr ''Hello''))
      [Select ''a'', Send ''hi'', Select ''b'', Arrive, Arrive] (fresh_session, None)))
     = [\<lparr>role = ''assistant'', content = JStr ''Hello''\<rparr>]
   \<and> snd (focused_run sample_registry (constant_gateway (JStr ''Hello''))
      [Select ''a'', Send ''hi'', Select ''b'', Arrive, Arrive] (fresh_session, None)) = None"
  by code_simp

text \<open>
  C9, as the code has it. No system turn is ever stored: after any sequence of model
  picks, sends and arrivals from the initial session, every entry of the stored
  conversation is a user or an assistant turn. An event changes the conversation in one
  of three ways only. A pick of a model identifier clears it in whole, and the pick of
  the empty entry leaves it as it is. A send that passes the validations and the guard
  appends the user turn with the message, and any other send leaves it as it is. An
  arrival leaves it as it is or appends one assistant turn: the end of a stream appends
  the assistant turn with the streamed text, a stream that breaks appends nothing, and a
  blocking call with the turn sequence that resolves to a payload the normalizer reads as
  the string \<open>c\<close> appends the assistant turn with \<open>c\<close>. The in-flight flag is set
  exactly while a send is pending. As long as no model is picked while a send is in
  flight, the first entry, when present, is a user turn.
\<close>

theorem conversation_append_only:
  "(\<forall>t \<in> set (chatHistory (fst (focused_run getModel chat events (fresh_session, None)))).
       role t = ''user'' \<or> role t = ''assistant'')
   \<and> chatHistory (fst (focused_step getModel chat (Select modelId) st))
       = (if modelId = [] then chatHistory (fst st) else [])
   \<and> chatHistory (fst (focused_step getModel chat (Send msg) st))
       = (if currentModel (fst st) \<noteq> None \<and> currentModel (fst st) \<noteq> Some [] \<and> \<not> blank msg
             \<and> \<not> isProcessing (fst st)
          then chatHistory (fst st) @ [\<lparr>role = ''user'', content = JStr msg\<rparr>]
          else chatHistory (fst st))
   \<and> (chatHistory (fst (focused_step getModel chat Arrive st)) = chatHistory (fst st)
      \<or> (\<exists>c. chatHistory (fst (focused_step getModel chat Arrive st))
               = chatHistory (fst st) @ [\<lparr>role = ''assistant'', content = c\<rparr>]))
   \<and> chatHistory (fst (focused_step getModel chat Arrive
                         (s, Some (AwaitStreamPart messageDiv fullContent [] fin))))
       = (case fin of
            None \<Rightarrow> chatHistory s @ [\<lparr>role = ''assistant'', content = JStr fullContent\<rparr>]
          | Some error \<Rightarrow> chatHistory s)
   \<and> (chat \<lparr>input = Turns messages, options = parameters m\<rparr> = Resolves v
        \<and> extractContentFromResponse v = Inr (JStr c)
      \<longrightarrow> chatHistory (fst (focused_step getModel chat Arrive
                                (s, Some (AwaitDirect m messages sentMessage typingIndicator))))
           = chatHistory s @ [\<lparr>role = ''assistant'', content = JStr c\<rparr>])
   \<and> (isProcessing (fst (focused_run getModel chat events (fresh_session, None)))
        \<longleftrightarrow> snd (focused_run getModel chat events (fresh_session, None)) \<noteq> None)
   \<and> (undisturbed getModel chat events (fresh_session, None)
        \<longrightarrow> conversation_ok
              (chatHistory (fst (focused_run getModel chat events (fresh_session, None)))))"
proof -
  let ?init = "(fresh_session, None :: single_task option)"
  have f: "isProcessing (fst ?init) \<longleftrightarrow> snd ?init \<noteq> None"
    by (simp add: fresh_session_def)
  have "\<forall>t \<in> set (chatHistory (fst (focused_run getModel chat events ?init))).
       role t = ''user'' \<or> role t = ''assistant''"
    by (rule run_roles) (simp add: fresh_session_def)
  moreover have "isProcessing (fst (focused_run getModel chat events ?init))
        \<longleftrightarrow> snd (focused_run getModel chat events ?init) \<noteq> None"
    using f by (rule run_flag)
  moreover have "conversation_ok (chatHistory (fst (focused_run getModel chat events ?init)))"
    if "undisturbed getModel chat events ?init"
    using _ _ f that by (rule run_first_entry) (simp_all add: fresh_session_def conversation_ok_def)
  moreover have "chatHistory (fst (focused_step getModel chat (Send msg) st))
       = (if currentModel (fst st) \<noteq> None \<and> currentModel (fst st) \<noteq> Some [] \<and> \<not> blank msg
             \<and> \<not> isProcessing (fst st)
          then chatHistory (fst st) @ [\<lparr>role = ''user'', content = JStr msg\<rparr>]
          else chatHistory (fst st))"
    using start_send_history [of getModel msg st] by simp
  moreover have "chatHistory (fst (focused_step getModel chat Arrive
                         (s, Some (AwaitStreamPart messageDiv fullContent [] fin))))
       = (case fin of
            None \<Rightarrow> chatHistory s @ [\<lparr>role = ''assistant'', content = JStr fullContent\<rparr>]
          | Some error \<Rightarrow> chatHistory s)"
    by (simp add: assistant_turn_def split: option.splits)
  moreover have "chatHistory (fst (focused_step getModel chat Arrive
                                (s, Some (AwaitDirect m messages sentMessage typingIndicator))))
           = chatHistory s @ [\<lparr>role = ''assistant'', content = JStr c\<rparr>]"
    if "chat \<lparr>input = Turns messages, options = parameters m\<rparr> = Resolves v"
      and "extractContentFromResponse v = Inr (JStr c)"
    using that by (rule blocking_answer_pushed)
  ultimately show ?thesis
    using step_history(1) [of getModel chat modelId st] step_history(3) [of getModel chat st]
    by blast
qed

theorem conversation_append_only_witness:
  "undisturbed sample_registry (constant_gateway (JStr ''Hello''))
      [Select ''a'', Send ''hi'', Arrive, Arrive] (fresh_session, None)
   \<and> snd (focused_run sample_registry (constant_gateway (JStr ''Hello''))
        [Select ''a'', Send ''hi'', Arrive] (fresh_session, None))
      = Some (AwaitDirect (sample_model ''a'')
                [system_turn (sample_model ''a''), \<lparr>role = ''user'', content = JStr ''hi''\<rparr>]
                ''hi'' (Some 1))
   \<and> constant_gateway (JStr ''Hello'')
        \<lparr>input = Turns [system_turn (sample_model ''a''), \<lparr>role = ''user'', content = JStr ''hi''\<rparr>],
         options = parameters (sample_model ''a'')\<rparr> = Resolves (JStr ''Hello'')
   \<and> extractContentFromResponse (JStr ''Hello'') = Inr (JStr ''Hello'')
   \<and> chatHistory (fst (focused_run sample_registry (constant_gateway (JStr ''Hello''))
        [Select ''a'', Send ''hi'', Arrive, Arrive] (fresh_session, None)))
      = [\<lparr>role = ''user'', content = JStr ''hi''\<rparr>,
         \<lparr>role = ''assistant'', content = JStr ''Hello''\<rparr>]
   \<and> conversation_ok (chatHistory (fst (focused_run sample_registry
        (constant_gateway (JStr ''Hello'')) [Select ''a'', Send ''hi'', Arrive, Arrive]
        (fresh_session, None))))
   \<and> snd (focused_run sample_registry (constant_gateway (JStr ''Hello''))
        [Select ''a'', Send ''hi'', Arrive, Arrive] (fresh_session, None)) = None
   \<and> \<not> blank ''more''
   \<and> chatHistory (fst (focused_step sample_registry (constant_gateway (JStr ''Hello''))
        (Send ''more'')
        (focused_run sample_registry (constant_gateway (JStr ''Hello''))
          [Select ''a'', Send ''hi'', Arrive, Arrive] (fresh_session, None))))
      = [\<lparr>role = ''user'', content = JStr ''hi''\<rparr>,
         \<lparr>role = ''assistant'', content = JStr ''Hello''\<rparr>,
         \<lparr>role = ''user'', content = JStr ''more''\<rparr>]
   \<and> ''b'' \<noteq> ([] :: string)
   \<and> chatHistory (fst (focused_step sample_registry (constant_gateway (JStr ''Hello''))
        (Select ''b'')
        (focused_run sample_registry (constant_gateway (JStr ''Hello''))
          [Select ''a'', Send ''hi'', Arrive, Arrive] (fresh_session, None)))) = []"
proof -
  let ?G = "constant_gateway (JStr ''Hello'')"
  let ?E = "[Select ''a'', Send ''hi'', Arrive, Arrive]"
  let ?R = "focused_run sample_registry ?G ?E (fresh_session, None)"
  let ?P = "focused_run sample_registry ?G [Select ''a'', Send ''hi'', Arrive] (fresh_session, None)"
  let ?m = "sample_model ''a''"
  let ?messages = "[system_turn ?m, \<lparr>role = ''user'', content = JStr ''hi''\<rparr>]"
  have 1: "undisturbed sample_registry ?G ?E (fresh_session, None)"
    by code_simp
  have 2: "snd ?P = Some (AwaitDirect ?m ?messages ''hi'' (Some 1))"
    by code_simp
  have 3: "?G \<lparr>input = Turns ?messages, options = parameters ?m\<rparr> = Resolves (JStr ''Hello'')"
    by (simp add: constant_gateway_def)
  have 4: "extractContentFromResponse (JStr ''Hello'') = Inr (JStr ''Hello'')"
    by (rule extract_plain_text)
  have 5: "chatHistory (fst ?P) = [\<lparr>role = ''user'', content = JStr ''hi''\<rparr>]"
    by code_simp
  have 6: "currentModel (fst ?R) = Some ''a''" "\<not> isProcessing (fst ?R)" "\<not> blank ''more''"
    by code_simp+
  have pending: "?P = (fst ?P, Some (AwaitDirect ?m ?messages ''hi'' (Some 1)))"
    using 2 by (metis prod.collapse)
  have "?R = focused_step sample_registry ?G Arrive ?P"
    by (simp add: focused_run_def del: focused_step.simps)
  also have "\<dots> = focused_step sample_registry ?G Arrive
                      (fst ?P, Some (AwaitDirect ?m ?messages ''hi'' (Some 1)))"
    using pending by (rule arg_cong)
  finally have run: "?R = focused_step sample_registry ?G Arrive
                      (fst ?P, Some (AwaitDirect ?m ?messages ''hi'' (Some 1)))" .
  note fact = conversation_append_only [where getModel = sample_registry and chat = ?G
      and events = ?E and modelId = "''b''" and st = ?R and msg = "''more''"
      and s = "fst ?P" and m = ?m and messages = ?messages and v = "JStr ''Hello''"
      and c = "''Hello''" and sentMessage = "''hi''" and typingIndicator = "Some 1"]
  from fact 3 4 have "chatHistory (fst (focused_step sample_registry ?G Arrive
        (fst ?P, Some (AwaitDirect ?m ?messages ''hi'' (Some 1)))))
      = chatHistory (fst ?P) @ [\<lparr>role = ''assistant'', content = JStr ''Hello''\<rparr>]"
    by blast
  then have history: "chatHistory (fst ?R)
      = [\<lparr>role = ''user'', content = JStr ''hi''\<rparr>, \<lparr>role = ''assistant'', content = JStr ''Hello''\<rparr>]"
    unfolding run 5 by simp
  from fact 1 have ok: "conversation_ok (chatHistory (fst ?R))"
    by blast
  from fact 6 have idle: "snd ?R = None"
    by blast
  from fact 6 have more: "chatHistory (fst (focused_step sample_registry ?G (Send ''more'') ?R))
      = chatHistory (fst ?R) @ [\<lparr>role = ''user'', content = JStr ''more''\<rparr>]"
    by simp
  from fact have cleared: "chatHistory (fst (focused_step sample_registry ?G (Select ''b'') ?R)) = []"
    by simp
  show ?thesis
    using 1 2 3 4 6 history ok idle more cleared by simp
qed

end
